(* ===== verification/Prelude.thy ===== *)
theory Prelude
  imports Main "HOL-Library.Sublist"
begin

text \<open>
  Shared vocabulary of the development: the named collections the component
  theories add to, the type names of the model, and generic lemmas on lists
  and options that several components use (splitting a string at the first
  character of a class, the shape of a reversed drop, options that are
  \<open>Some\<close> of a non-empty value).
\<close>

named_theorems py_simps \<open>evaluation rules of the Python runtime model\<close>
named_theorems trace_simps \<open>rules describing the event trace a step appends\<close>

type_synonym path = string
type_synonym url = string

text \<open>The newline character, as a one-character string.\<close>

abbreviation NL :: string where
  "NL \<equiv> [CHR 0x0A]"

subsection \<open>Splitting a list at the first element outside a class\<close>

lemma takeWhile_append_stop:
  assumes "\<forall>x\<in>set xs. P x" and "ys = [] \<or> \<not> P (hd ys)"
  shows "takeWhile P (xs @ ys) = xs"
  using assms by (cases ys) (simp_all add: takeWhile_append2)

lemma dropWhile_append_stop:
  assumes "\<forall>x\<in>set xs. P x" and "ys = [] \<or> \<not> P (hd ys)"
  shows "dropWhile P (xs @ ys) = ys"
  using assms by (cases ys) (simp_all add: dropWhile_append2)

lemma dropWhile_stop: "dropWhile P xs = [] \<or> \<not> P (hd (dropWhile P xs))"
  by (induction xs) auto

lemma takeWhile_all: "\<forall>x\<in>set (takeWhile P xs). P x"
  by (auto dest: set_takeWhileD)

lemma dropWhile_Cons_split:
  "dropWhile P xs = y # ys \<Longrightarrow> xs = takeWhile P xs @ y # ys \<and> \<not> P y"
  by (metis dropWhile_eq_Cons_conv takeWhile_dropWhile_id)

lemma all_le_Suc_conv: "(\<forall>i\<le>Suc n. P i) \<longleftrightarrow> P 0 \<and> (\<forall>i\<le>n. P (Suc i))"
  using All_less_Suc2 [of "Suc n" P] by (simp add: less_Suc_eq_le)

subsection \<open>Stripping a trailing run\<close>

text \<open>\<open>rev (dropWhile P (rev xs))\<close> removes the longest suffix of elements in
  \<open>P\<close>; these are its characteristic cases.\<close>

lemma rev_dropWhile_rev_id:
  "xs = [] \<or> \<not> P (last xs) \<Longrightarrow> rev (dropWhile P (rev xs)) = xs"
  by (cases xs rule: rev_cases) auto

lemma rev_dropWhile_rev_stop:
  assumes "xs = [] \<or> \<not> P (last xs)"
  shows "rev (dropWhile P (rev (xs @ ys))) = (if \<forall>y\<in>set ys. P y then xs else
           xs @ rev (dropWhile P (rev ys)))"
proof (cases "\<forall>y\<in>set ys. P y")
  case True
  then have "dropWhile P (rev ys @ rev xs) = dropWhile P (rev xs)"
    by (intro dropWhile_append2) simp
  with True assms show ?thesis by (simp add: rev_dropWhile_rev_id)
next
  case False
  then obtain y where "y \<in> set (rev ys)" and "\<not> P y" by auto
  then have "dropWhile P (rev ys @ rev xs) = dropWhile P (rev ys) @ rev xs"
    by (rule dropWhile_append1)
  with False show ?thesis by simp
qed

lemma rev_dropWhile_rev_prefix: "prefix (rev (dropWhile P (rev xs))) xs"
  by (metis prefix_def rev_append rev_rev_ident takeWhile_dropWhile_id)

end
