(* ===== verification/PyRuntime.thy ===== *)
theory PyRuntime
  imports Prelude
begin

text \<open>
  The part of the Python runtime the program relies on, as executable HOL:
  the exceptions it raises or catches (with \<open>str(e)\<close>), the truth value of an
  \<open>Optional[str]\<close>, and the \<open>str\<close> methods \<open>rstrip\<close>, \<open>strip\<close> and
  \<open>startswith\<close>, \<open>repr\<close> of strings and lists of strings, and \<open>str\<close> of
  an \<open>int\<close>. Python strings are modelled as \<open>string\<close>, i.e. lists of 8-bit
  characters (code points 0 to 255, the Latin-1 range); the character classes
  below are Python's for that range.
\<close>

subsection \<open>Exceptions\<close>

text \<open>One constructor per exception class the program can meet; the argument is
  the message, which is what \<open>str(e)\<close> returns for each of them.\<close>

datatype exc =
    ValueError string
  | AttributeError string
  | JSONDecodeError string
  | GithubException string
  | AssertionError string
  | IndexError string
  | TypeError string
  | ServiceError string

fun exc_str :: "exc \<Rightarrow> string" where
  "exc_str (ValueError m) = m"
| "exc_str (AttributeError m) = m"
| "exc_str (JSONDecodeError m) = m"
| "exc_str (GithubException m) = m"
| "exc_str (AssertionError m) = m"
| "exc_str (IndexError m) = m"
| "exc_str (TypeError m) = m"
| "exc_str (ServiceError m) = m"

subsection \<open>Truth values\<close>

text \<open>\<open>if x:\<close> and \<open>x or y\<close> on an \<open>Optional[str]\<close>: \<open>None\<close> and the empty
  string are false.\<close>

definition py_truthy_str :: "string option \<Rightarrow> bool" where
  "py_truthy_str x = (case x of None \<Rightarrow> False | Some s \<Rightarrow> s \<noteq> [])"

subsection \<open>String methods\<close>

text \<open>\<open>sep.join(xs)\<close>.\<close>

fun py_join :: "string \<Rightarrow> string list \<Rightarrow> string" where
  "py_join sep [] = []"
| "py_join sep [x] = x"
| "py_join sep (x # y # zs) = x @ sep @ py_join sep (y # zs)"

text \<open>\<open>s.rstrip(chars)\<close> removes the longest suffix made of characters of
  \<open>chars\<close> (a set of characters, not a suffix string).\<close>

definition py_rstrip :: "string \<Rightarrow> string \<Rightarrow> string" where
  "py_rstrip chars s = rev (dropWhile (\<lambda>c. c \<in> set chars) (rev s))"

text \<open>\<open>str.isspace\<close> on code points below 256: TAB to CR, the four
  separators 0x1C to 0x1F, SPACE, NEL (0x85) and NO-BREAK SPACE (0xA0).\<close>

definition py_isspace :: "char \<Rightarrow> bool" where
  "py_isspace c \<longleftrightarrow>
     (let n = (of_char c :: nat) in
        (9 \<le> n \<and> n \<le> 13) \<or> (28 \<le> n \<and> n \<le> 32) \<or> n = 133 \<or> n = 160)"

definition py_strip :: "string \<Rightarrow> string" where
  "py_strip s = rev (dropWhile py_isspace (rev (dropWhile py_isspace s)))"

abbreviation py_startswith :: "string \<Rightarrow> string \<Rightarrow> bool" where
  "py_startswith s p \<equiv> prefix p s"

subsection \<open>repr and str\<close>

definition hex_digit :: "nat \<Rightarrow> char" where
  "hex_digit n = (if n < 10 then char_of (48 + n) else char_of (87 + n))"

definition hex2 :: "nat \<Rightarrow> string" where
  "hex2 n = [hex_digit (n div 16), hex_digit (n mod 16)]"

text \<open>\<open>str.isprintable\<close> below 256: ASCII 0x20 to 0x7E and Latin-1 0xA1 to
  0xFF except the soft hyphen 0xAD.\<close>

definition py_isprintable :: "char \<Rightarrow> bool" where
  "py_isprintable c \<longleftrightarrow>
     (let n = (of_char c :: nat) in (32 \<le> n \<and> n \<le> 126) \<or> (161 \<le> n \<and> n \<noteq> 173))"

text \<open>\<open>repr(s)\<close>: single quotes unless \<open>s\<close> holds a single quote and no
  double quote; the chosen quote and the backslash are escaped, TAB, LF, CR
  by their short escapes, and every other non-printable character as
  \<open>\xhh\<close>.\<close>

definition py_repr_char :: "char \<Rightarrow> char \<Rightarrow> string" where
  "py_repr_char q c =
     (if c = q \<or> c = CHR 0x5C then [CHR 0x5C, c]
      else if c = CHR 0x09 then [CHR 0x5C, CHR ''t'']
      else if c = CHR 0x0A then [CHR 0x5C, CHR ''n'']
      else if c = CHR 0x0D then [CHR 0x5C, CHR ''r'']
      else if py_isprintable c then [c]
      else [CHR 0x5C, CHR ''x''] @ hex2 (of_char c))"

definition py_repr_str :: "string \<Rightarrow> string" where
  "py_repr_str s =
     (let q = (if CHR 0x27 \<in> set s \<and> CHR 0x22 \<notin> set s then CHR 0x22 else CHR 0x27)
      in q # concat (map (py_repr_char q) s) @ [q])"

text \<open>\<open>str(xs)\<close> for a list of strings, as an f-string renders it.\<close>

definition py_repr_str_list :: "string list \<Rightarrow> string" where
  "py_repr_str_list xs = ''['' @ py_join '', '' (map py_repr_str xs) @ '']''"

text \<open>\<open>str(n)\<close> for an \<open>int\<close>: decimal digits, a minus sign when negative.\<close>

fun string_of_nat :: "nat \<Rightarrow> string" where
  "string_of_nat n =
     (if n < 10 then [char_of (48 + n)] else string_of_nat (n div 10) @ [char_of (48 + n mod 10)])"

declare string_of_nat.simps [simp del]

definition string_of_int :: "int \<Rightarrow> string" where
  "string_of_int i = (if i < 0 then CHR ''-'' # string_of_nat (nat (- i)) else string_of_nat (nat i))"

subsection \<open>Lemmas\<close>

lemma py_truthy_str_simps [simp, py_simps]:
  "\<not> py_truthy_str None"
  "py_truthy_str (Some s) \<longleftrightarrow> s \<noteq> []"
  by (simp_all add: py_truthy_str_def)

lemma py_rstrip_keep [py_simps]:
  "py_rstrip chars (r @ sfx) = r"
  if "r = [] \<or> last r \<notin> set chars" and "set sfx \<subseteq> set chars"
proof -
  have "\<forall>y\<in>set sfx. y \<in> set chars" using that(2) by blast
  then show ?thesis
    using rev_dropWhile_rev_stop [of r "\<lambda>c. c \<in> set chars" sfx] that(1)
    by (simp add: py_rstrip_def)
qed

lemma py_rstrip_prefix: "prefix (py_rstrip chars s) s"
  by (simp add: py_rstrip_def rev_dropWhile_rev_prefix)

lemma py_rstrip_strip_suffix:
  "set sfx \<subseteq> set chars \<Longrightarrow> py_rstrip chars (r @ sfx) = py_rstrip chars r"
  by (auto simp: py_rstrip_def dropWhile_append)

lemma py_rstrip_shorter:
  "r \<noteq> [] \<Longrightarrow> last r \<in> set chars \<Longrightarrow> length (py_rstrip chars r) < length r"
  by (cases r rule: rev_cases) (auto simp: py_rstrip_def less_Suc_eq_le, metis length_dropWhile_le length_rev)

lemma dropWhile_idle: "xs = [] \<or> \<not> P (hd xs) \<Longrightarrow> dropWhile P xs = xs"
  by (cases xs) auto

lemma py_strip_empty_iff: "py_strip s = [] \<longleftrightarrow> (\<forall>c\<in>set s. py_isspace c)"
proof -
  have "py_strip s = [] \<longleftrightarrow> (\<forall>c\<in>set (dropWhile py_isspace s). py_isspace c)"
    by (simp add: py_strip_def)
  also have "\<dots> \<longleftrightarrow> dropWhile py_isspace s = []"
    using dropWhile_stop [of py_isspace s]
    by (cases "dropWhile py_isspace s") (auto dest: set_dropWhileD)
  finally show ?thesis by simp
qed

lemma string_of_nat_not_Nil: "string_of_nat n \<noteq> []"
  by (subst string_of_nat.simps) simp

text \<open>For a string of printable characters without quotes or backslashes,
  \<open>repr\<close> only adds the single quotes.\<close>

lemma py_isprintable_not_ctrl:
  "py_isprintable c \<Longrightarrow> c \<noteq> CHR 0x09 \<and> c \<noteq> CHR 0x0A \<and> c \<noteq> CHR 0x0D"
  by (auto simp: py_isprintable_def)

lemma py_repr_char_plain:
  "py_isprintable c \<Longrightarrow> c \<noteq> q \<Longrightarrow> c \<noteq> CHR 0x5C \<Longrightarrow> py_repr_char q c = [c]"
  using py_isprintable_not_ctrl [of c] by (simp add: py_repr_char_def)

lemma py_repr_str_plain:
  assumes "\<forall>c\<in>set s. py_isprintable c \<and> c \<noteq> CHR 0x27 \<and> c \<noteq> CHR 0x5C"
  shows "py_repr_str s = CHR 0x27 # s @ [CHR 0x27]"
proof -
  have "concat (map (py_repr_char (CHR 0x27)) s) = s"
    using assms by (induction s) (simp_all add: py_repr_char_plain)
  moreover have "CHR 0x27 \<notin> set s" using assms by blast
  ultimately show ?thesis by (simp add: py_repr_str_def Let_def)
qed

end
