(* ===== verification/Json.thy ===== *)
theory Json
  imports PyRuntime
begin

text \<open>
  JSON values as the program handles them: what \<open>json.loads\<close> returns
  (\<open>dict\<close>, \<open>list\<close>, \<open>str\<close>, \<open>int\<close>, \<open>bool\<close>, \<open>None\<close>), the
  \<open>dict.get\<close> calls of \<open>analyze_github_repo\<close> (which raise
  \<open>AttributeError\<close> on a value that is not a dict), and \<open>json.dumps(v,
  indent=2)\<close> with its default \<open>ensure_ascii=True\<close>. A dict is an association
  list in insertion order; the dicts the program builds have distinct keys.
  JSON numbers with a fraction or exponent (Python floats) are not modelled.
\<close>

datatype jvalue =
    JNull
  | JBool bool
  | JInt int
  | JStr string
  | JArr "jvalue list"
  | JObj "(string \<times> jvalue) list"

subsection \<open>dict.get\<close>

definition py_dict_get :: "(string \<times> jvalue) list \<Rightarrow> string \<Rightarrow> jvalue \<Rightarrow> jvalue" where
  "py_dict_get d k dflt = (case map_of d k of Some v \<Rightarrow> v | None \<Rightarrow> dflt)"

fun py_type_name :: "jvalue \<Rightarrow> string" where
  "py_type_name JNull = ''NoneType''"
| "py_type_name (JBool _) = ''bool''"
| "py_type_name (JInt _) = ''int''"
| "py_type_name (JStr _) = ''str''"
| "py_type_name (JArr _) = ''list''"
| "py_type_name (JObj _) = ''dict''"

text \<open>\<open>v.get(k, dflt)\<close>: only a dict has \<open>get\<close>; on any other value the
  attribute lookup raises.\<close>

definition no_get_error :: "jvalue \<Rightarrow> exc" where
  "no_get_error v =
     AttributeError (CHR 0x27 # py_type_name v @ CHR 0x27 # '' object has no attribute '' @
                     CHR 0x27 # ''get'' @ [CHR 0x27])"

definition py_get :: "jvalue \<Rightarrow> string \<Rightarrow> jvalue \<Rightarrow> exc + jvalue" where
  "py_get v k dflt =
     (case v of JObj d \<Rightarrow> Inr (py_dict_get d k dflt) | _ \<Rightarrow> Inl (no_get_error v))"

text \<open>An \<open>Optional[str]\<close> stored in a dict: \<open>None\<close> becomes \<open>null\<close>.\<close>

definition json_opt_str :: "string option \<Rightarrow> jvalue" where
  "json_opt_str x = (case x of None \<Rightarrow> JNull | Some s \<Rightarrow> JStr s)"

subsection \<open>json.dumps(indent=2)\<close>

text \<open>String literals with \<open>ensure_ascii\<close>: the quote and the backslash are
  escaped, the five control characters with a short escape use it, and every
  other character outside SPACE to TILDE is written \<open>\u00hh\<close>.\<close>

definition json_escape_char :: "char \<Rightarrow> string" where
  "json_escape_char c =
     (let n = (of_char c :: nat) in
      if c = CHR 0x22 then [CHR 0x5C, CHR 0x22]
      else if c = CHR 0x5C then [CHR 0x5C, CHR 0x5C]
      else if n = 10 then [CHR 0x5C, CHR ''n'']
      else if n = 13 then [CHR 0x5C, CHR ''r'']
      else if n = 9 then [CHR 0x5C, CHR ''t'']
      else if n = 8 then [CHR 0x5C, CHR ''b'']
      else if n = 12 then [CHR 0x5C, CHR ''f'']
      else if n < 32 \<or> 126 < n then [CHR 0x5C, CHR ''u'', CHR ''0'', CHR ''0''] @ hex2 n
      else [c])"

definition json_str :: "string \<Rightarrow> string" where
  "json_str s = CHR 0x22 # concat (map json_escape_char s) @ [CHR 0x22]"

definition nl_indent :: "nat \<Rightarrow> string" where
  "nl_indent l = CHR 0x0A # replicate (2 * l) (CHR '' '')"

text \<open>\<open>dumps_at l v\<close> prints \<open>v\<close> nested \<open>l\<close> levels deep: an empty list or
  dict is \<open>[]\<close> or \<open>{}\<close>; otherwise each item goes on its own line indented
  by two more spaces, items separated by a comma, the closing bracket on a line
  of its own at the outer indentation; a key is followed by \<open>": "\<close>.\<close>

fun dumps_at :: "nat \<Rightarrow> jvalue \<Rightarrow> string" where
  "dumps_at l JNull = ''null''"
| "dumps_at l (JBool b) = (if b then ''true'' else ''false'')"
| "dumps_at l (JInt i) = string_of_int i"
| "dumps_at l (JStr s) = json_str s"
| "dumps_at l (JArr vs) =
     (if vs = [] then ''[]''
      else ''['' @ nl_indent (Suc l) @
           py_join ('','' @ nl_indent (Suc l)) (map (dumps_at (Suc l)) vs) @
           nl_indent l @ '']'')"
| "dumps_at l (JObj kvs) =
     (if kvs = [] then ''{}''
      else ''{'' @ nl_indent (Suc l) @
           py_join ('','' @ nl_indent (Suc l))
             (map (\<lambda>kv. json_str (fst kv) @ '': '' @ dumps_at (Suc l) (snd kv)) kvs) @
           nl_indent l @ ''}'')"

definition json_dumps :: "jvalue \<Rightarrow> string" where
  "json_dumps v = dumps_at 0 v"

subsection \<open>Lemmas\<close>

lemma py_get_JObj [simp]: "py_get (JObj d) k dflt = Inr (py_dict_get d k dflt)"
  by (simp add: py_get_def)

lemma py_get_not_dict: "(\<forall>d. v \<noteq> JObj d) \<Longrightarrow> \<exists>e. py_get v k dflt = Inl e"
  by (cases v) (auto simp: py_get_def)

lemma dumps_at_JObj_hd: "hd (dumps_at l (JObj kvs)) = CHR ''{''"
  by simp

lemma json_dumps_JObj_prefix: "\<exists>rest. json_dumps (JObj kvs) = CHR ''{'' # rest"
  by (simp add: json_dumps_def)

subsection \<open>The dump is ASCII\<close>

lemma of_char_char_of_small: "k < 256 \<Longrightarrow> (of_char (char_of k :: char) :: nat) = k"
  by (simp add: of_char_of)

lemma hex_digit_ascii: "n < 16 \<Longrightarrow> (of_char (hex_digit n) :: nat) < 128"
  by (simp add: hex_digit_def of_char_char_of_small)

lemma hex2_ascii: "n < 256 \<Longrightarrow> set (hex2 n) \<subseteq> {c. (of_char c :: nat) < 128}"
  by (auto simp: hex2_def intro!: hex_digit_ascii)

lemma json_escape_char_ascii: "set (json_escape_char c) \<subseteq> {c. (of_char c :: nat) < 128}"
proof -
  have "(of_char c :: nat) < 256" by (rule nat_of_char_less_256)
  then show ?thesis
    using hex2_ascii [of "of_char c"] by (auto simp: json_escape_char_def Let_def)
qed

lemma string_of_nat_ascii: "set (string_of_nat n) \<subseteq> {c. (of_char c :: nat) < 128}"
proof (induction n rule: string_of_nat.induct)
  case (1 n)
  have "(of_char (char_of (48 + n mod 10) :: char) :: nat) < 128"
    by (simp add: of_char_char_of_small)
  moreover have "n < 10 \<Longrightarrow> (of_char (char_of (48 + n) :: char) :: nat) < 128"
    by (simp add: of_char_char_of_small)
  ultimately show ?case using 1 by (subst string_of_nat.simps) auto
qed

lemma py_join_subset:
  "set sep \<subseteq> A \<Longrightarrow> (\<And>x. x \<in> set xs \<Longrightarrow> set x \<subseteq> A) \<Longrightarrow> set (py_join sep xs) \<subseteq> A"
  by (induction sep xs rule: py_join.induct) auto

lemma nl_indent_ascii: "set (nl_indent l) \<subseteq> {c. (of_char c :: nat) < 128}"
  by (auto simp: nl_indent_def)

lemma json_str_ascii: "set (json_str s) \<subseteq> {c. (of_char c :: nat) < 128}"
  using json_escape_char_ascii by (auto simp: json_str_def)

lemma dumps_at_ascii: "set (dumps_at l v) \<subseteq> {c. (of_char c :: nat) < 128}"
proof (induction l v rule: dumps_at.induct)
  case (3 l i)
  then show ?case using string_of_nat_ascii by (auto simp: string_of_int_def)
next
  case (5 l vs)
  show ?case
  proof (cases "vs = []")
    case False
  have "set (py_join ('','' @ nl_indent (Suc l)) (map (dumps_at (Suc l)) vs))
          \<subseteq> {c. (of_char c :: nat) < 128}"
    by (rule py_join_subset) (use 5 [OF False] nl_indent_ascii in auto)
  then show ?thesis using nl_indent_ascii [of l] nl_indent_ascii [of "Suc l"] by simp
  qed simp
next
  case (6 l kvs)
  show ?case
  proof (cases "kvs = []")
    case False
  have "set (py_join ('','' @ nl_indent (Suc l))
            (map (\<lambda>kv. json_str (fst kv) @ '': '' @ dumps_at (Suc l) (snd kv)) kvs))
          \<subseteq> {c. (of_char c :: nat) < 128}"
  proof (rule py_join_subset)
    show "set ('','' @ nl_indent (Suc l)) \<subseteq> {c. (of_char c :: nat) < 128}"
      using nl_indent_ascii [of "Suc l"] by simp
  next
    fix x
    assume "x \<in> set (map (\<lambda>kv. json_str (fst kv) @ '': '' @ dumps_at (Suc l) (snd kv)) kvs)"
    then obtain k v where kv: "(k, v) \<in> set kvs" and x: "x = json_str k @ '': '' @ dumps_at (Suc l) v"
      by auto
    show "set x \<subseteq> {c. (of_char c :: nat) < 128}"
      using 6 [OF False kv] json_str_ascii [of k] x by simp
  qed
  then show ?thesis using nl_indent_ascii [of l] nl_indent_ascii [of "Suc l"] by simp
  qed simp
qed (simp_all add: json_str_ascii)

subsection \<open>Properties of the serialisation\<close>

text \<open>C29. \<open>json.dumps\<close> with its default \<open>ensure_ascii=True\<close> writes only
  ASCII characters, whatever the strings in the context hold: the context the
  program sends to the completion service is ASCII text.\<close>

theorem json_dumps_ascii: "set (json_dumps v) \<subseteq> {c. (of_char c :: nat) < 128}"
  by (simp add: json_dumps_def dumps_at_ascii)

end
