(* ===== verification/World.thy ===== *)
theory World
  imports Json
begin

text \<open>
  The environment the program runs against and what it observes of it. The
  program's effects are recorded in one event trace, in the order they happen:
  calls to the GitHub API, calls to the completion service, lines printed on
  standard output and log records. Everything outside \<open>src/\<close> that the code
  calls is a field of the \<open>world\<close> record: the GitHub service, the completion
  service, and the two library steps whose internals the code does not depend
  on (\<open>base64.b64decode(...).decode()\<close> and \<open>json.loads\<close>). Each may fail,
  with the exception it raises; the completion service may answer differently
  on each call, so it sees the whole trace so far.
\<close>

datatype chat_msg = SystemMessage string | UserMessage string

datatype level = INFO | ERROR

datatype event =
    GhGetRepo string
  | GhGetContents path
  | Complete "chat_msg list" nat "string option"
  | Print string
  | Log level string
  | Input string

type_synonym trace = "event list"

text \<open>A repository object of PyGithub: the encoded content of each path
  (\<open>None\<close> when \<open>get_contents\<close> raises or the result has no
  \<open>content\<close>), and the metadata the program reads.\<close>

record gh_repo =
  contents :: "path \<Rightarrow> string option"
  stargazers_count :: int
  open_issues_count :: int
  updated_at :: string

text \<open>A completion response: the message content of each choice (the SDK's
  \<open>content\<close> is optional).\<close>

record chat_response =
  choices :: "string option list"

record world =
  get_repo :: "string \<Rightarrow> exc + gh_repo"
  b64decode_utf8 :: "string \<Rightarrow> string option"
  json_loads :: "string \<Rightarrow> exc + jvalue"
  complete :: "trace \<Rightarrow> exc + chat_response"

subsection \<open>Observations of a trace\<close>

text \<open>\<open>print(s)\<close> writes \<open>s\<close> and a newline; \<open>input(p)\<close> writes the
  prompt \<open>p\<close> alone (the line typed in is echoed by the terminal, not the
  program).\<close>

fun stdout :: "trace \<Rightarrow> string" where
  "stdout [] = []"
| "stdout (Print s # es) = s @ CHR 0x0A # stdout es"
| "stdout (Input p # es) = p @ stdout es"
| "stdout (_ # es) = stdout es"

fun is_complete :: "event \<Rightarrow> bool" where
  "is_complete (Complete _ _ _) = True"
| "is_complete _ = False"

fun is_github :: "event \<Rightarrow> bool" where
  "is_github (GhGetRepo _) = True"
| "is_github (GhGetContents _) = True"
| "is_github _ = False"

definition completions :: "trace \<Rightarrow> event list" where
  "completions tr = filter is_complete tr"

definition github_calls :: "trace \<Rightarrow> event list" where
  "github_calls tr = filter is_github tr"

lemma stdout_append [simp, trace_simps]: "stdout (xs @ ys) = stdout xs @ stdout ys"
  by (induction xs rule: stdout.induct) auto

lemma completions_append [simp, trace_simps]:
  "completions (xs @ ys) = completions xs @ completions ys"
  by (simp add: completions_def)

lemma github_calls_append [simp, trace_simps]:
  "github_calls (xs @ ys) = github_calls xs @ github_calls ys"
  by (simp add: github_calls_def)

lemma observations_single [simp, trace_simps]:
  "completions [GhGetRepo r] = []" "completions [GhGetContents p] = []"
  "completions [Print s] = []" "completions [Log l s] = []"
  "completions [Complete m n k] = [Complete m n k]"
  "github_calls [GhGetRepo r] = [GhGetRepo r]" "github_calls [GhGetContents p] = [GhGetContents p]"
  "github_calls [Print s] = []" "github_calls [Log l s] = []"
  "github_calls [Complete m n k] = []"
  "stdout [Print s] = s @ [CHR 0x0A]" "stdout [Log l s] = []"
  "stdout [GhGetRepo r] = []" "stdout [GhGetContents p] = []" "stdout [Complete m n k] = []"
  "completions [Input p] = []" "github_calls [Input p] = []" "stdout [Input p] = p"
  "completions [] = []" "github_calls [] = []"
  by (simp_all add: completions_def github_calls_def)

end
