(* ===== verification/Fetcher.thy ===== *)
theory Fetcher
  imports World
begin

text \<open>
  The repository fetcher: \<open>get_file_content_safe\<close> (lines 132--138) and the
  first-found chains \<open>a or b or c ...\<close> of \<open>analyze_github_repo\<close> for the
  privacy policy (lines 171--174) and the license (lines 177--179). Every
  lookup issues one \<open>get_contents\<close> call, recorded as a
  \<open>GhGetContents\<close> event; any failure of the call or of the decoding gives
  \<open>None\<close>. The chain stops at the first candidate whose content is truthy
  (non-empty) and otherwise yields the last candidate's value.
\<close>

definition get_file_content_safe :: "world \<Rightarrow> gh_repo \<Rightarrow> path \<Rightarrow> trace \<Rightarrow> string option \<times> trace" where
  "get_file_content_safe w repo p tr =
     ((case contents repo p of None \<Rightarrow> None | Some c \<Rightarrow> b64decode_utf8 w c),
      tr @ [GhGetContents p])"

text \<open>\<open>get_file_content_safe(repo, p1) or get_file_content_safe(repo, p2) or
  ...\<close>: Python's \<open>or\<close> evaluates its right operand only when the left one is
  false, and returns the last operand when all are false.\<close>

fun first_found :: "world \<Rightarrow> gh_repo \<Rightarrow> path list \<Rightarrow> trace \<Rightarrow> string option \<times> trace" where
  "first_found w repo [] tr = (None, tr)"
| "first_found w repo [p] tr = get_file_content_safe w repo p tr"
| "first_found w repo (p # q # ps) tr =
     (case get_file_content_safe w repo p tr of
        (r, tr') \<Rightarrow> if py_truthy_str r then (r, tr') else first_found w repo (q # ps) tr')"

definition PRIVACY_CANDIDATES :: "path list" where
  "PRIVACY_CANDIDATES = [''PRIVACY.md'', ''PRIVACY_POLICY.md'', ''privacy.md'', ''privacy-policy.md'']"

definition LICENSE_CANDIDATES :: "path list" where
  "LICENSE_CANDIDATES = [''LICENSE'', ''LICENSE.md'', ''license.txt'']"

subsection \<open>The value of one lookup\<close>

text \<open>What a lookup of \<open>p\<close> yields does not depend on the trace.\<close>

definition fetched :: "world \<Rightarrow> gh_repo \<Rightarrow> path \<Rightarrow> string option" where
  "fetched w repo p = (case contents repo p of None \<Rightarrow> None | Some c \<Rightarrow> b64decode_utf8 w c)"

text \<open>The candidates a chain tries: those before the first truthy one, and
  that one (all of them when none is truthy).\<close>

definition tried :: "world \<Rightarrow> gh_repo \<Rightarrow> path list \<Rightarrow> path list" where
  "tried w repo ps =
     take (Suc (length (takeWhile (\<lambda>p. \<not> py_truthy_str (fetched w repo p)) ps))) ps"

text \<open>The value a chain yields: the first truthy candidate's, else the last one's.\<close>

definition found_value :: "world \<Rightarrow> gh_repo \<Rightarrow> path list \<Rightarrow> string option" where
  "found_value w repo ps =
     (case find (\<lambda>p. py_truthy_str (fetched w repo p)) ps of
        Some p \<Rightarrow> fetched w repo p
      | None \<Rightarrow> fetched w repo (last ps))"

subsection \<open>Lemmas\<close>

lemma get_file_content_safe_eq [simp]:
  "get_file_content_safe w repo p tr = (fetched w repo p, tr @ [GhGetContents p])"
  by (simp add: get_file_content_safe_def fetched_def)

lemma fetched_absent [simp]: "contents repo p = None \<Longrightarrow> fetched w repo p = None"
  by (simp add: fetched_def)

lemma first_found_eq:
  "ps \<noteq> [] \<Longrightarrow> first_found w repo ps tr =
     (found_value w repo ps, tr @ map GhGetContents (tried w repo ps))"
proof (induction w repo ps tr rule: first_found.induct)
  case (3 w repo p q ps tr)
  then show ?case by (auto simp: tried_def found_value_def split: option.splits)
qed (simp_all add: tried_def found_value_def)

lemma candidates_not_Nil [simp]: "PRIVACY_CANDIDATES \<noteq> []" "LICENSE_CANDIDATES \<noteq> []"
  by (simp_all add: PRIVACY_CANDIDATES_def LICENSE_CANDIDATES_def)

lemma found_value_absent:
  "ps \<noteq> [] \<Longrightarrow> (\<forall>p\<in>set ps. contents repo p = None) \<Longrightarrow> found_value w repo ps = None"
  by (auto simp: found_value_def find_None_iff split: option.splits dest: find_Some_iff [THEN iffD1])

lemma tried_absent:
  assumes "\<forall>p\<in>set ps. contents repo p = None"
  shows "tried w repo ps = ps"
proof -
  have "takeWhile (\<lambda>p. \<not> py_truthy_str (fetched w repo p)) ps = ps"
    using assms by (simp add: takeWhile_eq_all_conv)
  then have "length (takeWhile (\<lambda>p. \<not> py_truthy_str (fetched w repo p)) ps) = length ps"
    by (rule arg_cong)
  then show ?thesis by (simp only: tried_def take_all le_SucI le_refl)
qed

lemma find_dropWhile:
  "find Q xs = (case dropWhile (\<lambda>x. \<not> Q x) xs of [] \<Rightarrow> None | x # _ \<Rightarrow> Some x)"
  by (induction xs) auto

lemma take_Suc_takeWhile:
  "take (Suc (length (takeWhile P xs))) xs = takeWhile P xs @ take 1 (dropWhile P xs)"
  by (induction xs) auto

subsection \<open>Properties of the fetcher\<close>

text \<open>C14. A first-found chain over a non-empty list of candidates yields the
  value of the first candidate whose content is non-empty, or the last
  candidate's value when there is none; it requests the candidates in order up
  to and including that one, and no others.\<close>

theorem first_found_chain:
  assumes "ps \<noteq> []"
  shows "first_found w repo ps tr =
    ((case dropWhile (\<lambda>p. \<not> py_truthy_str (fetched w repo p)) ps of
        p # _ \<Rightarrow> fetched w repo p
      | [] \<Rightarrow> fetched w repo (last ps)),
     tr @ map GhGetContents
       (takeWhile (\<lambda>p. \<not> py_truthy_str (fetched w repo p)) ps @
        take 1 (dropWhile (\<lambda>p. \<not> py_truthy_str (fetched w repo p)) ps)))"
proof -
  let ?P = "\<lambda>p. \<not> py_truthy_str (fetched w repo p)"
  have v: "found_value w repo ps =
      (case dropWhile ?P ps of p # _ \<Rightarrow> fetched w repo p | [] \<Rightarrow> fetched w repo (last ps))"
    by (cases "dropWhile ?P ps") (simp_all add: found_value_def find_dropWhile del: dropWhile_eq_Nil_conv)
  have t: "tried w repo ps = takeWhile ?P ps @ take 1 (dropWhile ?P ps)"
    by (simp add: tried_def take_Suc_takeWhile)
  show ?thesis using assms by (simp add: first_found_eq v t)
qed

theorem first_found_chain_witness:
  "first_found
     \<lparr>get_repo = (\<lambda>_. Inl (GithubException [])), b64decode_utf8 = Some,
      json_loads = (\<lambda>_. Inl (JSONDecodeError [])), complete = (\<lambda>_. Inl (ServiceError []))\<rparr>
     \<lparr>contents = (\<lambda>p. if p = ''LICENSE.md'' then Some ''MIT'' else None),
      stargazers_count = 0, open_issues_count = 0, updated_at = []\<rparr>
     LICENSE_CANDIDATES []
   = (Some ''MIT'', [GhGetContents ''LICENSE'', GhGetContents ''LICENSE.md''])"
  using first_found_chain [of LICENSE_CANDIDATES
     "\<lparr>get_repo = (\<lambda>_. Inl (GithubException [])), b64decode_utf8 = Some,
       json_loads = (\<lambda>_. Inl (JSONDecodeError [])), complete = (\<lambda>_. Inl (ServiceError []))\<rparr>"
     "\<lparr>contents = (\<lambda>p. if p = ''LICENSE.md'' then Some ''MIT'' else None),
       stargazers_count = 0, open_issues_count = 0, updated_at = []\<rparr>" "[]"]
  by (simp add: LICENSE_CANDIDATES_def fetched_def)

end
