(* ===== verification/UrlParser.thy ===== *)
theory UrlParser
  imports PyRuntime
begin

text \<open>
  The URL parser, \<open>parse_github_url\<close> (\<open>src/langchain_flow.py\<close>, lines
  124--130). The code runs \<open>re.search\<close> with the pattern
  \<open>github\.com[/:]([^/]+)/([^/]+)\<close> and strips the repository group with
  \<open>rstrip('.git')\<close>. The search is modelled as an executable matcher at one
  position (\<open>match_at\<close>) and a left-to-right scan over the positions
  (\<open>search_github\<close>); \<open>regex_match\<close> is the regular expression's meaning at
  one position, written declaratively (leftmost match, greedy groups), and the
  refinement lemmas show that the scan computes exactly the leftmost match.
\<close>

subsection \<open>The matcher\<close>

abbreviation not_slash :: "char \<Rightarrow> bool" where
  "not_slash c \<equiv> c \<noteq> CHR ''/''"

text \<open>\<open>([^/]+)/([^/]+)\<close> at the start of \<open>r\<close>: the first group is the
  maximal run of non-slash characters, which must be followed by a slash (no
  shorter run is followed by one); the second group is the maximal run after it.\<close>

definition match_groups :: "string \<Rightarrow> (string \<times> string) option" where
  "match_groups r =
     (let own = takeWhile not_slash r in
      case dropWhile not_slash r of
        [] \<Rightarrow> None
      | _ # r2 \<Rightarrow>
          (let repo = takeWhile not_slash r2 in
           if own = [] \<or> repo = [] then None else Some (own, repo)))"

text \<open>The whole pattern at the start of \<open>s\<close>: the literal host, one of
  \<open>/\<close> and \<open>:\<close>, then the two groups.\<close>

definition match_at :: "string \<Rightarrow> (string \<times> string) option" where
  "match_at s =
     (if prefix ''github.com'' s then
        (case drop (length ''github.com'') s of
           [] \<Rightarrow> None
         | c # r \<Rightarrow> if c = CHR ''/'' \<or> c = CHR '':'' then match_groups r else None)
      else None)"

text \<open>\<open>re.search\<close>: try every start position from the left, the empty
  suffix included, and return the first match.\<close>

fun search_github :: "string \<Rightarrow> (string \<times> string) option" where
  "search_github [] = match_at []"
| "search_github (c # cs) =
     (case match_at (c # cs) of None \<Rightarrow> search_github cs | Some m \<Rightarrow> Some m)"

definition parse_github_url :: "string \<Rightarrow> exc + (string \<times> string)" where
  "parse_github_url url =
     (case search_github url of
        None \<Rightarrow> Inl (ValueError ''Invalid GitHub repository URL'')
      | Some (owner, repo) \<Rightarrow> Inr (owner, py_rstrip ''.git'' repo))"

subsection \<open>The regular expression's meaning\<close>

text \<open>The pattern matches at the start of \<open>s\<close> with groups \<open>own\<close> and
  \<open>repo\<close> when \<open>s\<close> is the host, a separator, \<open>own\<close>, a slash, \<open>repo\<close>
  and a rest; both groups are non-empty runs of non-slash characters, and the
  rest does not continue the greedy second group.\<close>

definition regex_match :: "string \<Rightarrow> string \<Rightarrow> string \<Rightarrow> bool" where
  "regex_match s own repo \<longleftrightarrow>
     (\<exists>c rest. s = ''github.com'' @ c # own @ CHR ''/'' # repo @ rest
        \<and> (c = CHR ''/'' \<or> c = CHR '':'')
        \<and> own \<noteq> [] \<and> CHR ''/'' \<notin> set own
        \<and> repo \<noteq> [] \<and> CHR ''/'' \<notin> set repo
        \<and> (rest = [] \<or> hd rest = CHR ''/''))"

subsection \<open>Refinement: the matcher computes the regular expression\<close>

lemma match_groups_Some:
  "match_groups r = Some (own, repo) \<longleftrightarrow>
     (\<exists>rest. r = own @ CHR ''/'' # repo @ rest \<and> own \<noteq> [] \<and> CHR ''/'' \<notin> set own
        \<and> repo \<noteq> [] \<and> CHR ''/'' \<notin> set repo \<and> (rest = [] \<or> hd rest = CHR ''/''))"
  (is "?l \<longleftrightarrow> ?r")
proof
  assume l: ?l
  then obtain x r2 where d0: "dropWhile not_slash r = x # r2"
    by (cases "dropWhile not_slash r")
      (simp_all add: match_groups_def Let_def del: dropWhile_eq_Nil_conv)
  have "\<not> not_slash x" using dropWhile_Cons_split [OF d0] by blast
  then have r: "r = takeWhile not_slash r @ CHR ''/'' # r2"
    using dropWhile_Cons_split [OF d0] by (metis (mono_tags))
  from l d0 have own: "own = takeWhile not_slash r" "own \<noteq> []"
    and repo: "repo = takeWhile not_slash r2" "repo \<noteq> []"
    by (auto simp: match_groups_def Let_def split: if_splits)
  have "r = own @ CHR ''/'' # repo @ dropWhile not_slash r2"
    using r own(1) repo(1) by simp
  moreover have "dropWhile not_slash r2 = [] \<or> hd (dropWhile not_slash r2) = CHR ''/''"
    using dropWhile_stop [of not_slash r2] by simp
  moreover have "CHR ''/'' \<notin> set own" "CHR ''/'' \<notin> set repo"
    using own(1) repo(1) by (auto dest: set_takeWhileD)
  ultimately show ?r
    using own(2) repo(2) by (intro exI [of _ "dropWhile not_slash r2"]) simp
next
  assume ?r
  then obtain rest where r: "r = own @ CHR ''/'' # repo @ rest"
    and own: "own \<noteq> []" "CHR ''/'' \<notin> set own"
    and repo: "repo \<noteq> []" "CHR ''/'' \<notin> set repo"
    and rest: "rest = [] \<or> hd rest = CHR ''/''" by blast
  have ow: "\<forall>x\<in>set own. not_slash x" using own(2) by blast
  have "takeWhile not_slash r = own"
    unfolding r by (rule takeWhile_append_stop [OF ow]) simp
  moreover have "dropWhile not_slash r = CHR ''/'' # repo @ rest"
    unfolding r by (rule dropWhile_append_stop [OF ow]) simp
  moreover have "takeWhile not_slash (repo @ rest) = repo"
    using repo(2) rest by (intro takeWhile_append_stop) auto
  ultimately show ?l using own repo by (simp add: match_groups_def Let_def)
qed

lemma match_at_Some:
  "match_at s = Some (own, repo) \<longleftrightarrow> regex_match s own repo"
proof -
  have "match_at s = Some (own, repo) \<longleftrightarrow>
     (\<exists>c r. s = ''github.com'' @ c # r \<and> (c = CHR ''/'' \<or> c = CHR '':'')
        \<and> match_groups r = Some (own, repo))"
    by (auto simp: match_at_def prefix_def split: list.splits)
  then show ?thesis
    by (auto simp: match_groups_Some regex_match_def)
qed

lemma match_at_Nil [simp]: "match_at [] = None"
  by (simp add: match_at_def)

text \<open>The scan finds the first position with a match.\<close>

lemma search_github_Some_index:
  "search_github s = Some m \<longleftrightarrow>
     (\<exists>i\<le>length s. match_at (drop i s) = Some m \<and> (\<forall>j<i. match_at (drop j s) = None))"
proof (induction s)
  case Nil
  then show ?case by simp
next
  case (Cons c cs)
  show ?case
  proof (cases "match_at (c # cs)")
    case None
    have "(\<exists>i\<le>length (c # cs). match_at (drop i (c # cs)) = Some m
              \<and> (\<forall>j<i. match_at (drop j (c # cs)) = None)) \<longleftrightarrow>
          (\<exists>i\<le>length cs. match_at (drop i cs) = Some m \<and> (\<forall>j<i. match_at (drop j cs) = None))"
      (is "?a \<longleftrightarrow> ?b")
    proof
      assume ?a
      then obtain i where i: "i \<le> length (c # cs)" "match_at (drop i (c # cs)) = Some m"
        "\<forall>j<i. match_at (drop j (c # cs)) = None" by blast
      with None obtain k where "i = Suc k" by (cases i) auto
      with i show ?b by (auto intro!: exI [of _ k])
    next
      assume ?b
      then obtain i where i: "i \<le> length cs" "match_at (drop i cs) = Some m"
        "\<forall>j<i. match_at (drop j cs) = None" by blast
      have "\<forall>j<Suc i. match_at (drop j (c # cs)) = None"
        using i(3) None by (auto simp: less_Suc_eq_0_disj)
      with i show ?a by (auto intro!: exI [of _ "Suc i"])
    qed
    with None Cons.IH show ?thesis by simp
  next
    case (Some m')
    show ?thesis
    proof
      assume "search_github (c # cs) = Some m"
      with Some show "\<exists>i\<le>length (c # cs). match_at (drop i (c # cs)) = Some m
          \<and> (\<forall>j<i. match_at (drop j (c # cs)) = None)"
        by (intro exI [of _ 0]) simp
    next
      assume "\<exists>i\<le>length (c # cs). match_at (drop i (c # cs)) = Some m
          \<and> (\<forall>j<i. match_at (drop j (c # cs)) = None)"
      then obtain i where i: "match_at (drop i (c # cs)) = Some m"
        "\<forall>j<i. match_at (drop j (c # cs)) = None" by blast
      with Some have "i = 0" by (cases i) auto
      with i Some show "search_github (c # cs) = Some m" by simp
    qed
  qed
qed

lemma match_at_None_iff: "match_at s = None \<longleftrightarrow> (\<forall>own repo. \<not> regex_match s own repo)"
  by (metis match_at_Some not_None_eq surj_pair)

lemma match_at_prefix: "match_at s = Some m \<Longrightarrow> prefix ''github.com'' s"
  by (simp add: match_at_def split: if_splits)

lemma search_github_None_iff:
  "search_github s = None \<longleftrightarrow> (\<forall>i\<le>length s. match_at (drop i s) = None)"
proof (induction s)
  case (Cons c cs)
  have "(\<forall>i\<le>length (c # cs). match_at (drop i (c # cs)) = None) \<longleftrightarrow>
        match_at (c # cs) = None \<and> (\<forall>i\<le>length cs. match_at (drop i cs) = None)"
    by (simp only: length_Cons all_le_Suc_conv drop_Suc_Cons drop0)
  with Cons.IH show ?case by (simp split: option.splits)
qed simp

text \<open>A window of \<open>ys\<close> read through a longer list is a sublist of \<open>ys\<close>.\<close>

lemma prefix_drop_sublist:
  assumes "prefix xs (drop j (ys @ z))" and "j + length xs \<le> length ys"
  shows "sublist xs ys"
proof -
  from assms(1) obtain w where "drop j (ys @ z) = xs @ w" by (auto simp: prefix_def)
  then have "xs = take (length xs) (drop j (ys @ z))" by simp
  also have "\<dots> = take (length xs) (drop j ys)" using assms(2) by simp
  finally have xs: "xs = take (length xs) (drop j ys)" .
  have "ys = take j ys @ take (length xs) (drop j ys) @ drop (length xs) (drop j ys)"
    by (simp only: append_take_drop_id)
  then show ?thesis unfolding sublist_def using xs by metis
qed

text \<open>When the host does not occur earlier, the scan stops at the host.\<close>

lemma search_github_at_host:
  assumes early: "\<not> sublist ''github.com'' (p @ ''github.co'')"
    and m: "regex_match s own repo"
  shows "search_github (p @ s) = Some (own, repo)"
proof -
  obtain t where s: "s = ''github.com'' @ t" using m by (auto simp: regex_match_def)
  have "match_at (drop j (p @ s)) = None" if j: "j < length p" for j
  proof (rule ccontr)
    assume "match_at (drop j (p @ s)) \<noteq> None"
    then have "prefix ''github.com'' (drop j ((p @ ''github.co'') @ CHR ''m'' # t))"
      using s by (auto dest: match_at_prefix)
    moreover have "j + length ''github.com'' \<le> length (p @ ''github.co'')" using j by simp
    ultimately show False using early prefix_drop_sublist by blast
  qed
  moreover have "match_at (drop (length p) (p @ s)) = Some (own, repo)"
    using m by (simp add: match_at_Some)
  ultimately show ?thesis
    by (subst search_github_Some_index) (auto intro!: exI [of _ "length p"])
qed

lemma regex_match_intro:
  "c = CHR ''/'' \<or> c = CHR '':'' \<Longrightarrow> own \<noteq> [] \<Longrightarrow> CHR ''/'' \<notin> set own \<Longrightarrow>
   repo \<noteq> [] \<Longrightarrow> CHR ''/'' \<notin> set repo \<Longrightarrow> rest = [] \<or> hd rest = CHR ''/'' \<Longrightarrow>
   regex_match (''github.com'' @ c # own @ CHR ''/'' # repo @ rest) own repo"
  unfolding regex_match_def by blast

subsection \<open>Properties of the parser\<close>

text \<open>C1. Refinement of the regular-expression search: \<open>search_github\<close>
  returns the groups of the match at the leftmost position of the URL where the
  pattern \<open>github\.com[/:]([^/]+)/([^/]+)\<close> matches, and nothing when there is
  no such position.\<close>

theorem search_github_leftmost:
  "search_github s = Some (own, repo) \<longleftrightarrow>
     (\<exists>i\<le>length s. regex_match (drop i s) own repo
        \<and> (\<forall>j<i. \<forall>own' repo'. \<not> regex_match (drop j s) own' repo'))"
  by (simp add: search_github_Some_index match_at_Some match_at_None_iff)

theorem search_github_leftmost_witness:
  "\<exists>i\<le>length ''https://github.com/owner/repo''.
     regex_match (drop i ''https://github.com/owner/repo'') ''owner'' ''repo''
     \<and> (\<forall>j<i. \<forall>own' repo'. \<not> regex_match (drop j ''https://github.com/owner/repo'') own' repo')"
proof -
  have "search_github ''https://github.com/owner/repo'' = Some (''owner'', ''repo'')"
    by code_simp
  then show ?thesis using search_github_leftmost by blast
qed

text \<open>C2. A URL made of any text in which the host does not occur, the host,
  a slash or colon, an owner, a slash, a repository name and a rest that starts
  with a slash (or is empty) parses to the owner and the repository name with
  \<open>rstrip('.git')\<close> applied: HTTPS and SSH forms alike.\<close>

theorem parse_github_url_valid:
  assumes "\<not> sublist ''github.com'' (p @ ''github.co'')"
    and "c = CHR ''/'' \<or> c = CHR '':''"
    and "own \<noteq> []" and "CHR ''/'' \<notin> set own"
    and "repo \<noteq> []" and "CHR ''/'' \<notin> set repo"
    and "rest = [] \<or> hd rest = CHR ''/''"
  shows "parse_github_url (p @ ''github.com'' @ c # own @ CHR ''/'' # repo @ rest)
           = Inr (own, py_rstrip ''.git'' repo)"
proof -
  have "search_github (p @ ''github.com'' @ c # own @ CHR ''/'' # repo @ rest) = Some (own, repo)"
    using assms by (intro search_github_at_host regex_match_intro)
  then show ?thesis by (simp add: parse_github_url_def)
qed

theorem parse_github_url_valid_witness:
  "parse_github_url (''git@'' @ ''github.com'' @ CHR '':'' # ''owner'' @ CHR ''/'' # ''repo.git'' @ [])
     = Inr (''owner'', py_rstrip ''.git'' ''repo.git'')
   \<and> py_rstrip ''.git'' ''repo.git'' = ''repo''"
proof -
  have h: "\<not> sublist ''github.com'' (''git@'' @ ''github.co'')" by code_simp
  have "py_rstrip ''.git'' ''repo.git'' = ''repo''" by code_simp
  with parse_github_url_valid [OF h, of "CHR '':''" "''owner''" "''repo.git''" "[]"]
  show ?thesis by simp
qed

text \<open>C3. The \<open>.git\<close> suffix is removed exactly when the name before it does
  not itself end in one of the characters \<open>.\<close>, \<open>g\<close>, \<open>i\<close>, \<open>t\<close>:
  \<open>rstrip\<close> takes a set of characters, not a suffix.\<close>

theorem parse_github_url_dot_git:
  assumes "\<not> sublist ''github.com'' (p @ ''github.co'')"
    and "c = CHR ''/'' \<or> c = CHR '':''"
    and "own \<noteq> []" and "CHR ''/'' \<notin> set own"
    and "repo \<noteq> []" and "CHR ''/'' \<notin> set repo"
    and "last repo \<notin> set ''.git''"
  shows "parse_github_url (p @ ''github.com'' @ c # own @ CHR ''/'' # repo @ ''.git'') = Inr (own, repo)"
proof -
  have "search_github (p @ ''github.com'' @ c # own @ CHR ''/'' # (repo @ ''.git'') @ [])
      = Some (own, repo @ ''.git'')"
    using assms by (intro search_github_at_host regex_match_intro) auto
  moreover have "py_rstrip ''.git'' (repo @ ''.git'') = repo"
    using assms(7) by (intro py_rstrip_keep) auto
  ultimately show ?thesis by (simp add: parse_github_url_def)
qed

theorem parse_github_url_dot_git_witness:
  "parse_github_url (''https://'' @ ''github.com'' @ CHR ''/'' # ''ek0212'' @ CHR ''/'' # ''submission-form'' @ ''.git'')
     = Inr (''ek0212'', ''submission-form'')"
proof -
  have h: "\<not> sublist ''github.com'' (''https://'' @ ''github.co'')" by code_simp
  show ?thesis by (rule parse_github_url_dot_git [OF h]) simp_all
qed

text \<open>C4. Where the name does end in one of those characters, the code cuts into
  it, with or without a \<open>.git\<close> suffix: the name returned is a proper prefix
  of the repository's name (\<open>widget\<close> becomes \<open>widge\<close>,
  \<open>budget.git\<close> becomes \<open>budge\<close>, \<open>git\<close> becomes empty), so the
  parsed reference is never the repository of the URL.\<close>

theorem parse_github_url_overstrips:
  assumes "\<not> sublist ''github.com'' (p @ ''github.co'')"
    and "c = CHR ''/'' \<or> c = CHR '':''"
    and "own \<noteq> []" and "CHR ''/'' \<notin> set own"
    and "repo \<noteq> []" and "CHR ''/'' \<notin> set repo"
    and "last repo \<in> set ''.git''" and "set sfx \<subseteq> set ''.git''"
    and "rest = [] \<or> hd rest = CHR ''/''"
  shows "\<exists>r. parse_github_url (p @ ''github.com'' @ c # own @ CHR ''/'' # repo @ sfx @ rest) = Inr (own, r)
           \<and> strict_prefix r repo"
proof -
  have "CHR ''/'' \<notin> set sfx" using assms(8) by auto
  then have "search_github (p @ ''github.com'' @ c # own @ CHR ''/'' # (repo @ sfx) @ rest)
      = Some (own, repo @ sfx)"
    using assms by (intro search_github_at_host regex_match_intro) auto
  moreover have "py_rstrip ''.git'' (repo @ sfx) = py_rstrip ''.git'' repo"
    using assms(8) by (rule py_rstrip_strip_suffix)
  moreover have "strict_prefix (py_rstrip ''.git'' repo) repo"
    using py_rstrip_prefix [of "''.git''" repo] py_rstrip_shorter [OF assms(5,7)]
    by (auto simp: strict_prefix_def)
  ultimately show ?thesis by (simp add: parse_github_url_def)
qed

theorem parse_github_url_overstrips_witness:
  "\<exists>r. parse_github_url (''https://'' @ ''github.com'' @ CHR ''/'' # ''owner'' @ CHR ''/'' # ''budget'' @ ''.git'' @ [])
     = Inr (''owner'', r) \<and> strict_prefix r ''budget''"
proof -
  have h: "\<not> sublist ''github.com'' (''https://'' @ ''github.co'')" by code_simp
  show ?thesis by (rule parse_github_url_overstrips [OF h]) simp_all
qed

text \<open>C5. The parser fails with \<open>ValueError\<close> exactly on the URLs in which the
  pattern matches at no position.\<close>

theorem parse_github_url_error_iff:
  "parse_github_url url = Inl (ValueError ''Invalid GitHub repository URL'') \<longleftrightarrow>
     (\<forall>i\<le>length url. \<forall>own repo. \<not> regex_match (drop i url) own repo)"
proof -
  have "parse_github_url url = Inl (ValueError ''Invalid GitHub repository URL'') \<longleftrightarrow>
      search_github url = None"
    by (auto simp: parse_github_url_def split: option.splits)
  then show ?thesis by (simp add: search_github_None_iff match_at_None_iff)
qed

theorem parse_github_url_error_iff_witness:
  "\<not> (\<exists>i\<le>length ''https://invalid-url.com''.
     \<exists>own repo. regex_match (drop i ''https://invalid-url.com'') own repo)"
proof -
  have "parse_github_url ''https://invalid-url.com'' =
      Inl (ValueError ''Invalid GitHub repository URL'')" by code_simp
  then show ?thesis using parse_github_url_error_iff by blast
qed

text \<open>C6. A parsed owner is a non-empty name without a slash, the parsed
  repository name has no slash (it may be empty, see C4), and the URL contains
  the host.\<close>

theorem parse_github_url_result:
  assumes "parse_github_url url = Inr (own, repo)"
  shows "own \<noteq> [] \<and> CHR ''/'' \<notin> set own \<and> CHR ''/'' \<notin> set repo
         \<and> sublist ''github.com'' url"
proof -
  obtain repo0 where s: "search_github url = Some (own, repo0)"
    and r: "repo = py_rstrip ''.git'' repo0"
    using assms by (auto simp: parse_github_url_def split: option.splits)
  then have "\<exists>i\<le>length url. match_at (drop i url) = Some (own, repo0)
      \<and> (\<forall>j<i. match_at (drop j url) = None)"
    by (simp only: search_github_Some_index)
  then obtain i where m: "regex_match (drop i url) own repo0"
    by (auto simp: match_at_Some)
  then have "own \<noteq> [] \<and> CHR ''/'' \<notin> set own \<and> CHR ''/'' \<notin> set repo0"
    by (auto simp: regex_match_def)
  moreover have "set repo \<subseteq> set repo0"
    using py_rstrip_prefix [of "''.git''" repo0] r by (simp add: set_mono_prefix)
  moreover have "sublist ''github.com'' url"
  proof -
    obtain t where "drop i url = ''github.com'' @ t" using m by (auto simp: regex_match_def)
    then have "url = take i url @ ''github.com'' @ t" by (metis append_take_drop_id)
    then show ?thesis unfolding sublist_def by blast
  qed
  ultimately show ?thesis by blast
qed

theorem parse_github_url_result_witness:
  "''owner'' \<noteq> [] \<and> CHR ''/'' \<notin> set ''owner'' \<and> CHR ''/'' \<notin> set ''repo''
   \<and> sublist ''github.com'' ''https://github.com/owner/repo''"
proof -
  have "parse_github_url ''https://github.com/owner/repo'' = Inr (''owner'', ''repo'')"
    by code_simp
  then show ?thesis by (rule parse_github_url_result)
qed

end
