(* ===== verification/Fixtures.thy ===== *)
theory Fixtures
  imports World
begin

text \<open>
  The fixtures of \<open>src/test_langchain_flow.py\<close> as concrete worlds. The
  mocked GitHub repository (lines 55--79) serves \<open>manifest.json\<close> and
  \<open>README.md\<close> as base64 text and raises \<open>KeyError\<close> for every other path;
  \<open>mock_github\<close> (lines 81--85) makes every \<open>get_repo\<close> return it; the
  autouse fixture (lines 7--12) makes every completion answer one choice with
  the text \<open>mocked output\<close>. The library steps (base64 decoding, \<open>json.loads\<close>)
  are given by their values on the inputs the tests feed them.
\<close>

definition mock_manifest_text :: string where
  \<open>mock_manifest_text = ''{"name": "Test Extension", "version": "1.0.0", "description": "A test extension", "manifest_version": 3, "permissions": ["tabs"]}''\<close>

definition mock_manifest_b64 :: string where
  "mock_manifest_b64 = ''eyJuYW1lIjogIlRlc3QgRXh0ZW5zaW9uIiwgInZlcnNpb24iOiAiMS4wLjAiLCAiZGVzY3JpcHRpb24iOiAiQSB0ZXN0IGV4dGVuc2lvbiIsICJtYW5pZmVzdF92ZXJzaW9uIjogMywgInBlcm1pc3Npb25zIjogWyJ0YWJzIl19''"

definition mock_readme_text :: string where
  "mock_readme_text = ''# Test Extension'' @ CHR 0x0A # ''This is a test.''"

definition mock_readme_b64 :: string where
  "mock_readme_b64 = ''IyBUZXN0IEV4dGVuc2lvbgpUaGlzIGlzIGEgdGVzdC4=''"

definition mock_manifest_value :: jvalue where
  "mock_manifest_value = JObj
     [(''name'', JStr ''Test Extension''), (''version'', JStr ''1.0.0''),
      (''description'', JStr ''A test extension''), (''manifest_version'', JInt 3),
      (''permissions'', JArr [JStr ''tabs''])]"

definition mock_github_repo :: gh_repo where
  "mock_github_repo =
     \<lparr>contents = (\<lambda>p. if p = ''manifest.json'' then Some mock_manifest_b64
                     else if p = ''README.md'' then Some mock_readme_b64 else None),
      stargazers_count = 100, open_issues_count = 5,
      updated_at = ''2024-05-13T00:00:00Z''\<rparr>"

definition mock_b64decode_utf8 :: "string \<Rightarrow> string option" where
  "mock_b64decode_utf8 c =
     (if c = mock_manifest_b64 then Some mock_manifest_text
      else if c = mock_readme_b64 then Some mock_readme_text else None)"

definition mock_json_loads :: "string \<Rightarrow> exc + jvalue" where
  "mock_json_loads s =
     (if s = mock_manifest_text then Inr mock_manifest_value
      else Inl (JSONDecodeError ''Expecting value: line 1 column 1 (char 0)''))"

definition mocked_response :: chat_response where
  "mocked_response = \<lparr>choices = [Some ''mocked output'']\<rparr>"

text \<open>The world the \<open>mock_github\<close> fixtures (lines 56--85) intend: the
  mocked repository, served to every URL, with the autouse completion mock. The
  fixture's \<open>patch('github.Github')\<close> does not reach the name the module
  under test imported, so the analysis tests do not actually run in this world
  (\<open>Tests.test_results\<close>).\<close>

definition mock_github :: world where
  "mock_github =
     \<lparr>get_repo = (\<lambda>_. Inr mock_github_repo), b64decode_utf8 = mock_b64decode_utf8,
      json_loads = mock_json_loads, complete = (\<lambda>_. Inr mocked_response)\<rparr>"

text \<open>\<open>test_analyze_github_repo_no_manifest\<close> (lines 99--102): every
  \<open>get_contents\<close> raises.\<close>

definition mock_github_no_files :: world where
  "mock_github_no_files =
     mock_github\<lparr>get_repo := (\<lambda>_. Inr (mock_github_repo\<lparr>contents := (\<lambda>_. None)\<rparr>))\<rparr>"

text \<open>\<open>test_agent_tool_no_choices\<close> and \<open>test_agent_tool_exception\<close>
  (lines 20--34).\<close>

definition mock_no_choices :: world where
  "mock_no_choices = mock_github\<lparr>complete := (\<lambda>_. Inr \<lparr>choices = []\<rparr>)\<rparr>"

definition mock_raising :: world where
  "mock_raising = mock_github\<lparr>complete := (\<lambda>_. Inl (ServiceError ''Test error''))\<rparr>"

text \<open>Two further worlds used only as concrete inputs of the lemmas: the mocked
  repository with the manifest and nothing else, and with a manifest that is a
  JSON list.\<close>

definition manifest_only_world :: world where
  "manifest_only_world =
     mock_github\<lparr>get_repo := (\<lambda>_. Inr (mock_github_repo\<lparr>contents :=
        (\<lambda>p. if p = ''manifest.json'' then Some mock_manifest_b64 else None)\<rparr>))\<rparr>"

definition list_manifest_world :: world where
  "list_manifest_world = mock_github\<lparr>json_loads := (\<lambda>_. Inr (JArr []))\<rparr>"

end
