(* ===== verification/Analyzer.thy ===== *)
theory Analyzer
  imports Fetcher UrlParser Fixtures
begin

text \<open>
  The context assembler, \<open>analyze_github_repo\<close> (lines 140--207). The body of
  its \<open>try\<close> block is \<open>analyze_body\<close>, whose result is \<open>Inl e\<close> when a
  statement raises \<open>e\<close> and \<open>Inr s\<close> when it returns \<open>s\<close>; the \<open>except\<close>
  clause turns \<open>Inl e\<close> into a log record and the string
  \<open>Error analyzing repository: str(e)\<close>. The statements run in the source's
  order, and so do their GitHub calls in the trace: \<open>get_repo\<close>, the
  manifest, the README, \<open>package.json\<close>, the privacy chain, the license
  chain; the \<open>dict.get\<close> calls on the manifest come after all fetches, so a
  manifest that is valid JSON but not an object fails only there.
\<close>

text \<open>Lines 158--168: the dependencies of \<open>package.json\<close>, \<open>{}\<close> when the file
  is absent or empty, is not JSON, or is not an object.\<close>

definition package_dependencies :: "world \<Rightarrow> string option \<Rightarrow> jvalue" where
  "package_dependencies w package_json =
     (case package_json of
        None \<Rightarrow> JObj []
      | Some s \<Rightarrow>
          if s = [] then JObj []
          else (case json_loads w s of
                  Inl _ \<Rightarrow> JObj []
                | Inr package_data \<Rightarrow>
                    (case (py_get package_data ''dependencies'' (JObj []),
                           py_get package_data ''devDependencies'' (JObj [])) of
                       (Inr d, Inr dd) \<Rightarrow> JObj [(''dependencies'', d), (''devDependencies'', dd)]
                     | _ \<Rightarrow> JObj [])))"

text \<open>Lines 182--201: the context dict, in the source's key order; on a
  manifest that is not a dict the first \<open>manifest_data.get\<close> raises.\<close>

definition build_context ::
  "jvalue \<Rightarrow> string \<Rightarrow> jvalue \<Rightarrow> string option \<Rightarrow> string option \<Rightarrow> url \<Rightarrow> gh_repo \<Rightarrow> exc + jvalue" where
  "build_context manifest_data readme dependencies privacy_policy license_content repo_url repo =
     (case manifest_data of
        JObj m \<Rightarrow> Inr (JObj
          [(''name'', py_dict_get m ''name'' (JStr [])),
           (''version'', py_dict_get m ''version'' (JStr [])),
           (''description'', py_dict_get m ''description'' (JStr [])),
           (''manifest_version'', py_dict_get m ''manifest_version'' (JStr [])),
           (''permissions'', py_dict_get m ''permissions'' (JArr [])),
           (''host_permissions'', py_dict_get m ''host_permissions'' (JArr [])),
           (''content_scripts'', py_dict_get m ''content_scripts'' (JArr [])),
           (''background'', py_dict_get m ''background'' (JObj [])),
           (''readme'', JStr readme),
           (''dependencies'', dependencies),
           (''privacy_policy'', json_opt_str privacy_policy),
           (''license'', json_opt_str license_content),
           (''repo_url'', JStr repo_url),
           (''stars'', JInt (stargazers_count repo)),
           (''last_updated'', JStr (updated_at repo)),
           (''open_issues'', JInt (open_issues_count repo)),
           (''default_locale'', py_dict_get m ''default_locale'' (JStr [])),
           (''icons'', py_dict_get m ''icons'' (JObj []))])
      | _ \<Rightarrow> Inl (no_get_error manifest_data))"

text \<open>Lines 154--201 once the manifest is parsed: the optional fetches and the
  context.\<close>

definition assemble :: "world \<Rightarrow> gh_repo \<Rightarrow> url \<Rightarrow> jvalue \<Rightarrow> trace \<Rightarrow> (exc + jvalue) \<times> trace" where
  "assemble w repo repo_url manifest_data tr =
     (case get_file_content_safe w repo ''README.md'' tr of
        (readme, tr3) \<Rightarrow>
      case get_file_content_safe w repo ''package.json'' tr3 of
        (package_json, tr4) \<Rightarrow>
      case first_found w repo PRIVACY_CANDIDATES tr4 of
        (privacy_policy, tr5) \<Rightarrow>
      case first_found w repo LICENSE_CANDIDATES tr5 of
        (license_content, tr6) \<Rightarrow>
          (build_context manifest_data
             (case readme of None \<Rightarrow> [] | Some s \<Rightarrow> s)
             (package_dependencies w package_json)
             privacy_policy license_content repo_url repo, tr6))"

definition MANIFEST_MISSING :: string where
  "MANIFEST_MISSING = ''Error: manifest.json not found or invalid''"

definition analyze_body :: "world \<Rightarrow> url \<Rightarrow> trace \<Rightarrow> (exc + string) \<times> trace" where
  "analyze_body w repo_url tr =
     (case parse_github_url repo_url of
        Inl e \<Rightarrow> (Inl e, tr)
      | Inr (owner, repo_name) \<Rightarrow>
          (let full_name = owner @ CHR ''/'' # repo_name;
               tr1 = tr @ [GhGetRepo full_name] in
           case get_repo w full_name of
             Inl e \<Rightarrow> (Inl e, tr1)
           | Inr repo \<Rightarrow>
               (case get_file_content_safe w repo ''manifest.json'' tr1 of
                  (manifest_content, tr2) \<Rightarrow>
                    if \<not> py_truthy_str manifest_content then (Inr MANIFEST_MISSING, tr2)
                    else (case json_loads w (the manifest_content) of
                            Inl e \<Rightarrow> (Inl e, tr2)
                          | Inr manifest_data \<Rightarrow>
                              (case assemble w repo repo_url manifest_data tr2 of
                                 (Inl e, tr6) \<Rightarrow> (Inl e, tr6)
                               | (Inr context, tr6) \<Rightarrow> (Inr (json_dumps context), tr6))))))"

definition analyze_github_repo :: "world \<Rightarrow> url \<Rightarrow> trace \<Rightarrow> string \<times> trace" where
  "analyze_github_repo w repo_url tr =
     (case analyze_body w repo_url tr of
        (Inl e, tr') \<Rightarrow>
          (''Error analyzing repository: '' @ exc_str e,
           tr' @ [Log ERROR (''Error analyzing GitHub repository: '' @ exc_str e)])
      | (Inr s, tr') \<Rightarrow> (s, tr'))"

subsection \<open>The branches of the analysis\<close>

lemma assemble_eq:
  "assemble w repo url md tr =
     (build_context md (case fetched w repo ''README.md'' of None \<Rightarrow> [] | Some s \<Rightarrow> s)
        (package_dependencies w (fetched w repo ''package.json''))
        (found_value w repo PRIVACY_CANDIDATES) (found_value w repo LICENSE_CANDIDATES) url repo,
      tr @ [GhGetContents ''README.md'', GhGetContents ''package.json''] @
        map GhGetContents (tried w repo PRIVACY_CANDIDATES @ tried w repo LICENSE_CANDIDATES))"
  by (simp add: assemble_def first_found_eq)

lemma build_context_Inr: "build_context md r d p l u repo = Inr v \<Longrightarrow> \<exists>kvs. v = JObj kvs"
  by (cases md) (auto simp: build_context_def)

lemma build_context_Inl: "build_context md r d p l u repo = Inl e \<Longrightarrow> e = no_get_error md"
  by (cases md) (auto simp: build_context_def)

lemma analyze_body_url_error:
  "parse_github_url url = Inl e \<Longrightarrow> analyze_body w url tr = (Inl e, tr)"
  by (simp add: analyze_body_def)

lemma analyze_body_repo_error:
  "parse_github_url url = Inr (own, name) \<Longrightarrow> get_repo w (own @ CHR ''/'' # name) = Inl e \<Longrightarrow>
   analyze_body w url tr = (Inl e, tr @ [GhGetRepo (own @ CHR ''/'' # name)])"
  by (simp add: analyze_body_def)

lemma analyze_body_manifest_missing:
  "parse_github_url url = Inr (own, name) \<Longrightarrow> get_repo w (own @ CHR ''/'' # name) = Inr repo \<Longrightarrow>
   \<not> py_truthy_str (fetched w repo ''manifest.json'') \<Longrightarrow>
   analyze_body w url tr =
     (Inr MANIFEST_MISSING, tr @ [GhGetRepo (own @ CHR ''/'' # name), GhGetContents ''manifest.json''])"
  by (simp add: analyze_body_def)

lemma analyze_body_manifest_invalid:
  "parse_github_url url = Inr (own, name) \<Longrightarrow> get_repo w (own @ CHR ''/'' # name) = Inr repo \<Longrightarrow>
   fetched w repo ''manifest.json'' = Some m \<Longrightarrow> m \<noteq> [] \<Longrightarrow> json_loads w m = Inl e \<Longrightarrow>
   analyze_body w url tr =
     (Inl e, tr @ [GhGetRepo (own @ CHR ''/'' # name), GhGetContents ''manifest.json''])"
  by (simp add: analyze_body_def)

lemma analyze_body_parsed:
  "parse_github_url url = Inr (own, name) \<Longrightarrow> get_repo w (own @ CHR ''/'' # name) = Inr repo \<Longrightarrow>
   fetched w repo ''manifest.json'' = Some m \<Longrightarrow> m \<noteq> [] \<Longrightarrow> json_loads w m = Inr md \<Longrightarrow>
   analyze_body w url tr =
     (case assemble w repo url md
             (tr @ [GhGetRepo (own @ CHR ''/'' # name), GhGetContents ''manifest.json'']) of
        (Inl e, t) \<Rightarrow> (Inl e, t)
      | (Inr c, t) \<Rightarrow> (Inr (json_dumps c), t))"
  by (simp add: analyze_body_def)

lemmas analyze_body_branches =
  analyze_body_url_error analyze_body_repo_error analyze_body_manifest_missing
  analyze_body_manifest_invalid analyze_body_parsed

text \<open>A string the body returns is the missing-manifest message or the dump
  of a context built from a parsed manifest.\<close>

lemma analyze_body_context:
  assumes "fst (analyze_body w url tr) = Inr s"
  shows "s = MANIFEST_MISSING \<or>
    (\<exists>m md r p pp lc repo c. json_loads w m = Inr md \<and>
       build_context md r (package_dependencies w p) pp lc url repo = Inr c \<and> s = json_dumps c)"
proof (cases "parse_github_url url")
  case (Inl e)
  with assms show ?thesis by (simp add: analyze_body_url_error)
next
  case (Inr p)
  then obtain own name where p: "parse_github_url url = Inr (own, name)" by (cases p) auto
  show ?thesis
  proof (cases "get_repo w (own @ CHR ''/'' # name)")
    case (Inl e)
    with p assms show ?thesis by (simp add: analyze_body_repo_error)
  next
    case (Inr repo)
    show ?thesis
    proof (cases "py_truthy_str (fetched w repo ''manifest.json'')")
      case False
      with p Inr assms show ?thesis by (simp add: analyze_body_manifest_missing)
    next
      case True
      then obtain m where m: "fetched w repo ''manifest.json'' = Some m" "m \<noteq> []"
        by (cases "fetched w repo ''manifest.json''") auto
      show ?thesis
      proof (cases "json_loads w m")
        case (Inl e)
        with p Inr m assms show ?thesis by (simp add: analyze_body_manifest_invalid)
      next
        case (Inr md)
        with p \<open>get_repo w _ = Inr repo\<close> m assms show ?thesis
          by (auto simp: analyze_body_parsed assemble_eq split: sum.splits) blast
      qed
    qed
  qed
qed

lemma analyze_body_Inr:
  assumes "fst (analyze_body w url tr) = Inr s"
  shows "s = MANIFEST_MISSING \<or> (\<exists>kvs. s = json_dumps (JObj kvs))"
  using analyze_body_context [OF assms] by (auto dest: build_context_Inr)

lemma error_prefix_not_dumps: "py_startswith s ''Error'' \<Longrightarrow> s \<noteq> json_dumps (JObj kvs)"
  using json_dumps_JObj_prefix [of kvs] by auto

text \<open>An analysis result that does not start with \<open>Error\<close> is the dump of a
  context built from a parsed manifest.\<close>

lemma analyze_github_repo_not_error:
  assumes "\<not> py_startswith (fst (analyze_github_repo w url tr)) ''Error''"
  shows "\<exists>m md r p pp lc repo c. json_loads w m = Inr md \<and>
    build_context md r (package_dependencies w p) pp lc url repo = Inr c \<and>
    fst (analyze_github_repo w url tr) = json_dumps c"
proof (cases "analyze_body w url tr")
  case (Pair res t)
  show ?thesis
  proof (cases res)
    case (Inl e)
    with Pair assms show ?thesis by (simp add: analyze_github_repo_def)
  next
    case (Inr s)
    with Pair have out: "fst (analyze_github_repo w url tr) = s"
      by (simp add: analyze_github_repo_def)
    have "s \<noteq> MANIFEST_MISSING" using assms out by (auto simp: MANIFEST_MISSING_def)
    with analyze_body_context [of w url tr s] Inr Pair out show ?thesis by simp
  qed
qed


subsection \<open>Properties of the analysis\<close>

text \<open>C7. The orchestrator's test \<open>startswith("Error")\<close> is exact: the
  analysis result starts with \<open>Error\<close> if and only if it is not a dumped
  context dict (every failure path returns an \<open>Error\<close> string, and a dumped
  dict starts with a brace).\<close>

theorem analyze_github_repo_error_prefix:
  "py_startswith (fst (analyze_github_repo w url tr)) ''Error'' \<longleftrightarrow>
     (\<forall>kvs. fst (analyze_github_repo w url tr) \<noteq> json_dumps (JObj kvs))"
proof (cases "analyze_body w url tr")
  case (Pair r t)
  show ?thesis
  proof (cases r)
    case (Inl e)
    then have "py_startswith (fst (analyze_github_repo w url tr)) ''Error''"
      using Pair by (simp add: analyze_github_repo_def)
    then show ?thesis using error_prefix_not_dumps by blast
  next
    case (Inr s)
    with Pair have res: "fst (analyze_github_repo w url tr) = s"
      by (simp add: analyze_github_repo_def)
    have "s = MANIFEST_MISSING \<or> (\<exists>kvs. s = json_dumps (JObj kvs))"
      using analyze_body_Inr [of w url tr s] Inr Pair by simp
    then show ?thesis
    proof
      assume "s = MANIFEST_MISSING"
      then have "py_startswith s ''Error''" by (simp add: MANIFEST_MISSING_def)
      then show ?thesis using res error_prefix_not_dumps by metis
    next
      assume "\<exists>kvs. s = json_dumps (JObj kvs)"
      then obtain kvs where "s = json_dumps (JObj kvs)" by blast
      then show ?thesis using res error_prefix_not_dumps by metis
    qed
  qed
qed

text \<open>C8. When the repository exists but \<open>manifest.json\<close> cannot be fetched
  or decoded, or is empty, the analysis returns the missing-manifest error right
  after the manifest lookup: no other file is requested.\<close>

theorem analyze_github_repo_no_manifest:
  assumes "parse_github_url url = Inr (own, name)"
    and "get_repo w (own @ CHR ''/'' # name) = Inr repo"
    and "\<not> py_truthy_str (fetched w repo ''manifest.json'')"
  shows "analyze_github_repo w url tr =
           (''Error: manifest.json not found or invalid'',
            tr @ [GhGetRepo (own @ CHR ''/'' # name), GhGetContents ''manifest.json''])"
  using assms by (simp add: analyze_github_repo_def analyze_body_manifest_missing MANIFEST_MISSING_def)

theorem analyze_github_repo_no_manifest_witness:
  "analyze_github_repo mock_github_no_files ''https://github.com/owner/repo'' [] =
     (''Error: manifest.json not found or invalid'',
      [GhGetRepo ''owner/repo'', GhGetContents ''manifest.json''])"
proof -
  have p: "parse_github_url ''https://github.com/owner/repo'' = Inr (''owner'', ''repo'')"
    by code_simp
  have r: "get_repo mock_github_no_files (''owner'' @ CHR ''/'' # ''repo'') =
      Inr (mock_github_repo\<lparr>contents := (\<lambda>_. None)\<rparr>)"
    by (simp add: mock_github_no_files_def)
  have f: "\<not> py_truthy_str (fetched mock_github_no_files
      (mock_github_repo\<lparr>contents := (\<lambda>_. None)\<rparr>) ''manifest.json'')"
    by simp
  from analyze_github_repo_no_manifest [OF p r f, of "[]"] show ?thesis by simp
qed

text \<open>C9. On a repository whose manifest parses to a dict, the analysis
  returns the dump of the eighteen-key context in the source's order: manifest
  fields with their defaults, the README (empty when absent), the dependencies,
  the first non-empty privacy policy and license (or null), the URL and the
  repository statistics; and it makes exactly the GitHub calls of the source,
  in order.\<close>

theorem analyze_github_repo_context:
  assumes "parse_github_url url = Inr (own, name)"
    and "get_repo w (own @ CHR ''/'' # name) = Inr repo"
    and "fetched w repo ''manifest.json'' = Some m" and "m \<noteq> []"
    and "json_loads w m = Inr (JObj d)"
  shows "analyze_github_repo w url tr =
    (json_dumps (JObj
       [(''name'', py_dict_get d ''name'' (JStr [])),
        (''version'', py_dict_get d ''version'' (JStr [])),
        (''description'', py_dict_get d ''description'' (JStr [])),
        (''manifest_version'', py_dict_get d ''manifest_version'' (JStr [])),
        (''permissions'', py_dict_get d ''permissions'' (JArr [])),
        (''host_permissions'', py_dict_get d ''host_permissions'' (JArr [])),
        (''content_scripts'', py_dict_get d ''content_scripts'' (JArr [])),
        (''background'', py_dict_get d ''background'' (JObj [])),
        (''readme'', JStr (case fetched w repo ''README.md'' of None \<Rightarrow> [] | Some s \<Rightarrow> s)),
        (''dependencies'', package_dependencies w (fetched w repo ''package.json'')),
        (''privacy_policy'', json_opt_str (found_value w repo PRIVACY_CANDIDATES)),
        (''license'', json_opt_str (found_value w repo LICENSE_CANDIDATES)),
        (''repo_url'', JStr url),
        (''stars'', JInt (stargazers_count repo)),
        (''last_updated'', JStr (updated_at repo)),
        (''open_issues'', JInt (open_issues_count repo)),
        (''default_locale'', py_dict_get d ''default_locale'' (JStr [])),
        (''icons'', py_dict_get d ''icons'' (JObj []))]),
     tr @ [GhGetRepo (own @ CHR ''/'' # name), GhGetContents ''manifest.json'',
           GhGetContents ''README.md'', GhGetContents ''package.json''] @
       map GhGetContents (tried w repo PRIVACY_CANDIDATES @ tried w repo LICENSE_CANDIDATES))"
  using assms
  by (simp add: analyze_github_repo_def analyze_body_parsed assemble_eq build_context_def)

text \<open>C10. When every optional file is missing (README, \<open>package.json\<close>, all
  privacy-policy and license candidates), the analysis still succeeds: the
  README is empty, the dependencies are \<open>{}\<close>, the privacy policy and the
  license are null, and every candidate was requested once.\<close>

theorem analyze_github_repo_optional_absent:
  assumes "parse_github_url url = Inr (own, name)"
    and "get_repo w (own @ CHR ''/'' # name) = Inr repo"
    and "fetched w repo ''manifest.json'' = Some m" and "m \<noteq> []"
    and "json_loads w m = Inr (JObj d)"
    and "\<forall>p\<in>set (''README.md'' # ''package.json'' # PRIVACY_CANDIDATES @ LICENSE_CANDIDATES).
           contents repo p = None"
  shows "analyze_github_repo w url tr =
    (json_dumps (JObj
       [(''name'', py_dict_get d ''name'' (JStr [])),
        (''version'', py_dict_get d ''version'' (JStr [])),
        (''description'', py_dict_get d ''description'' (JStr [])),
        (''manifest_version'', py_dict_get d ''manifest_version'' (JStr [])),
        (''permissions'', py_dict_get d ''permissions'' (JArr [])),
        (''host_permissions'', py_dict_get d ''host_permissions'' (JArr [])),
        (''content_scripts'', py_dict_get d ''content_scripts'' (JArr [])),
        (''background'', py_dict_get d ''background'' (JObj [])),
        (''readme'', JStr []), (''dependencies'', JObj []),
        (''privacy_policy'', JNull), (''license'', JNull),
        (''repo_url'', JStr url),
        (''stars'', JInt (stargazers_count repo)),
        (''last_updated'', JStr (updated_at repo)),
        (''open_issues'', JInt (open_issues_count repo)),
        (''default_locale'', py_dict_get d ''default_locale'' (JStr [])),
        (''icons'', py_dict_get d ''icons'' (JObj []))]),
     tr @ [GhGetRepo (own @ CHR ''/'' # name), GhGetContents ''manifest.json'',
           GhGetContents ''README.md'', GhGetContents ''package.json''] @
       map GhGetContents (PRIVACY_CANDIDATES @ LICENSE_CANDIDATES))"
proof -
  have abs: "\<forall>p\<in>set PRIVACY_CANDIDATES. contents repo p = None"
    "\<forall>p\<in>set LICENSE_CANDIDATES. contents repo p = None"
    "contents repo ''README.md'' = None" "contents repo ''package.json'' = None"
    using assms(6) by auto
  then show ?thesis
    using assms(1-5)
    by (simp add: analyze_github_repo_def analyze_body_parsed assemble_eq build_context_def
        found_value_absent tried_absent package_dependencies_def json_opt_str_def)
qed

text \<open>The unit test \<open>test_analyze_github_repo_success\<close> (lines 87--97) on the
  mocked repository: the manifest fields, the README and the statistics reach
  the dumped context.\<close>

theorem test_analyze_github_repo_success:
  "analyze_github_repo mock_github ''https://github.com/owner/repo'' [] =
    (json_dumps (JObj
       [(''name'', JStr ''Test Extension''), (''version'', JStr ''1.0.0''),
        (''description'', JStr ''A test extension''), (''manifest_version'', JInt 3),
        (''permissions'', JArr [JStr ''tabs'']), (''host_permissions'', JArr []),
        (''content_scripts'', JArr []), (''background'', JObj []),
        (''readme'', JStr mock_readme_text), (''dependencies'', JObj []),
        (''privacy_policy'', JNull), (''license'', JNull),
        (''repo_url'', JStr ''https://github.com/owner/repo''),
        (''stars'', JInt 100), (''last_updated'', JStr ''2024-05-13T00:00:00Z''),
        (''open_issues'', JInt 5), (''default_locale'', JStr []), (''icons'', JObj [])]),
     [GhGetRepo ''owner/repo'', GhGetContents ''manifest.json'', GhGetContents ''README.md'',
      GhGetContents ''package.json''] @ map GhGetContents (PRIVACY_CANDIDATES @ LICENSE_CANDIDATES))"
proof -
  have p: "parse_github_url ''https://github.com/owner/repo'' = Inr (''owner'', ''repo'')"
    by code_simp
  have r: "get_repo mock_github (''owner'' @ CHR ''/'' # ''repo'') = Inr mock_github_repo"
    by (simp add: mock_github_def)
  have f: "fetched mock_github mock_github_repo ''manifest.json'' = Some mock_manifest_text"
    by (simp add: fetched_def mock_github_def mock_github_repo_def mock_b64decode_utf8_def)
  have n: "mock_manifest_text \<noteq> []" by (simp add: mock_manifest_text_def)
  have l: "json_loads mock_github mock_manifest_text = Inr (JObj
       [(''name'', JStr ''Test Extension''), (''version'', JStr ''1.0.0''),
        (''description'', JStr ''A test extension''), (''manifest_version'', JInt 3),
        (''permissions'', JArr [JStr ''tabs''])])"
    by (simp add: mock_github_def mock_json_loads_def mock_manifest_value_def)
  have rd: "fetched mock_github mock_github_repo ''README.md'' = Some mock_readme_text"
    by (simp add: fetched_def mock_github_def mock_github_repo_def mock_b64decode_utf8_def
        mock_readme_b64_def mock_manifest_b64_def)
  have ab: "\<forall>p\<in>set (PRIVACY_CANDIDATES @ LICENSE_CANDIDATES). contents mock_github_repo p = None"
    "contents mock_github_repo ''package.json'' = None"
    by (simp_all add: mock_github_repo_def PRIVACY_CANDIDATES_def LICENSE_CANDIDATES_def)
  then have "found_value mock_github mock_github_repo PRIVACY_CANDIDATES = None"
    "found_value mock_github mock_github_repo LICENSE_CANDIDATES = None"
    "tried mock_github mock_github_repo PRIVACY_CANDIDATES = PRIVACY_CANDIDATES"
    "tried mock_github mock_github_repo LICENSE_CANDIDATES = LICENSE_CANDIDATES"
    by (simp_all add: found_value_absent tried_absent)
  with analyze_github_repo_context [OF p r f n l, of "[]"] rd ab(2) show ?thesis
    by (simp add: py_dict_get_def package_dependencies_def json_opt_str_def)
      (simp add: mock_github_repo_def)
qed

theorem analyze_github_repo_optional_absent_witness:
  "analyze_github_repo manifest_only_world ''https://github.com/owner/repo'' [] =
    (json_dumps (JObj
       [(''name'', JStr ''Test Extension''), (''version'', JStr ''1.0.0''),
        (''description'', JStr ''A test extension''), (''manifest_version'', JInt 3),
        (''permissions'', JArr [JStr ''tabs'']), (''host_permissions'', JArr []),
        (''content_scripts'', JArr []), (''background'', JObj []),
        (''readme'', JStr []), (''dependencies'', JObj []),
        (''privacy_policy'', JNull), (''license'', JNull),
        (''repo_url'', JStr ''https://github.com/owner/repo''),
        (''stars'', JInt 100), (''last_updated'', JStr ''2024-05-13T00:00:00Z''),
        (''open_issues'', JInt 5), (''default_locale'', JStr []), (''icons'', JObj [])]),
     [GhGetRepo ''owner/repo'', GhGetContents ''manifest.json'', GhGetContents ''README.md'',
      GhGetContents ''package.json''] @ map GhGetContents (PRIVACY_CANDIDATES @ LICENSE_CANDIDATES))"
proof -
  define repo where "repo = mock_github_repo\<lparr>contents :=
        (\<lambda>p. if p = ''manifest.json'' then Some mock_manifest_b64 else None)\<rparr>"
  have p: "parse_github_url ''https://github.com/owner/repo'' = Inr (''owner'', ''repo'')"
    by code_simp
  have r: "get_repo manifest_only_world (''owner'' @ CHR ''/'' # ''repo'') = Inr repo"
    by (simp add: manifest_only_world_def repo_def)
  have f: "fetched manifest_only_world repo ''manifest.json'' = Some mock_manifest_text"
    by (simp add: fetched_def manifest_only_world_def mock_github_def repo_def mock_b64decode_utf8_def)
  have n: "mock_manifest_text \<noteq> []" by (simp add: mock_manifest_text_def)
  have l: "json_loads manifest_only_world mock_manifest_text = Inr (JObj
       [(''name'', JStr ''Test Extension''), (''version'', JStr ''1.0.0''),
        (''description'', JStr ''A test extension''), (''manifest_version'', JInt 3),
        (''permissions'', JArr [JStr ''tabs''])])"
    by (simp add: manifest_only_world_def mock_github_def mock_json_loads_def mock_manifest_value_def)
  have a: "\<forall>p\<in>set (''README.md'' # ''package.json'' # PRIVACY_CANDIDATES @ LICENSE_CANDIDATES).
      contents repo p = None"
    by (simp add: repo_def PRIVACY_CANDIDATES_def LICENSE_CANDIDATES_def)
  from analyze_github_repo_optional_absent [OF p r f n l a, of "[]"] show ?thesis
    by (simp add: py_dict_get_def repo_def mock_github_repo_def)
qed

text \<open>C11. A manifest that is valid JSON but not an object is caught only at
  the first \<open>manifest_data.get\<close>, after every optional file was requested:
  the analysis returns \<open>Error analyzing repository: '<type>' object has no
  attribute 'get'\<close> and logs the error.\<close>

theorem analyze_github_repo_manifest_not_dict:
  assumes "parse_github_url url = Inr (own, name)"
    and "get_repo w (own @ CHR ''/'' # name) = Inr repo"
    and "fetched w repo ''manifest.json'' = Some m" and "m \<noteq> []"
    and "json_loads w m = Inr md" and "\<forall>d. md \<noteq> JObj d"
  shows "analyze_github_repo w url tr =
    (''Error analyzing repository: '' @ exc_str (no_get_error md),
     tr @ [GhGetRepo (own @ CHR ''/'' # name), GhGetContents ''manifest.json'',
           GhGetContents ''README.md'', GhGetContents ''package.json''] @
       map GhGetContents (tried w repo PRIVACY_CANDIDATES @ tried w repo LICENSE_CANDIDATES) @
       [Log ERROR (''Error analyzing GitHub repository: '' @ exc_str (no_get_error md))])"
proof -
  have "build_context md r d p l u repo = Inl (no_get_error md)" for r d p l u
    using assms(6) by (cases md) (simp_all add: build_context_def)
  with assms(1-5) show ?thesis
    by (simp add: analyze_github_repo_def analyze_body_parsed assemble_eq)
qed

theorem analyze_github_repo_manifest_not_dict_witness:
  "fst (analyze_github_repo list_manifest_world ''https://github.com/owner/repo'' []) =
     ''Error analyzing repository: '' @ CHR 0x27 # ''list'' @ CHR 0x27 #
     '' object has no attribute '' @ CHR 0x27 # ''get'' @ [CHR 0x27]"
proof -
  have p: "parse_github_url ''https://github.com/owner/repo'' = Inr (''owner'', ''repo'')"
    by code_simp
  have r: "get_repo list_manifest_world (''owner'' @ CHR ''/'' # ''repo'') = Inr mock_github_repo"
    by (simp add: list_manifest_world_def mock_github_def)
  have f: "fetched list_manifest_world mock_github_repo ''manifest.json'' = Some mock_manifest_text"
    by (simp add: fetched_def list_manifest_world_def mock_github_def mock_github_repo_def
        mock_b64decode_utf8_def)
  have n: "mock_manifest_text \<noteq> []" by (simp add: mock_manifest_text_def)
  have l: "json_loads list_manifest_world mock_manifest_text = Inr (JArr [])"
    by (simp add: list_manifest_world_def)
  have nd: "\<forall>d. JArr [] \<noteq> JObj d" by simp
  from analyze_github_repo_manifest_not_dict [OF p r f n l nd, of "[]"] show ?thesis
    by (simp add: no_get_error_def)
qed

text \<open>C12. An invalid URL is reported without any call to GitHub: the result
  is \<open>Error analyzing repository: Invalid GitHub repository URL\<close> and the
  only event is the error log record.\<close>

theorem analyze_github_repo_invalid_url:
  assumes "\<not> (\<exists>i\<le>length url. \<exists>own repo. regex_match (drop i url) own repo)"
  shows "analyze_github_repo w url tr =
    (''Error analyzing repository: Invalid GitHub repository URL'',
     tr @ [Log ERROR ''Error analyzing GitHub repository: Invalid GitHub repository URL''])"
proof -
  have "search_github url = None"
    using assms by (simp add: search_github_None_iff match_at_None_iff)
  then have "parse_github_url url = Inl (ValueError ''Invalid GitHub repository URL'')"
    by (simp add: parse_github_url_def)
  then show ?thesis by (simp add: analyze_github_repo_def analyze_body_url_error)
qed

theorem analyze_github_repo_invalid_url_witness:
  "analyze_github_repo mock_github ''https://invalid-url.com'' [] =
    (''Error analyzing repository: Invalid GitHub repository URL'',
     [Log ERROR ''Error analyzing GitHub repository: Invalid GitHub repository URL''])"
proof -
  have "search_github ''https://invalid-url.com'' = None" by code_simp
  then have "\<forall>i\<le>length ''https://invalid-url.com''.
      match_at (drop i ''https://invalid-url.com'') = None"
    using search_github_None_iff by blast
  then have "\<not> (\<exists>i\<le>length ''https://invalid-url.com''. \<exists>own repo.
      regex_match (drop i ''https://invalid-url.com'') own repo)"
    by (metis match_at_None_iff)
  from analyze_github_repo_invalid_url [OF this] show ?thesis by simp
qed

text \<open>C13. When GitHub does not find the repository, the analysis returns
  \<open>Error analyzing repository: \<close> followed by the exception's text, after the
  single \<open>get_repo\<close> call.\<close>

theorem analyze_github_repo_repo_missing:
  assumes "parse_github_url url = Inr (own, name)"
    and "get_repo w (own @ CHR ''/'' # name) = Inl e"
  shows "analyze_github_repo w url tr =
    (''Error analyzing repository: '' @ exc_str e,
     tr @ [GhGetRepo (own @ CHR ''/'' # name),
           Log ERROR (''Error analyzing GitHub repository: '' @ exc_str e)])"
  using assms by (simp add: analyze_github_repo_def analyze_body_repo_error)

theorem analyze_github_repo_repo_missing_witness:
  "analyze_github_repo (mock_github\<lparr>get_repo := (\<lambda>_. Inl (GithubException ''404 Not Found''))\<rparr>)
     ''https://github.com/owner/repo'' [] =
    (''Error analyzing repository: 404 Not Found'',
     [GhGetRepo ''owner/repo'', Log ERROR ''Error analyzing GitHub repository: 404 Not Found''])"
proof -
  have p: "parse_github_url ''https://github.com/owner/repo'' = Inr (''owner'', ''repo'')"
    by code_simp
  have r: "get_repo (mock_github\<lparr>get_repo := (\<lambda>_. Inl (GithubException ''404 Not Found''))\<rparr>)
      (''owner'' @ CHR ''/'' # ''repo'') = Inl (GithubException ''404 Not Found'')"
    by simp
  from analyze_github_repo_repo_missing [OF p r, of "[]"] show ?thesis by simp
qed

end
