(* ===== verification/Agent.thy ===== *)
theory Agent
  imports Fixtures
begin

text \<open>
  The completion agent: the configuration read at import time (lines 15--30)
  and \<open>agent_tool\<close> (lines 209--224). \<open>load_config\<close> reads the four
  variables from the environment and asserts each in turn; \<open>debug\<close> is
  Python's \<open>__debug__\<close>, false under \<open>python -O\<close>, where every \<open>assert\<close> is
  skipped, so that building the client (lines 26--30) can raise. The calls
  of the client built from the configuration are the \<open>complete\<close> field of
  the world. \<open>agent_tool\<close> records the request it sends as a
  \<open>Complete\<close> event (the service sees it), and turns every exception of its
  \<open>try\<close> block into the text \<open>Error: str(e)\<close> and a log record. Its result
  is the content of the first choice, an \<open>Optional[str]\<close>.
\<close>

record config =
  debug :: bool
  endpoint :: "string option"
  api_key :: "string option"
  model :: "string option"
  api_version :: "string option"

type_synonym env = "string \<Rightarrow> string option"

definition CONFIG_VARS :: "string list" where
  "CONFIG_VARS = [''AZURE_OPENAI_ENDPOINT'', ''AZURE_OPENAI_KEY'', ''AZURE_OPENAI_MODEL'',
                  ''AZURE_OPENAI_API_VERSION'']"

text \<open>Lines 21--24: \<open>assert VAR, "VAR is not set."\<close> for each variable in
  order; the first one unset or empty raises.\<close>

fun check_vars :: "env \<Rightarrow> string list \<Rightarrow> exc option" where
  "check_vars env [] = None"
| "check_vars env (v # vs) =
     (if py_truthy_str (env v) then check_vars env vs
      else Some (AssertionError (v @ '' is not set.'')))"

text \<open>Lines 26--30: \<open>ChatCompletionsClient(endpoint=..., credential=
  AzureKeyCredential(key), api_version=...)\<close>. The arguments are evaluated
  first, and \<open>AzureKeyCredential\<close> rejects a key that is not a string with
  \<open>TypeError\<close>; the client's configuration then rejects an endpoint that is
  \<open>None\<close> with \<open>ValueError\<close>. Empty strings and a missing API version
  pass construction. The result is the exception raised, if any.\<close>

definition client_construction :: "string option \<Rightarrow> string option \<Rightarrow> exc option" where
  "client_construction endpoint_v key_v =
     (if key_v = None then Some (TypeError ''key must be a string.'')
      else if endpoint_v = None then Some (ValueError ''Parameter 'endpoint' must not be None.'')
      else None)"

text \<open>Lines 15--30 at import: the asserts (skipped under \<open>python -O\<close>), then
  the client.\<close>

definition load_config :: "bool \<Rightarrow> env \<Rightarrow> exc + config" where
  "load_config dbg env =
     (case (if dbg then check_vars env CONFIG_VARS else None) of
        Some e \<Rightarrow> Inl e
      | None \<Rightarrow>
          (case client_construction (env ''AZURE_OPENAI_ENDPOINT'') (env ''AZURE_OPENAI_KEY'') of
             Some e \<Rightarrow> Inl e
           | None \<Rightarrow> Inr \<lparr>debug = dbg, endpoint = env ''AZURE_OPENAI_ENDPOINT'',
                          api_key = env ''AZURE_OPENAI_KEY'', model = env ''AZURE_OPENAI_MODEL'',
                          api_version = env ''AZURE_OPENAI_API_VERSION''\<rparr>))"

definition MAX_TOKENS :: nat where
  "MAX_TOKENS = 2048"

definition agent_request :: "config \<Rightarrow> string \<Rightarrow> string \<Rightarrow> event" where
  "agent_request cfg agent_prompt user_input =
     Complete [SystemMessage agent_prompt, UserMessage user_input] MAX_TOKENS (model cfg)"

text \<open>Lines 222--224, the \<open>except\<close> clause.\<close>

definition agent_error :: "exc \<Rightarrow> trace \<Rightarrow> string option \<times> trace" where
  "agent_error e tr =
     (Some (''Error: '' @ exc_str e), tr @ [Log ERROR (''Agent failed: '' @ exc_str e)])"

text \<open>Line 220 asserts that there is a choice; without the assertion the
  index \<open>choices[0]\<close> of line 221 raises \<open>IndexError\<close>.\<close>

definition agent_tool :: "config \<Rightarrow> world \<Rightarrow> string \<Rightarrow> string \<Rightarrow> trace \<Rightarrow> string option \<times> trace" where
  "agent_tool cfg w agent_prompt user_input tr =
     (let tr1 = tr @ [agent_request cfg agent_prompt user_input] in
      case complete w tr1 of
        Inl e \<Rightarrow> agent_error e tr1
      | Inr response \<Rightarrow>
          (case choices response of
             [] \<Rightarrow> agent_error
                     (if debug cfg then AssertionError ''No response choices returned from agent.''
                      else IndexError ''list index out of range'') tr1
           | c # _ \<Rightarrow> (c, tr1)))"

text \<open>A configuration that passes the assertions, as the tests run with.\<close>

definition test_config :: config where
  "test_config =
     \<lparr>debug = True, endpoint = Some ''https://example.openai.azure.com'', api_key = Some ''key'',
      model = Some ''gpt-4o'', api_version = Some ''2024-05-01-preview''\<rparr>"

text \<open>The environment that yields it.\<close>

definition test_env :: env where
  "test_env v =
     (if v = ''AZURE_OPENAI_ENDPOINT'' then endpoint test_config
      else if v = ''AZURE_OPENAI_KEY'' then api_key test_config
      else if v = ''AZURE_OPENAI_MODEL'' then model test_config
      else if v = ''AZURE_OPENAI_API_VERSION'' then api_version test_config
      else None)"

subsection \<open>Lemmas on the agent\<close>

lemma check_vars_None_iff: "check_vars env vs = None \<longleftrightarrow> (\<forall>v\<in>set vs. py_truthy_str (env v))"
  by (induction vs) auto

lemma check_vars_dropWhile:
  "check_vars env vs =
     (case dropWhile (\<lambda>v. py_truthy_str (env v)) vs of
        [] \<Rightarrow> None
      | v # _ \<Rightarrow> Some (AssertionError (v @ '' is not set.'')))"
  by (induction vs) auto

lemma agent_tool_trace:
  "\<exists>out es. agent_tool cfg w p u tr = (out, tr @ agent_request cfg p u # es) \<and>
     (es = [] \<or>
      (\<exists>m. out = Some (''Error: '' @ m) \<and> es = [Log ERROR (''Agent failed: '' @ m)]))"
  by (auto simp: agent_tool_def agent_error_def Let_def split: sum.splits list.splits)

lemma agent_tool_branches:
  "complete w (tr @ [agent_request cfg p u]) = Inl e \<Longrightarrow>
     agent_tool cfg w p u tr = agent_error e (tr @ [agent_request cfg p u])"
  "complete w (tr @ [agent_request cfg p u]) = Inr r \<Longrightarrow> choices r = [] \<Longrightarrow>
     agent_tool cfg w p u tr =
       agent_error (if debug cfg then AssertionError ''No response choices returned from agent.''
                    else IndexError ''list index out of range'') (tr @ [agent_request cfg p u])"
  "complete w (tr @ [agent_request cfg p u]) = Inr r \<Longrightarrow> choices r = c # cs \<Longrightarrow>
     agent_tool cfg w p u tr = (c, tr @ [agent_request cfg p u])"
  by (simp_all add: agent_tool_def)

subsection \<open>Properties of the agent\<close>

text \<open>C15. With assertions on, the import asserts the four variables in order
  and raises \<open>AssertionError("VAR is not set.")\<close> for the first one unset or
  empty; once they pass, the client is built without error. Under
  \<open>python -O\<close> nothing is asserted: an unset key makes the client's
  credential raise \<open>TypeError\<close>, an unset endpoint makes the client raise
  \<open>ValueError\<close>, and any other environment, empty values and an unset
  model or API version included, yields a configuration.\<close>

theorem load_config_asserts:
  "load_config True env =
     (case dropWhile (\<lambda>v. py_truthy_str (env v)) CONFIG_VARS of
        v # _ \<Rightarrow> Inl (AssertionError (v @ '' is not set.''))
      | [] \<Rightarrow> Inr \<lparr>debug = True, endpoint = env ''AZURE_OPENAI_ENDPOINT'',
                  api_key = env ''AZURE_OPENAI_KEY'', model = env ''AZURE_OPENAI_MODEL'',
                  api_version = env ''AZURE_OPENAI_API_VERSION''\<rparr>)
   \<and> load_config False env =
       (if env ''AZURE_OPENAI_KEY'' = None then Inl (TypeError ''key must be a string.'')
        else if env ''AZURE_OPENAI_ENDPOINT'' = None
        then Inl (ValueError ''Parameter 'endpoint' must not be None.'')
        else Inr \<lparr>debug = False, endpoint = env ''AZURE_OPENAI_ENDPOINT'',
                  api_key = env ''AZURE_OPENAI_KEY'', model = env ''AZURE_OPENAI_MODEL'',
                  api_version = env ''AZURE_OPENAI_API_VERSION''\<rparr>)"
proof
  show "load_config True env =
     (case dropWhile (\<lambda>v. py_truthy_str (env v)) CONFIG_VARS of
        v # _ \<Rightarrow> Inl (AssertionError (v @ '' is not set.''))
      | [] \<Rightarrow> Inr \<lparr>debug = True, endpoint = env ''AZURE_OPENAI_ENDPOINT'',
                  api_key = env ''AZURE_OPENAI_KEY'', model = env ''AZURE_OPENAI_MODEL'',
                  api_version = env ''AZURE_OPENAI_API_VERSION''\<rparr>)"
  proof (cases "dropWhile (\<lambda>v. py_truthy_str (env v)) CONFIG_VARS")
    case Nil
    then have "\<forall>v\<in>set CONFIG_VARS. py_truthy_str (env v)"
      by (simp only: dropWhile_eq_Nil_conv)
    then have "env ''AZURE_OPENAI_ENDPOINT'' \<noteq> None" "env ''AZURE_OPENAI_KEY'' \<noteq> None"
      by (auto simp: CONFIG_VARS_def py_truthy_str_def split: option.splits)
    with Nil show ?thesis
      by (auto simp: load_config_def check_vars_dropWhile client_construction_def
          simp del: dropWhile_eq_Nil_conv)
  next
    case (Cons v vs)
    then show ?thesis
      by (simp add: load_config_def check_vars_dropWhile del: dropWhile_eq_Nil_conv dropWhile_eq_Cons_conv)
  qed
  show "load_config False env =
       (if env ''AZURE_OPENAI_KEY'' = None then Inl (TypeError ''key must be a string.'')
        else if env ''AZURE_OPENAI_ENDPOINT'' = None
        then Inl (ValueError ''Parameter 'endpoint' must not be None.'')
        else Inr \<lparr>debug = False, endpoint = env ''AZURE_OPENAI_ENDPOINT'',
                  api_key = env ''AZURE_OPENAI_KEY'', model = env ''AZURE_OPENAI_MODEL'',
                  api_version = env ''AZURE_OPENAI_API_VERSION''\<rparr>)"
    by (simp add: load_config_def client_construction_def)
qed

text \<open>C16. When the service answers with at least one choice, \<open>agent_tool\<close>
  returns the first choice's content after one request carrying the system
  prompt, the user input, \<open>max_tokens = 2048\<close> and the configured model.\<close>

theorem agent_tool_success:
  assumes "complete w (tr @ [agent_request cfg p u]) = Inr r" and "choices r = c # cs"
  shows "agent_tool cfg w p u tr =
           (c, tr @ [Complete [SystemMessage p, UserMessage u] 2048 (model cfg)])"
  using agent_tool_branches(3) [OF assms] by (simp add: agent_request_def MAX_TOKENS_def)

theorem test_agent_tool_success:
  "agent_tool test_config mock_github ''Test Agent Prompt'' ''Test user input'' [] =
     (Some ''mocked output'',
      [Complete [SystemMessage ''Test Agent Prompt'', UserMessage ''Test user input''] 2048
         (Some ''gpt-4o'')])"
  using agent_tool_success [of mock_github "[]" test_config "''Test Agent Prompt''"
      "''Test user input''" mocked_response "Some ''mocked output''" "[]"]
  by (simp add: mock_github_def mocked_response_def test_config_def)

text \<open>C17. When the service raises, \<open>agent_tool\<close> does not: it returns
  \<open>Error: \<close> followed by the exception's text and logs \<open>Agent failed: \<close> with
  the same text.\<close>

theorem agent_tool_exception:
  assumes "complete w (tr @ [agent_request cfg p u]) = Inl e"
  shows "agent_tool cfg w p u tr =
           (Some (''Error: '' @ exc_str e),
            tr @ [agent_request cfg p u, Log ERROR (''Agent failed: '' @ exc_str e)])"
  using agent_tool_branches(1) [OF assms] by (simp add: agent_error_def)

theorem test_agent_tool_exception:
  "fst (agent_tool test_config mock_raising ''Prompt'' ''Input'' []) = Some ''Error: Test error''"
  using agent_tool_exception [of mock_raising "[]" test_config "''Prompt''" "''Input''"
      "ServiceError ''Test error''"]
  by (simp add: mock_raising_def)

text \<open>C18. When the service answers with no choice, \<open>agent_tool\<close> returns an
  \<open>Error: \<close> string and logs it: the assertion's message, or, under
  \<open>python -O\<close> where the assertion is skipped, the \<open>IndexError\<close> of
  \<open>choices[0]\<close>.\<close>

theorem agent_tool_no_choices:
  assumes "complete w (tr @ [agent_request cfg p u]) = Inr r" and "choices r = []"
  shows "agent_tool cfg w p u tr =
    (let m = (if debug cfg then ''No response choices returned from agent.''
              else ''list index out of range'')
     in (Some (''Error: '' @ m), tr @ [agent_request cfg p u, Log ERROR (''Agent failed: '' @ m)]))"
  using agent_tool_branches(2) [OF assms] by (cases "debug cfg") (simp_all add: agent_error_def Let_def)

theorem test_agent_tool_no_choices:
  "fst (agent_tool test_config mock_no_choices ''Prompt'' ''Input'' []) =
     Some ''Error: No response choices returned from agent.''
   \<and> fst (agent_tool (test_config\<lparr>debug := False\<rparr>) mock_no_choices ''Prompt'' ''Input'' []) =
     Some ''Error: list index out of range''"
  using agent_tool_no_choices [of mock_no_choices "[]" test_config "''Prompt''" "''Input''"
      "\<lparr>choices = []\<rparr>"]
    agent_tool_no_choices [of mock_no_choices "[]" "test_config\<lparr>debug := False\<rparr>" "''Prompt''"
      "''Input''" "\<lparr>choices = []\<rparr>"]
  by (simp add: test_config_def mock_no_choices_def Let_def)

text \<open>C19. Whatever the service does, \<open>agent_tool\<close> sends exactly one request,
  makes no GitHub call and prints nothing.\<close>

theorem agent_tool_one_request:
  "completions (snd (agent_tool cfg w p u tr)) = completions tr @ [agent_request cfg p u]
   \<and> github_calls (snd (agent_tool cfg w p u tr)) = github_calls tr
   \<and> stdout (snd (agent_tool cfg w p u tr)) = stdout tr"
proof -
  obtain out es where a: "agent_tool cfg w p u tr = (out, tr @ agent_request cfg p u # es)"
    and b: "es = [] \<or>
      (\<exists>m. out = Some (''Error: '' @ m) \<and> es = [Log ERROR (''Agent failed: '' @ m)])"
    using agent_tool_trace by blast
  from b have "completions es = [] \<and> github_calls es = [] \<and> stdout es = []"
    by (auto simp: completions_def github_calls_def)
  with a show ?thesis by (simp add: agent_request_def completions_def github_calls_def)
qed

end
