(* ===== verification/Prompts.thy ===== *)
theory Prompts
  imports PyRuntime
begin

text \<open>
  The three prompt templates (lines 32--116): for each listing section a list
  of \<open>(field, instruction)\<close> pairs, an example output and the prompt text.
  The three prompts are built by the same expression from a role line, the
  lines naming what to analyse, the field list and the example, which is
  \<open>render_prompt\<close>. The key list is Python's \<open>str\<close> of a list of strings,
  each item its \<open>repr\<close>. The strings are the source's literals, each line of
  a triple-quoted example a list item joined by newlines.
\<close>

definition field_lines :: "(string \<times> string) list \<Rightarrow> string" where
  "field_lines fields = py_join NL (map (\<lambda>field. ''- '' @ fst field @ '': '' @ snd field) fields)"

definition render_prompt :: "string \<Rightarrow> string \<Rightarrow> (string \<times> string) list \<Rightarrow> string \<Rightarrow> string" where
  "render_prompt role analysis fields example =
     role @ NL @ analysis @
     ''For each of the following fields, provide a value as described. Return your answers as a JSON object with these keys: '' @
     py_repr_str_list (map fst fields) @ ''.'' @ NL @
     field_lines fields @
     NL @ ''If a field is not applicable, use null or an empty string.'' @ NL @
     ''Here is an example output:'' @ NL @ example"

definition STORE_LISTING_FIELDS :: "(string \<times> string) list" where
  "STORE_LISTING_FIELDS =
     [(''display_name'',
       ''Enter the extension's display name. It should be clear and related to the manifest name.''),
      (''summary'',
       ''Write a concise tagline (max 132 characters) for the extension.''),
      (''detailed_description'',
       ''Provide a full description of features, benefits, and usage. Use formatting for readability.''),
      (''language'',
       ''Specify the primary language.''),
      (''category'',
       ''Choose the most relevant category (e.g., Productivity, Developer Tools).''),
      (''official_website'',
       ''Provide the homepage or support page URL.''),
      (''support_contact'',
       ''Provide a support contact (email or URL).'')]"

definition STORE_LISTING_EXAMPLE :: string where
  \<open>STORE_LISTING_EXAMPLE = py_join NL
     [''{'',
      ''  "display_name": "Tab Organizer",'',
      ''  "summary": "Organize your tabs with one click.",'',
      ''  "detailed_description": "Tab Organizer helps you manage and group your Chrome tabs efficiently. Features include...",'',
      ''  "language": "en",'',
      ''  "category": "Productivity",'',
      ''  "official_website": "https://taborganizer.com",'',
      ''  "support_contact": "support@taborganizer.com"'',
      ''}'']\<close>

definition STORE_LISTING_PROMPT :: string where
  "STORE_LISTING_PROMPT =
     render_prompt
       ''You are the Store Listing Agent. Fill out the Chrome Web Store 'Store Listing' tab.''
       (''Based on the repository data provided, analyze the manifest.json, README.md, and repository information to fill out the store listing.'' @ NL)
       STORE_LISTING_FIELDS STORE_LISTING_EXAMPLE"

definition PRIVACY_PRACTICES_FIELDS :: "(string \<times> string) list" where
  "PRIVACY_PRACTICES_FIELDS =
     [(''single_purpose'',
       ''Clearly explain your extension's single core purpose.''),
      (''permission_justifications'',
       ''For each permission, provide a detailed justification.''),
      (''user_data_usage'',
       ''Disclose if and how user data is collected/used/shared.''),
      (''privacy_policy_url'',
       ''Provide a direct link to your privacy policy.''),
      (''remote_code'',
       ''Disclose if remote code is used.''),
      (''content_security_policy'',
       ''State your Content Security Policy.'')]"

definition PRIVACY_PRACTICES_EXAMPLE :: string where
  \<open>PRIVACY_PRACTICES_EXAMPLE = py_join NL
     [''{'',
      ''  "single_purpose": "Tab Organizer helps users manage browser tabs.",'',
      ''  "permission_justifications": {"tabs": "Needed to read and organize open tabs."},'',
      ''  "user_data_usage": {"PII": "No", "analytics": "No"},'',
      ''  "privacy_policy_url": "https://taborganizer.com/privacy",'',
      ''  "remote_code": "No",'',
      ''  "content_security_policy": "script-src 'self'; object-src 'none';"'',
      ''}'']\<close>

definition PRIVACY_PRACTICES_PROMPT :: string where
  "PRIVACY_PRACTICES_PROMPT =
     render_prompt
       ''You are the Privacy Practices Agent. Fill out the Chrome Web Store 'Privacy Practices' tab.''
       (''Based on the repository data provided, analyze the manifest.json permissions, README.md, and any privacy-related files to assess privacy practices.'' @ NL @ ''Pay special attention to the permissions requested in manifest.json and any privacy policy or data handling documentation.'' @ NL)
       PRIVACY_PRACTICES_FIELDS PRIVACY_PRACTICES_EXAMPLE"

definition DISTRIBUTION_FIELDS :: "(string \<times> string) list" where
  "DISTRIBUTION_FIELDS =
     [(''visibility'',
       ''Choose one: Public, Unlisted, Private.''),
      (''countries'',
       ''List countries for distribution.''),
      (''pricing_payments'',
       ''Describe pricing or payment setup if applicable.'')]"

definition DISTRIBUTION_EXAMPLE :: string where
  \<open>DISTRIBUTION_EXAMPLE = py_join NL
     [''{'',
      ''  "visibility": "Public",'',
      ''  "countries": ["US", "CA", "GB"],'',
      ''  "pricing_payments": "Free extension. No payments required."'',
      ''}'']\<close>

definition DISTRIBUTION_PROMPT :: string where
  "DISTRIBUTION_PROMPT =
     render_prompt
       ''You are the Distribution Agent. Fill out the Chrome Web Store 'Distribution' tab.''
       (''Based on the repository data provided, analyze the project's maturity, popularity (stars), and maintenance status (issues, last update).'' @ NL @ ''Consider the repository's visibility, documentation quality, and overall readiness for distribution.'' @ NL)
       DISTRIBUTION_FIELDS DISTRIBUTION_EXAMPLE"

subsection \<open>Lemmas on rendering\<close>

lemma py_join_sublist:
  "x \<in> set xs \<Longrightarrow> sublist (sep @ x @ sep) (sep @ py_join sep xs @ sep)"
proof (induction sep xs rule: py_join.induct)
  case (3 sep x' y zs)
  show ?case
  proof (cases "x = x'")
    case True
    then show ?thesis
      using sublist_appendI [of "sep @ x @ sep" "[]" "py_join sep (y # zs) @ sep"] by simp
  next
    case False
    with 3 have "sublist (sep @ x @ sep) (sep @ py_join sep (y # zs) @ sep)" by simp
    moreover have "sublist (sep @ py_join sep (y # zs) @ sep) (sep @ py_join sep (x' # y # zs) @ sep)"
      using sublist_appendI [of "sep @ py_join sep (y # zs) @ sep" "sep @ x'" "[]"] by simp
    ultimately show ?thesis by (rule sublist_order.order_trans)
  qed
next
  case (2 sep x')
  then show ?case using sublist_appendI [of "sep @ x @ sep" "[]" "[]"] by simp
qed simp

lemma render_prompt_field_lines:
  "sublist (NL @ field_lines fields @ NL) (render_prompt role analysis fields example)"
proof -
  have "render_prompt role analysis fields example =
     (role @ NL @ analysis @
      ''For each of the following fields, provide a value as described. Return your answers as a JSON object with these keys: '' @
      py_repr_str_list (map fst fields) @ ''.'') @
     (NL @ field_lines fields @ NL) @
     (''If a field is not applicable, use null or an empty string.'' @ NL @
      ''Here is an example output:'' @ NL @ example)"
    by (simp only: render_prompt_def append.assoc)
  then show ?thesis by (simp only: sublist_appendI)
qed

lemma render_prompt_keys:
  "sublist (''these keys: '' @ py_repr_str_list (map fst fields) @ ''.'')
     (render_prompt role analysis fields example)"
proof -
  have "render_prompt role analysis fields example =
     (role @ NL @ analysis @
      ''For each of the following fields, provide a value as described. Return your answers as a JSON object with '') @
     (''these keys: '' @ py_repr_str_list (map fst fields) @ ''.'') @
     (NL @ field_lines fields @ NL @ ''If a field is not applicable, use null or an empty string.'' @ NL @
      ''Here is an example output:'' @ NL @ example)"
    by (simp add: render_prompt_def)
  then show ?thesis by (simp only: sublist_appendI)
qed

lemma py_repr_str_list_plain:
  assumes "\<forall>n\<in>set names. \<forall>c\<in>set n. py_isprintable c \<and> c \<noteq> CHR 0x27 \<and> c \<noteq> CHR 0x5C"
  shows "py_repr_str_list names =
           ''['' @ py_join '', '' (map (\<lambda>n. CHR 0x27 # n @ [CHR 0x27]) names) @ '']''"
proof -
  have "map py_repr_str names = map (\<lambda>n. CHR 0x27 # n @ [CHR 0x27]) names"
    using assms by (simp add: py_repr_str_plain)
  then show ?thesis by (simp only: py_repr_str_list_def)
qed

subsection \<open>Properties of the templates\<close>

text \<open>C20. Every field of a template appears in its prompt on a line of its
  own, as \<open>- name: instruction\<close>.\<close>

theorem render_prompt_field_line:
  assumes "(n, i) \<in> set fields"
  shows "sublist (NL @ ''- '' @ n @ '': '' @ i @ NL) (render_prompt role analysis fields example)"
proof -
  have "''- '' @ n @ '': '' @ i \<in> set (map (\<lambda>field. ''- '' @ fst field @ '': '' @ snd field) fields)"
    using imageI [OF assms, of "\<lambda>field. ''- '' @ fst field @ '': '' @ snd field"] by simp
  then have "sublist (NL @ (''- '' @ n @ '': '' @ i) @ NL) (NL @ field_lines fields @ NL)"
    unfolding field_lines_def by (rule py_join_sublist)
  from sublist_order.order_trans [OF this render_prompt_field_lines] show ?thesis by simp
qed

theorem render_prompt_field_line_witness:
  "sublist (NL @ ''- '' @ ''remote_code'' @ '': '' @ ''Disclose if remote code is used.'' @ NL)
     PRIVACY_PRACTICES_PROMPT"
proof -
  have "(''remote_code'', ''Disclose if remote code is used.'') \<in> set PRIVACY_PRACTICES_FIELDS"
    by (simp add: PRIVACY_PRACTICES_FIELDS_def)
  from render_prompt_field_line [OF this] show ?thesis
    unfolding PRIVACY_PRACTICES_PROMPT_def .
qed
text \<open>C21. Each prompt names its section's output keys, in the order of the
  field list, as the Python list literal the f-string renders: the keys the
  specification lists for the section.\<close>

theorem prompt_key_lists:
  "sublist (''these keys: ['display_name', 'summary', 'detailed_description', 'language', 'category', 'official_website', 'support_contact'].'') STORE_LISTING_PROMPT
   \<and> sublist (''these keys: ['single_purpose', 'permission_justifications', 'user_data_usage', 'privacy_policy_url', 'remote_code', 'content_security_policy'].'') PRIVACY_PRACTICES_PROMPT
   \<and> sublist (''these keys: ['visibility', 'countries', 'pricing_payments'].'') DISTRIBUTION_PROMPT"
proof -
  have k0: "py_repr_str_list (map fst STORE_LISTING_FIELDS) = ''['display_name', 'summary', 'detailed_description', 'language', 'category', 'official_website', 'support_contact']''"
    by (simp add: py_repr_str_list_plain STORE_LISTING_FIELDS_def py_isprintable_def)
  have s0: "sublist (''these keys: '' @ py_repr_str_list (map fst STORE_LISTING_FIELDS) @ ''.'') STORE_LISTING_PROMPT"
    unfolding STORE_LISTING_PROMPT_def by (rule render_prompt_keys)
  have k1: "py_repr_str_list (map fst PRIVACY_PRACTICES_FIELDS) = ''['single_purpose', 'permission_justifications', 'user_data_usage', 'privacy_policy_url', 'remote_code', 'content_security_policy']''"
    by (simp add: py_repr_str_list_plain PRIVACY_PRACTICES_FIELDS_def py_isprintable_def)
  have s1: "sublist (''these keys: '' @ py_repr_str_list (map fst PRIVACY_PRACTICES_FIELDS) @ ''.'') PRIVACY_PRACTICES_PROMPT"
    unfolding PRIVACY_PRACTICES_PROMPT_def by (rule render_prompt_keys)
  have k2: "py_repr_str_list (map fst DISTRIBUTION_FIELDS) = ''['visibility', 'countries', 'pricing_payments']''"
    by (simp add: py_repr_str_list_plain DISTRIBUTION_FIELDS_def py_isprintable_def)
  have s2: "sublist (''these keys: '' @ py_repr_str_list (map fst DISTRIBUTION_FIELDS) @ ''.'') DISTRIBUTION_PROMPT"
    unfolding DISTRIBUTION_PROMPT_def by (rule render_prompt_keys)
  show ?thesis using s0 s1 s2 by (simp add: k0 k1 k2)
qed

end
