(* ===== verification/Flow.thy ===== *)
theory Flow
  imports Analyzer Agent Prompts
begin

text \<open>
  The flow orchestrator \<open>run_agentic_flow\<close> (lines 226--240) and the entry
  point under \<open>if __name__ == "__main__"\<close> (lines 242--253). Each of the
  three sections logs its start, calls \<open>agent_tool\<close> with its prompt and the
  context, and prints a header and the agent's output; \<open>print\<close> of an
  \<open>Optional[str]\<close> writes \<open>None\<close> for a missing content. The entry point
  reads the URL (\<open>input\<close> prints its prompt), asserts that it is not blank,
  runs the analysis and either reports the failure or starts the flow.
  \<open>program\<close> puts the configuration step of module import in front.
\<close>

text \<open>\<open>str(x)\<close> of an \<open>Optional[str]\<close>, as \<open>print\<close> writes it.\<close>

definition py_str_opt :: "string option \<Rightarrow> string" where
  "py_str_opt x = (case x of None \<Rightarrow> ''None'' | Some s \<Rightarrow> s)"

text \<open>One section of the flow, e.g. lines 227--230.\<close>

definition agent_section ::
  "config \<Rightarrow> world \<Rightarrow> string \<Rightarrow> string \<Rightarrow> string \<Rightarrow> string \<Rightarrow> trace \<Rightarrow> trace" where
  "agent_section cfg w start_msg agent_prompt header extension_context tr =
     (case agent_tool cfg w agent_prompt extension_context (tr @ [Log INFO start_msg]) of
        (output, tr1) \<Rightarrow> tr1 @ [Print header, Print (py_str_opt output)])"

definition STORE_LISTING_HEADER :: string where
  "STORE_LISTING_HEADER = NL @ ''=== Store Listing Agent Output ==='' @ NL"

definition PRIVACY_PRACTICES_HEADER :: string where
  "PRIVACY_PRACTICES_HEADER = NL @ ''=== Privacy Practices Agent Output ==='' @ NL"

definition DISTRIBUTION_HEADER :: string where
  "DISTRIBUTION_HEADER = NL @ ''=== Distribution Agent Output ==='' @ NL"

definition run_agentic_flow :: "config \<Rightarrow> world \<Rightarrow> string \<Rightarrow> trace \<Rightarrow> trace" where
  "run_agentic_flow cfg w extension_context tr =
     (let tr1 = agent_section cfg w ''Starting Store Listing Agent...'' STORE_LISTING_PROMPT
                  STORE_LISTING_HEADER extension_context tr;
          tr2 = agent_section cfg w ''Starting Privacy Practices Agent...'' PRIVACY_PRACTICES_PROMPT
                  PRIVACY_PRACTICES_HEADER extension_context tr1
      in agent_section cfg w ''Starting Distribution Agent...'' DISTRIBUTION_PROMPT
           DISTRIBUTION_HEADER extension_context tr2)"

definition INPUT_PROMPT :: string where
  "INPUT_PROMPT = ''Enter the GitHub repository URL of your Chrome Extension: ''"

definition ANALYZING :: string where
  "ANALYZING = NL @ ''Analyzing repository...''"

text \<open>Lines 243--253, after the configuration. The result is the exception
  that escapes, if any, and the trace.\<close>

definition main_flow :: "config \<Rightarrow> world \<Rightarrow> string \<Rightarrow> exc option \<times> trace" where
  "main_flow cfg w repo_url =
     (let tr0 = [Input INPUT_PROMPT] in
      if debug cfg \<and> py_strip repo_url = []
      then (Some (AssertionError ''Repository URL must not be empty.''), tr0)
      else
        (case analyze_github_repo w repo_url (tr0 @ [Print ANALYZING]) of
           (extension_context, tr2) \<Rightarrow>
             if py_startswith extension_context ''Error''
             then (None, tr2 @ [Print (''Failed to analyze repository: '' @ extension_context)])
             else (None, run_agentic_flow cfg w extension_context
                           (tr2 @ [Print (NL @ ''Repository analysis complete. Running agent flow...'')]))))"

text \<open>The whole run: module import (configuration, lines 13--30), then the
  entry point.\<close>

definition program :: "bool \<Rightarrow> env \<Rightarrow> world \<Rightarrow> string \<Rightarrow> exc option \<times> trace" where
  "program dbg env w repo_url =
     (case load_config dbg env of
        Inl e \<Rightarrow> (Some e, [])
      | Inr cfg \<Rightarrow> main_flow cfg w repo_url)"

text \<open>The events a user sees: completion requests and printed lines.\<close>

fun is_shown :: "event \<Rightarrow> bool" where
  "is_shown (Complete _ _ _) = True"
| "is_shown (Print _) = True"
| "is_shown _ = False"

subsection \<open>Lemmas on the flow\<close>

lemma analyze_body_frame:
  "analyze_body w url tr = (fst (analyze_body w url []), tr @ snd (analyze_body w url []))"
  by (simp add: analyze_body_def assemble_eq Let_def split: sum.split prod.split)

lemma analyze_github_repo_frame:
  "analyze_github_repo w url tr =
     (fst (analyze_github_repo w url []), tr @ snd (analyze_github_repo w url []))"
  using analyze_body_frame [of w url tr]
  by (simp add: analyze_github_repo_def split: sum.split prod.split)

lemma analyze_github_repo_no_completions:
  "completions (snd (analyze_github_repo w url tr)) = completions tr"
proof -
  have "completions (snd (analyze_body w url [])) = []"
    by (simp add: analyze_body_def assemble_eq Let_def completions_def split: sum.split prod.split)
  then have "completions (snd (analyze_github_repo w url [])) = []"
    by (cases "analyze_body w url []") (auto simp: analyze_github_repo_def split: sum.split)
  then show ?thesis by (subst analyze_github_repo_frame) simp
qed

lemma agent_section_trace:
  "\<exists>es. agent_section cfg w m p h ctx tr =
     tr @ [Log INFO m, agent_request cfg p ctx] @ es @
       [Print h, Print (py_str_opt (fst (agent_tool cfg w p ctx (tr @ [Log INFO m]))))]
     \<and> completions es = [] \<and> github_calls es = [] \<and> stdout es = []"
proof -
  obtain out es where a: "agent_tool cfg w p ctx (tr @ [Log INFO m]) =
      (out, (tr @ [Log INFO m]) @ agent_request cfg p ctx # es)"
    and b: "es = [] \<or>
      (\<exists>m'. out = Some (''Error: '' @ m') \<and> es = [Log ERROR (''Agent failed: '' @ m')])"
    using agent_tool_trace by blast
  from b have "completions es = [] \<and> github_calls es = [] \<and> stdout es = []"
    by (auto simp: completions_def github_calls_def)
  with a show ?thesis by (auto simp: agent_section_def)
qed

lemma no_completions_stdout_shown:
  "completions es = [] \<Longrightarrow> stdout es = [] \<Longrightarrow> filter is_shown es = []"
  by (induction es rule: stdout.induct) (auto simp: completions_def split: if_splits)

lemma agent_section_shown:
  "\<exists>out. filter is_shown (agent_section cfg w m p h ctx tr) =
     filter is_shown tr @ [agent_request cfg p ctx, Print h, Print out]
   \<and> github_calls (agent_section cfg w m p h ctx tr) = github_calls tr"
proof -
  obtain es where "agent_section cfg w m p h ctx tr =
     tr @ [Log INFO m, agent_request cfg p ctx] @ es @
       [Print h, Print (py_str_opt (fst (agent_tool cfg w p ctx (tr @ [Log INFO m]))))]"
    and "completions es = []" "github_calls es = []" "stdout es = []"
    using agent_section_trace by blast
  then show ?thesis
    by (simp add: no_completions_stdout_shown agent_request_def github_calls_def)
qed

lemma agent_section_extends:
  "\<exists>es. agent_section cfg w m p h ctx tr = tr @ es \<and> github_calls es = [] \<and>
     completions es = [agent_request cfg p ctx]"
proof -
  obtain es where "agent_section cfg w m p h ctx tr =
     tr @ [Log INFO m, agent_request cfg p ctx] @ es @
       [Print h, Print (py_str_opt (fst (agent_tool cfg w p ctx (tr @ [Log INFO m]))))]"
    and "completions es = []" "github_calls es = []"
    using agent_section_trace by blast
  then show ?thesis by (simp add: agent_request_def completions_def github_calls_def)
qed

lemma run_agentic_flow_extends:
  "\<exists>es. run_agentic_flow cfg w ctx tr = tr @ es \<and> github_calls es = [] \<and>
     completions es = [agent_request cfg STORE_LISTING_PROMPT ctx,
       agent_request cfg PRIVACY_PRACTICES_PROMPT ctx, agent_request cfg DISTRIBUTION_PROMPT ctx]"
proof -
  let ?s1 = "agent_section cfg w ''Starting Store Listing Agent...'' STORE_LISTING_PROMPT
               STORE_LISTING_HEADER ctx tr"
  let ?s2 = "agent_section cfg w ''Starting Privacy Practices Agent...'' PRIVACY_PRACTICES_PROMPT
               PRIVACY_PRACTICES_HEADER ctx ?s1"
  obtain e1 where 1: "?s1 = tr @ e1" "github_calls e1 = []"
      "completions e1 = [agent_request cfg STORE_LISTING_PROMPT ctx]"
    using agent_section_extends by blast
  obtain e2 where 2: "?s2 = ?s1 @ e2" "github_calls e2 = []"
      "completions e2 = [agent_request cfg PRIVACY_PRACTICES_PROMPT ctx]"
    using agent_section_extends by blast
  obtain e3 where 3: "run_agentic_flow cfg w ctx tr = ?s2 @ e3" "github_calls e3 = []"
      "completions e3 = [agent_request cfg DISTRIBUTION_PROMPT ctx]"
    unfolding run_agentic_flow_def Let_def using agent_section_extends by blast
  have "run_agentic_flow cfg w ctx tr = tr @ e1 @ e2 @ e3"
    using 1(1) 2(1) 3(1) by simp
  then show ?thesis using 1 2 3 by simp
qed

lemma stdout_map_GhGetContents: "stdout (map GhGetContents ps) = []"
  by (induction ps) auto

lemma analysis_stdout_Nil: "stdout (snd (analyze_github_repo w url [])) = []"
proof -
  have "stdout (snd (analyze_body w url [])) = []"
    by (simp add: analyze_body_def assemble_eq Let_def stdout_map_GhGetContents
        split: sum.split prod.split)
  then show ?thesis
    by (cases "analyze_body w url []") (auto simp: analyze_github_repo_def split: sum.split)
qed

lemma run_agentic_flow_completions:
  "completions (run_agentic_flow cfg w ctx tr) =
     completions tr @ [agent_request cfg STORE_LISTING_PROMPT ctx,
       agent_request cfg PRIVACY_PRACTICES_PROMPT ctx, agent_request cfg DISTRIBUTION_PROMPT ctx]"
proof -
  have s: "completions (agent_section cfg w m p h ctx t) = completions t @ [agent_request cfg p ctx]"
    for m p h t
  proof -
    obtain es where "agent_section cfg w m p h ctx t =
       t @ [Log INFO m, agent_request cfg p ctx] @ es @
         [Print h, Print (py_str_opt (fst (agent_tool cfg w p ctx (t @ [Log INFO m]))))]"
      and "completions es = []"
      using agent_section_trace by blast
    then show ?thesis by (simp add: agent_request_def completions_def)
  qed
  show ?thesis by (simp add: run_agentic_flow_def s)
qed

lemma main_flow_analysis:
  assumes "\<not> (debug cfg \<and> py_strip url = [])"
  shows "main_flow cfg w url =
    (let ctx = fst (analyze_github_repo w url []);
         tr2 = [Input INPUT_PROMPT, Print ANALYZING] @ snd (analyze_github_repo w url [])
     in if py_startswith ctx ''Error''
        then (None, tr2 @ [Print (''Failed to analyze repository: '' @ ctx)])
        else (None, run_agentic_flow cfg w ctx
                      (tr2 @ [Print (NL @ ''Repository analysis complete. Running agent flow...'')])))"
proof -
  have "analyze_github_repo w url [Input INPUT_PROMPT, Print ANALYZING] =
     (fst (analyze_github_repo w url []),
      [Input INPUT_PROMPT, Print ANALYZING] @ snd (analyze_github_repo w url []))"
    by (rule analyze_github_repo_frame)
  with assms show ?thesis by (simp add: main_flow_def Let_def)
qed

lemma analyze_github_repo_dict:
  assumes "parse_github_url url = Inr (own, name)"
    and "get_repo w (own @ CHR ''/'' # name) = Inr repo"
    and "fetched w repo ''manifest.json'' = Some m" and "m \<noteq> []"
    and "json_loads w m = Inr (JObj d)"
  shows "\<exists>kvs. fst (analyze_github_repo w url tr) = json_dumps (JObj kvs)"
  by (simp add: analyze_github_repo_def analyze_body_parsed [OF assms] assemble_eq build_context_def)
    (rule exI, rule refl)

lemma analysis_completions_Nil: "completions (snd (analyze_github_repo w url [])) = []"
  using analyze_github_repo_no_completions [of w url "[]"] by (simp add: completions_def)

text \<open>The test run: the mocked analysis succeeds, the URL is not blank, and
  the mocked service makes each section print \<open>mocked output\<close>.\<close>

lemma mock_analysis_not_error:
  "\<not> py_startswith (fst (analyze_github_repo mock_github ''https://github.com/owner/repo'' [])) ''Error''"
proof -
  have p: "parse_github_url ''https://github.com/owner/repo'' = Inr (''owner'', ''repo'')"
    by code_simp
  have r: "get_repo mock_github (''owner'' @ CHR ''/'' # ''repo'') = Inr mock_github_repo"
    by (simp add: mock_github_def)
  have f: "fetched mock_github mock_github_repo ''manifest.json'' = Some mock_manifest_text"
    by (simp add: fetched_def mock_github_def mock_github_repo_def mock_b64decode_utf8_def)
  have n: "mock_manifest_text \<noteq> []" by (simp add: mock_manifest_text_def)
  have l: "json_loads mock_github mock_manifest_text = Inr mock_manifest_value"
    by (simp add: mock_github_def mock_json_loads_def)
  obtain kvs where "fst (analyze_github_repo mock_github ''https://github.com/owner/repo'' []) =
      json_dumps (JObj kvs)"
    using analyze_github_repo_dict [OF p r f n l [unfolded mock_manifest_value_def]] by blast
  then show ?thesis using error_prefix_not_dumps by metis
qed

lemma test_url_not_blank:
  "\<not> (debug cfg \<and> py_strip ''https://github.com/owner/repo'' = [])"
  by (simp add: py_strip_def py_isspace_def)

lemma mock_github_complete: "\<forall>t. complete mock_github t = Inr mocked_response"
  by (simp add: mock_github_def)

text \<open>With the completion client patched to answer \<open>mocked output\<close> (the
  autouse fixture, lines 7--12), the flow prints the three headers, each
  followed by that text.\<close>

lemma mock_flow_stdout:
  assumes "\<forall>t. complete w t = Inr mocked_response"
  shows "stdout (run_agentic_flow cfg w ctx tr) =
     stdout tr @
     NL @ ''=== Store Listing Agent Output ==='' @ NL @ NL @ ''mocked output'' @ NL @
     NL @ ''=== Privacy Practices Agent Output ==='' @ NL @ NL @ ''mocked output'' @ NL @
     NL @ ''=== Distribution Agent Output ==='' @ NL @ NL @ ''mocked output'' @ NL"
  using assms
  by (simp add: run_agentic_flow_def agent_section_def agent_tool_def agent_request_def
      mocked_response_def py_str_opt_def STORE_LISTING_HEADER_def PRIVACY_PRACTICES_HEADER_def
      DISTRIBUTION_HEADER_def)

text \<open>Past the URL check, the entry point makes its GitHub calls before any
  completion request, and then makes no request or three.\<close>

lemma main_flow_phases:
  assumes False: "\<not> (debug cfg \<and> py_strip url = [])"
  shows "\<exists>a b. snd (main_flow cfg w url) = a @ b \<and> completions a = [] \<and> github_calls b = [] \<and>
     (completions b = [] \<or> length (completions b) = 3)"
proof -
  let ?ctx = "fst (analyze_github_repo w url [])"
  let ?T = "[Input INPUT_PROMPT, Print ANALYZING] @ snd (analyze_github_repo w url [])"
  have c: "completions ?T = []"
    using analysis_completions_Nil [of w url] by (simp add: completions_def)
  show ?thesis
  proof (cases "py_startswith ?ctx ''Error''")
    case True
    with main_flow_analysis [OF False, of w]
    have "snd (main_flow cfg w url) = ?T @ [Print (''Failed to analyze repository: '' @ ?ctx)]"
      by (simp add: Let_def)
    with c show ?thesis
      by (intro exI [of _ "?T @ [Print (''Failed to analyze repository: '' @ ?ctx)]"] exI [of _ "[]"])
         (simp add: completions_def)
  next
    case not_error: False
    let ?U = "?T @ [Print (NL @ ''Repository analysis complete. Running agent flow...'')]"
    obtain es where es: "run_agentic_flow cfg w ?ctx ?U = ?U @ es" "github_calls es = []"
        "completions es = [agent_request cfg STORE_LISTING_PROMPT ?ctx,
           agent_request cfg PRIVACY_PRACTICES_PROMPT ?ctx, agent_request cfg DISTRIBUTION_PROMPT ?ctx]"
      using run_agentic_flow_extends by blast
    from not_error main_flow_analysis [OF False, of w] es(1)
    have "snd (main_flow cfg w url) = ?U @ es"
      by (simp add: Let_def)
    moreover have "completions ?U = []" using c by (simp add: completions_def)
    ultimately show ?thesis using es(2,3)
      by (intro exI [of _ ?U] exI [of _ es]) simp
  qed
qed

subsection \<open>Properties of the flow\<close>

text \<open>C22. The flow calls the agent three times, in the fixed order store
  listing, privacy practices, distribution, each time with the same context;
  it prints each section's header and output right after that section's
  request and before the next request; it makes no GitHub call. All three
  sections run whatever the service answers.\<close>

theorem run_agentic_flow_sequence:
  "\<exists>o1 o2 o3. filter is_shown (run_agentic_flow cfg w ctx tr) =
      filter is_shown tr @
      [agent_request cfg STORE_LISTING_PROMPT ctx, Print STORE_LISTING_HEADER, Print o1,
       agent_request cfg PRIVACY_PRACTICES_PROMPT ctx, Print PRIVACY_PRACTICES_HEADER, Print o2,
       agent_request cfg DISTRIBUTION_PROMPT ctx, Print DISTRIBUTION_HEADER, Print o3]
   \<and> github_calls (run_agentic_flow cfg w ctx tr) = github_calls tr"
proof -
  let ?s1 = "agent_section cfg w ''Starting Store Listing Agent...'' STORE_LISTING_PROMPT
               STORE_LISTING_HEADER ctx tr"
  let ?s2 = "agent_section cfg w ''Starting Privacy Practices Agent...'' PRIVACY_PRACTICES_PROMPT
               PRIVACY_PRACTICES_HEADER ctx ?s1"
  obtain o1 where 1: "filter is_shown ?s1 =
      filter is_shown tr @ [agent_request cfg STORE_LISTING_PROMPT ctx, Print STORE_LISTING_HEADER, Print o1]"
      "github_calls ?s1 = github_calls tr"
    using agent_section_shown by blast
  obtain o2 where 2: "filter is_shown ?s2 = filter is_shown ?s1 @
      [agent_request cfg PRIVACY_PRACTICES_PROMPT ctx, Print PRIVACY_PRACTICES_HEADER, Print o2]"
      "github_calls ?s2 = github_calls ?s1"
    using agent_section_shown by blast
  obtain o3 where 3: "filter is_shown (run_agentic_flow cfg w ctx tr) = filter is_shown ?s2 @
      [agent_request cfg DISTRIBUTION_PROMPT ctx, Print DISTRIBUTION_HEADER, Print o3]"
      "github_calls (run_agentic_flow cfg w ctx tr) = github_calls ?s2"
    unfolding run_agentic_flow_def Let_def using agent_section_shown by blast
  show ?thesis using 1 2 3 by auto
qed

text \<open>C23. When the analysis fails (its text starts with \<open>Error\<close>), the entry
  point prints the failure and stops: the service is never called.\<close>

theorem main_flow_analysis_error:
  assumes "\<not> (debug cfg \<and> py_strip url = [])"
    and "py_startswith (fst (analyze_github_repo w url [])) ''Error''"
  shows "main_flow cfg w url =
     (None, [Input INPUT_PROMPT, Print ANALYZING] @ snd (analyze_github_repo w url []) @
            [Print (''Failed to analyze repository: '' @ fst (analyze_github_repo w url []))])
   \<and> completions (snd (main_flow cfg w url)) = []"
  using main_flow_analysis [OF assms(1), of w] assms(2) analysis_completions_Nil [of w url]
  by (simp add: Let_def completions_def)

theorem main_flow_analysis_error_witness:
  "main_flow test_config mock_github_no_files ''https://github.com/owner/repo'' =
     (None, [Input INPUT_PROMPT, Print ANALYZING, GhGetRepo ''owner/repo'',
             GhGetContents ''manifest.json'',
             Print ''Failed to analyze repository: Error: manifest.json not found or invalid''])
   \<and> completions (snd (main_flow test_config mock_github_no_files ''https://github.com/owner/repo'')) = []"
proof -
  have p: "parse_github_url ''https://github.com/owner/repo'' = Inr (''owner'', ''repo'')"
    by code_simp
  have r: "get_repo mock_github_no_files (''owner'' @ CHR ''/'' # ''repo'') =
      Inr (mock_github_repo\<lparr>contents := (\<lambda>_. None)\<rparr>)"
    by (simp add: mock_github_no_files_def)
  have a: "analyze_github_repo mock_github_no_files ''https://github.com/owner/repo'' [] =
      (''Error: manifest.json not found or invalid'',
       [GhGetRepo ''owner/repo'', GhGetContents ''manifest.json''])"
  proof -
    have f: "\<not> py_truthy_str (fetched mock_github_no_files
        (mock_github_repo\<lparr>contents := (\<lambda>_. None)\<rparr>) ''manifest.json'')"
      by simp
    from analyze_body_manifest_missing [OF p r f, of "[]"] show ?thesis
      by (simp add: analyze_github_repo_def MANIFEST_MISSING_def)
  qed
  have b: "\<not> (debug test_config \<and> py_strip ''https://github.com/owner/repo'' = [])"
    by (simp add: py_strip_def py_isspace_def)
  show ?thesis
    using main_flow_analysis_error [OF b, of mock_github_no_files] a by (simp add: completions_def)
qed

text \<open>C24. When the analysis succeeds, the entry point announces the flow and
  runs it on the analysis text: the service is called exactly three times, in
  the fixed order, each time with that text as the user message, and no
  exception escapes.\<close>

theorem main_flow_runs_agents:
  assumes "\<not> (debug cfg \<and> py_strip url = [])"
    and "\<not> py_startswith (fst (analyze_github_repo w url [])) ''Error''"
  shows "main_flow cfg w url =
     (None, run_agentic_flow cfg w (fst (analyze_github_repo w url []))
              ([Input INPUT_PROMPT, Print ANALYZING] @ snd (analyze_github_repo w url []) @
               [Print (NL @ ''Repository analysis complete. Running agent flow...'')]))
   \<and> completions (snd (main_flow cfg w url)) =
       [agent_request cfg STORE_LISTING_PROMPT (fst (analyze_github_repo w url [])),
        agent_request cfg PRIVACY_PRACTICES_PROMPT (fst (analyze_github_repo w url [])),
        agent_request cfg DISTRIBUTION_PROMPT (fst (analyze_github_repo w url []))]"
proof -
  let ?tr = "[Input INPUT_PROMPT, Print ANALYZING] @ snd (analyze_github_repo w url []) @
             [Print (NL @ ''Repository analysis complete. Running agent flow...'')]"
  have m: "main_flow cfg w url = (None, run_agentic_flow cfg w (fst (analyze_github_repo w url [])) ?tr)"
    using main_flow_analysis [OF assms(1), of w] assms(2) by (simp add: Let_def)
  have "completions ?tr = []"
    using analysis_completions_Nil [of w url] by (simp add: completions_def)
  then show ?thesis using m by (simp add: run_agentic_flow_completions)
qed

theorem main_flow_runs_agents_witness:
  "fst (main_flow test_config mock_github ''https://github.com/owner/repo'') = None
   \<and> completions (snd (main_flow test_config mock_github ''https://github.com/owner/repo'')) =
       [agent_request test_config STORE_LISTING_PROMPT
          (fst (analyze_github_repo mock_github ''https://github.com/owner/repo'' [])),
        agent_request test_config PRIVACY_PRACTICES_PROMPT
          (fst (analyze_github_repo mock_github ''https://github.com/owner/repo'' [])),
        agent_request test_config DISTRIBUTION_PROMPT
          (fst (analyze_github_repo mock_github ''https://github.com/owner/repo'' []))]"
proof -
  note e = mock_analysis_not_error
  note m = main_flow_runs_agents [OF test_url_not_blank e]
  show ?thesis
  proof (rule conjI)
    show "fst (main_flow test_config mock_github ''https://github.com/owner/repo'') = None"
      using conjunct1 [OF m] by simp
  qed (rule conjunct2 [OF m])
qed

text \<open>C25. A blank URL fails the assertion of line 244 right after the
  prompt: nothing is analysed and nothing is printed after the prompt.\<close>

theorem main_flow_blank_url:
  assumes "debug cfg" and "py_strip url = []"
  shows "main_flow cfg w url =
           (Some (AssertionError ''Repository URL must not be empty.''), [Input INPUT_PROMPT])"
  using assms by (simp add: main_flow_def)

theorem main_flow_blank_url_witness:
  "main_flow test_config mock_github (CHR '' '' # CHR 0x09 # NL) =
     (Some (AssertionError ''Repository URL must not be empty.''), [Input INPUT_PROMPT])"
proof -
  have "py_strip (CHR '' '' # CHR 0x09 # NL) = []" by (simp add: py_strip_def py_isspace_def)
  then show ?thesis using main_flow_blank_url [of test_config] by (simp add: test_config_def)
qed

text \<open>C26. With assertions on, a run whose environment lacks one of the four
  variables stops at import with the assertion of the first missing one in the
  order of lines 21--24, before any prompt, request or output.\<close>

theorem program_config_missing:
  assumes "v \<in> set CONFIG_VARS" and "\<not> py_truthy_str (env v)"
  shows "program True env w url =
    (Some (AssertionError (hd (dropWhile (\<lambda>u. py_truthy_str (env u)) CONFIG_VARS) @ '' is not set.'')),
     [])"
proof -
  have "dropWhile (\<lambda>u. py_truthy_str (env u)) CONFIG_VARS \<noteq> []"
    using assms by simp blast
  then show ?thesis
    by (auto simp: program_def load_config_def check_vars_dropWhile neq_Nil_conv
        simp del: dropWhile_eq_Nil_conv dropWhile_eq_Cons_conv)
qed

theorem program_config_missing_witness:
  "program True (\<lambda>v. if v = ''AZURE_OPENAI_ENDPOINT'' then Some ''https://example.openai.azure.com''
                      else None) mock_github ''https://github.com/owner/repo'' =
     (Some (AssertionError ''AZURE_OPENAI_KEY is not set.''), [])"
  using program_config_missing [of "''AZURE_OPENAI_KEY''"
      "\<lambda>v. if v = ''AZURE_OPENAI_ENDPOINT'' then Some ''https://example.openai.azure.com'' else None"]
  by (simp add: CONFIG_VARS_def)

end
