(* ===== verification/JsonParse.thy ===== *)
theory JsonParse
  imports Json
begin

text \<open>
  \<open>json.loads\<close> of the standard library, which the program calls on the
  manifest and on \<open>package.json\<close> (lines 152 and 162) and the test calls on
  the analysis result: a recursive-descent parser over the 8-bit strings of the
  model. Whitespace is space, TAB, LF and CR; strings reject raw control
  characters (the default \<open>strict=True\<close>) and decode the escapes of the JSON
  grammar, \<open>\uXXXX\<close> included when it names a character of the model; an
  object builds a Python dict, where a repeated key keeps its first position and
  its last value. Numbers with a fraction or an exponent, \<open>NaN\<close> and
  \<open>Infinity\<close> (Python floats), and \<open>\u\<close> escapes above U+00FF are
  outside the model and are reported as errors here.

  The nesting of arrays and objects makes the parser's recursion follow the
  input it consumes, not the structure of the input string, so it takes fuel;
  \<open>py_json_loads\<close> gives it one unit more than the length of its input, and
  the theorems below show that this is always enough and that more fuel
  changes nothing.
\<close>

datatype 'a parse_result = POk 'a | PError | PNoFuel

definition pbind :: "'a parse_result \<Rightarrow> ('a \<Rightarrow> 'b parse_result) \<Rightarrow> 'b parse_result" where
  "pbind r f = (case r of POk x \<Rightarrow> f x | PError \<Rightarrow> PError | PNoFuel \<Rightarrow> PNoFuel)"

definition json_ws :: "char \<Rightarrow> bool" where
  "json_ws c \<longleftrightarrow> c = CHR '' '' \<or> c = CHR 0x09 \<or> c = CHR 0x0A \<or> c = CHR 0x0D"

definition skip_ws :: "string \<Rightarrow> string" where
  "skip_ws s = dropWhile json_ws s"

definition is_digit :: "char \<Rightarrow> bool" where
  "is_digit c \<longleftrightarrow> 48 \<le> (of_char c :: nat) \<and> (of_char c :: nat) \<le> 57"

definition digit_val :: "char \<Rightarrow> nat" where
  "digit_val c = of_char c - 48"

definition hex_val :: "char \<Rightarrow> nat option" where
  "hex_val c =
     (if is_digit c then Some (digit_val c)
      else if 97 \<le> (of_char c :: nat) \<and> (of_char c :: nat) \<le> 102 then Some (of_char c - 87)
      else if 65 \<le> (of_char c :: nat) \<and> (of_char c :: nat) \<le> 70 then Some (of_char c - 55)
      else None)"

text \<open>The value of four hexadecimal digits.\<close>

definition hex4 :: "string \<Rightarrow> nat option" where
  "hex4 s =
     (if length s = 4 \<and> (\<forall>c\<in>set s. hex_val c \<noteq> None)
      then Some (foldl (\<lambda>n c. 16 * n + the (hex_val c)) 0 s) else None)"

text \<open>The short escapes: the character after the backslash and what it
  stands for.\<close>

definition short_escape :: "char \<Rightarrow> char option" where
  "short_escape e =
     (if e = CHR 0x22 then Some (CHR 0x22) else if e = CHR 0x5C then Some (CHR 0x5C)
      else if e = CHR ''/'' then Some (CHR ''/'') else if e = CHR ''b'' then Some (CHR 0x08)
      else if e = CHR ''f'' then Some (CHR 0x0C) else if e = CHR ''n'' then Some (CHR 0x0A)
      else if e = CHR ''r'' then Some (CHR 0x0D) else if e = CHR ''t'' then Some (CHR 0x09)
      else None)"

text \<open>The body of a string literal after the opening quote, accumulated in
  reverse; the result is the string and what follows the closing quote.\<close>

function parse_chars :: "string \<Rightarrow> string \<Rightarrow> (string \<times> string) option" where
  "parse_chars acc [] = None"
| "parse_chars acc (c # cs) =
     (if c = CHR 0x22 then Some (rev acc, cs)
      else if c = CHR 0x5C then
        (case cs of
           [] \<Rightarrow> None
         | e # cs' \<Rightarrow>
             (case short_escape e of
                Some d \<Rightarrow> parse_chars (d # acc) cs'
              | None \<Rightarrow>
                  if e = CHR ''u'' then
                    (case hex4 (take 4 cs') of
                       Some n \<Rightarrow> if n < 256 then parse_chars (char_of n # acc) (drop 4 cs') else None
                     | None \<Rightarrow> None)
                  else None))
      else if (of_char c :: nat) < 32 then None
      else parse_chars (c # acc) cs)"
  by pat_completeness auto
termination
  by (relation "measure (length \<circ> snd)") auto

text \<open>An integer: an optional minus, then \<open>0\<close> or a non-zero digit and more
  digits. A fraction or an exponent makes it a float, which is not modelled.\<close>

definition digits_val :: "string \<Rightarrow> nat" where
  "digits_val ds = foldl (\<lambda>n c. 10 * n + digit_val c) 0 ds"

definition float_follows :: "string \<Rightarrow> bool" where
  "float_follows r \<longleftrightarrow>
     (case r of
        c # d # _ \<Rightarrow> (c = CHR ''.'' \<and> is_digit d) \<or>
                     ((c = CHR ''e'' \<or> c = CHR ''E'') \<and>
                      (is_digit d \<or> d = CHR ''+'' \<or> d = CHR ''-''))
      | _ \<Rightarrow> False)"

definition parse_int :: "string \<Rightarrow> (int \<times> string) option" where
  "parse_int s =
     (let neg = (s \<noteq> [] \<and> hd s = CHR ''-'');
          t = (if neg then tl s else s);
          ds = (if t \<noteq> [] \<and> hd t = CHR ''0'' then [CHR ''0''] else takeWhile is_digit t);
          r = drop (length ds) t
      in if ds = [] \<or> float_follows r then None
         else Some ((if neg then - int (digits_val ds) else int (digits_val ds)), r))"

text \<open>A Python dict built from key-value pairs in order.\<close>

definition dict_insert :: "(string \<times> jvalue) list \<Rightarrow> string \<times> jvalue \<Rightarrow> (string \<times> jvalue) list" where
  "dict_insert d kv =
     (if fst kv \<in> set (map fst d)
      then map (\<lambda>p. if fst p = fst kv then (fst p, snd kv) else p) d
      else d @ [kv])"

definition py_dict :: "(string \<times> jvalue) list \<Rightarrow> (string \<times> jvalue) list" where
  "py_dict kvs = foldl dict_insert [] kvs"

text \<open>The parser. \<open>parse_value\<close> reads a value after optional whitespace;
  \<open>parse_elems\<close> and \<open>parse_members\<close> read the rest of an array or object
  after its first item (the items so far in reverse); \<open>parse_member\<close> reads
  \<open>"key": value\<close>. Each call spends one unit of fuel.\<close>

fun parse_value :: "nat \<Rightarrow> string \<Rightarrow> (jvalue \<times> string) parse_result"
and parse_elems :: "nat \<Rightarrow> jvalue list \<Rightarrow> string \<Rightarrow> (jvalue list \<times> string) parse_result"
and parse_member :: "nat \<Rightarrow> string \<Rightarrow> ((string \<times> jvalue) \<times> string) parse_result"
and parse_members ::
  "nat \<Rightarrow> (string \<times> jvalue) list \<Rightarrow> string \<Rightarrow> ((string \<times> jvalue) list \<times> string) parse_result"
where
  "parse_value 0 s = PNoFuel"
| "parse_value (Suc n) s =
     (case skip_ws s of
        [] \<Rightarrow> PError
      | c # cs \<Rightarrow>
          if c = CHR ''['' then
            (case skip_ws cs of
               d # r \<Rightarrow> if d = CHR '']'' then POk (JArr [], r)
                        else pbind (parse_value n cs) (\<lambda>(v, r).
                               pbind (parse_elems n [v] r) (\<lambda>(vs, r'). POk (JArr vs, r')))
             | [] \<Rightarrow> PError)
          else if c = CHR ''{'' then
            (case skip_ws cs of
               d # r \<Rightarrow> if d = CHR ''}'' then POk (JObj [], r)
                        else pbind (parse_member n cs) (\<lambda>(kv, r).
                               pbind (parse_members n [kv] r) (\<lambda>(kvs, r'). POk (JObj kvs, r')))
             | [] \<Rightarrow> PError)
          else if c = CHR 0x22 then
            (case parse_chars [] cs of Some (str, r) \<Rightarrow> POk (JStr str, r) | None \<Rightarrow> PError)
          else if take 4 (c # cs) = ''null'' then POk (JNull, drop 3 cs)
          else if take 4 (c # cs) = ''true'' then POk (JBool True, drop 3 cs)
          else if take 5 (c # cs) = ''false'' then POk (JBool False, drop 4 cs)
          else (case parse_int (c # cs) of Some (i, r) \<Rightarrow> POk (JInt i, r) | None \<Rightarrow> PError))"
| "parse_elems 0 acc s = PNoFuel"
| "parse_elems (Suc n) acc s =
     (case skip_ws s of
        d # r \<Rightarrow>
          if d = CHR '']'' then POk (rev acc, r)
          else if d = CHR '','' then pbind (parse_value n r) (\<lambda>(v, r'). parse_elems n (v # acc) r')
          else PError
      | [] \<Rightarrow> PError)"
| "parse_member 0 s = PNoFuel"
| "parse_member (Suc n) s =
     (case skip_ws s of
        d # r \<Rightarrow>
          if d = CHR 0x22 then
            (case parse_chars [] r of
               Some (k, r') \<Rightarrow>
                 (case skip_ws r' of
                    e # r'' \<Rightarrow> if e = CHR '':'' then pbind (parse_value n r'') (\<lambda>(v, t). POk ((k, v), t))
                              else PError
                  | [] \<Rightarrow> PError)
             | None \<Rightarrow> PError)
          else PError
      | [] \<Rightarrow> PError)"
| "parse_members 0 acc s = PNoFuel"
| "parse_members (Suc n) acc s =
     (case skip_ws s of
        d # r \<Rightarrow>
          if d = CHR ''}'' then POk (py_dict (rev acc), r)
          else if d = CHR '','' then pbind (parse_member n r) (\<lambda>(kv, r'). parse_members n (kv # acc) r')
          else PError
      | [] \<Rightarrow> PError)"

text \<open>\<open>json.loads(s)\<close>: one value, then only whitespace; \<open>None\<close> stands for
  the \<open>JSONDecodeError\<close> it raises.\<close>

definition py_json_loads :: "string \<Rightarrow> jvalue option" where
  "py_json_loads s =
     (case parse_value (Suc (length s)) s of
        POk (v, r) \<Rightarrow> if skip_ws r = [] then Some v else None
      | _ \<Rightarrow> None)"

text \<open>The values \<open>json.loads\<close> can return: every dict, at any depth, has
  distinct keys.\<close>

fun wf_json :: "jvalue \<Rightarrow> bool" where
  "wf_json (JArr vs) = list_all wf_json vs"
| "wf_json (JObj kvs) = (distinct (map fst kvs) \<and> list_all (\<lambda>kv. wf_json (snd kv)) kvs)"
| "wf_json _ = True"

text \<open>What a Python dict built from key-value pairs is, by the language's
  definition: its keys in the order of their first insertion, each with the
  value of its last.\<close>

definition dict_ref :: "(string \<times> jvalue) list \<Rightarrow> (string \<times> jvalue) list" where
  "dict_ref kvs = map (\<lambda>k. (k, the (map_of (rev kvs) k))) (rev (remdups (rev (map fst kvs))))"

text \<open>Fuel ordering of parser results: running out of fuel is below every
  result, and a result is below itself.\<close>

definition fuel_le :: "'a parse_result \<Rightarrow> 'a parse_result \<Rightarrow> bool" where
  "fuel_le r r' \<longleftrightarrow> r = PNoFuel \<or> r = r'"

subsection \<open>Lemmas\<close>

lemma pbind_simps [simp]:
  "pbind (POk x) f = f x" "pbind PError f = PError" "pbind PNoFuel f = PNoFuel"
  by (simp_all add: pbind_def)

lemma fuel_le_refl [simp]: "fuel_le r r"
  by (simp add: fuel_le_def)

lemma fuel_le_NoFuel [simp]: "fuel_le PNoFuel r"
  by (simp add: fuel_le_def)

lemma pbind_mono:
  "fuel_le r r' \<Longrightarrow> (\<And>x. fuel_le (f x) (g x)) \<Longrightarrow> fuel_le (pbind r f) (pbind r' g)"
  by (auto simp: fuel_le_def pbind_def split: parse_result.split)

lemma fuel_le_case_list:
  "fuel_le a a' \<Longrightarrow> (\<And>c cs. fuel_le (f c cs) (g c cs)) \<Longrightarrow>
   fuel_le (case_list a f x) (case_list a' g x)"
  by (cases x) simp_all

lemma fuel_le_if:
  "fuel_le a a' \<Longrightarrow> fuel_le b b' \<Longrightarrow> fuel_le (if c then a else b) (if c then a' else b')"
  by simp

lemma fuel_le_case_prod:
  "(\<And>x y. fuel_le (f x y) (g x y)) \<Longrightarrow> fuel_le (case_prod f p) (case_prod g p)"
  by (cases p) simp

lemma fuel_le_case_option:
  "fuel_le a a' \<Longrightarrow> (\<And>y. fuel_le (f y) (g y)) \<Longrightarrow>
   fuel_le (case_option a f x) (case_option a' g x)"
  by (cases x) simp_all

lemmas fuel_le_congs =
  pbind_mono fuel_le_case_list fuel_le_if fuel_le_case_prod fuel_le_case_option fuel_le_refl

lemma parse_fuel_mono:
  "(\<forall>s. fuel_le (parse_value n s) (parse_value (Suc n) s)) \<and>
   (\<forall>acc s. fuel_le (parse_elems n acc s) (parse_elems (Suc n) acc s)) \<and>
   (\<forall>s. fuel_le (parse_member n s) (parse_member (Suc n) s)) \<and>
   (\<forall>acc s. fuel_le (parse_members n acc s) (parse_members (Suc n) acc s))"
proof (induction n)
  case 0
  then show ?case by simp
next
  case (Suc n)
  then have v: "\<And>s. fuel_le (parse_value n s) (parse_value (Suc n) s)"
    and e: "\<And>acc s. fuel_le (parse_elems n acc s) (parse_elems (Suc n) acc s)"
    and m: "\<And>s. fuel_le (parse_member n s) (parse_member (Suc n) s)"
    and ms: "\<And>acc s. fuel_le (parse_members n acc s) (parse_members (Suc n) acc s)"
    by blast+
  have "fuel_le (parse_value (Suc n) s) (parse_value (Suc (Suc n)) s)" for s
    unfolding parse_value.simps(2) [of n s] parse_value.simps(2) [of "Suc n" s]
    by (intro fuel_le_congs v e m ms)
  moreover have "fuel_le (parse_elems (Suc n) acc s) (parse_elems (Suc (Suc n)) acc s)" for acc s
    unfolding parse_elems.simps(2) [of n acc s] parse_elems.simps(2) [of "Suc n" acc s]
    by (intro fuel_le_congs v e m ms)
  moreover have "fuel_le (parse_member (Suc n) s) (parse_member (Suc (Suc n)) s)" for s
    unfolding parse_member.simps(2) [of n s] parse_member.simps(2) [of "Suc n" s]
    by (intro fuel_le_congs v e m ms)
  moreover have "fuel_le (parse_members (Suc n) acc s) (parse_members (Suc (Suc n)) acc s)" for acc s
    unfolding parse_members.simps(2) [of n acc s] parse_members.simps(2) [of "Suc n" acc s]
    by (intro fuel_le_congs v e m ms)
  ultimately show ?case by blast
qed

lemma fuel_le_ok: "fuel_le r r' \<Longrightarrow> r \<noteq> PNoFuel \<Longrightarrow> r' = r"
  by (auto simp: fuel_le_def)

lemma parse_more_fuel:
  assumes "n \<le> m"
  shows "(parse_value n s \<noteq> PNoFuel \<longrightarrow> parse_value m s = parse_value n s) \<and>
    (parse_elems n acc s \<noteq> PNoFuel \<longrightarrow> parse_elems m acc s = parse_elems n acc s) \<and>
    (parse_member n s \<noteq> PNoFuel \<longrightarrow> parse_member m s = parse_member n s) \<and>
    (parse_members n acc2 s \<noteq> PNoFuel \<longrightarrow> parse_members m acc2 s = parse_members n acc2 s)"
  using assms
proof (induction m rule: dec_induct)
  case base
  then show ?case by simp
next
  case (step m)
  have mono: "fuel_le (parse_value m s) (parse_value (Suc m) s)"
    "fuel_le (parse_elems m acc s) (parse_elems (Suc m) acc s)"
    "fuel_le (parse_member m s) (parse_member (Suc m) s)"
    "fuel_le (parse_members m acc2 s) (parse_members (Suc m) acc2 s)"
    using parse_fuel_mono [of m] by blast+
  show ?case
  proof (intro conjI impI)
    assume "parse_value n s \<noteq> PNoFuel"
    with step.IH show "parse_value (Suc m) s = parse_value n s" using fuel_le_ok [OF mono(1)] by simp
  next
    assume "parse_elems n acc s \<noteq> PNoFuel"
    with step.IH show "parse_elems (Suc m) acc s = parse_elems n acc s" using fuel_le_ok [OF mono(2)] by simp
  next
    assume "parse_member n s \<noteq> PNoFuel"
    with step.IH show "parse_member (Suc m) s = parse_member n s" using fuel_le_ok [OF mono(3)] by simp
  next
    assume "parse_members n acc2 s \<noteq> PNoFuel"
    with step.IH show "parse_members (Suc m) acc2 s = parse_members n acc2 s"
      using fuel_le_ok [OF mono(4)] by simp
  qed
qed

lemma length_skip_ws: "length (skip_ws s) \<le> length s"
  by (simp add: skip_ws_def length_dropWhile_le)

lemma parse_int_length: "parse_int s = Some (i, r) \<Longrightarrow> length r < length s"
  by (auto simp: parse_int_def Let_def split: if_splits)
     (metis length_greater_0_conv diff_less length_drop takeWhile_eq_Nil_iff)+

lemma parse_chars_length: "parse_chars acc s = Some (x, r) \<Longrightarrow> length r < length s"
proof (induction acc s rule: parse_chars.induct)
  case (2 acc c cs)
  show ?case
  proof (cases "c = CHR 0x22 \<or> c \<noteq> CHR 0x5C")
    case True
    with 2 show ?thesis by (auto split: if_splits)
  next
    case False
    then have bs: "c = CHR 0x5C" "c \<noteq> CHR 0x22" by auto
    with "2.prems" obtain e cs' where cs: "cs = e # cs'" by (cases cs) auto
    show ?thesis
    proof (cases "short_escape e")
      case (Some d)
      with "2.IH"(2) [OF bs(2) bs(1) cs Some] "2.prems" bs cs show ?thesis by simp
    next
      case None
      with "2.prems" bs cs obtain n where n: "e = CHR ''u''" "hex4 (take 4 cs') = Some n" "n < 256"
        by (auto split: if_splits option.splits)
      with "2.IH"(1) [OF bs(2) bs(1) cs None n(1) n(2) n(3)] "2.prems" bs cs None show ?thesis
        by simp
    qed
  qed
qed simp

lemma pbind_POk: "pbind r f = POk y \<Longrightarrow> \<exists>x. r = POk x \<and> f x = POk y"
  by (cases r) (simp_all add: pbind_def)

lemma skip_ws_Cons_length: "skip_ws s = c # cs \<Longrightarrow> length cs < length s"
  using length_skip_ws [of s] by simp

lemma parse_consumes:
  "(\<forall>s v r. parse_value n s = POk (v, r) \<longrightarrow> length r < length s) \<and>
   (\<forall>acc s vs r. parse_elems n acc s = POk (vs, r) \<longrightarrow> length r < length s) \<and>
   (\<forall>s kv r. parse_member n s = POk (kv, r) \<longrightarrow> length r < length s) \<and>
   (\<forall>acc s kvs r. parse_members n acc s = POk (kvs, r) \<longrightarrow> length r < length s)"
proof (induction n)
  case 0
  then show ?case by simp
next
  case (Suc n)
  then have v: "\<And>s v r. parse_value n s = POk (v, r) \<Longrightarrow> length r < length s"
    and e: "\<And>acc s vs r. parse_elems n acc s = POk (vs, r) \<Longrightarrow> length r < length s"
    and m: "\<And>s kv r. parse_member n s = POk (kv, r) \<Longrightarrow> length r < length s"
    and ms: "\<And>acc s kvs r. parse_members n acc s = POk (kvs, r) \<Longrightarrow> length r < length s"
    by blast+
  have "length r < length s" if p: "parse_value (Suc n) s = POk (x, r)" for s x r
  proof -
    obtain c cs where sc: "skip_ws s = c # cs"
      using p by (cases "skip_ws s") auto
    have lc: "length cs < length s" using skip_ws_Cons_length [OF sc] .
    show ?thesis
      using p sc lc parse_chars_length parse_int_length
      by (fastforce simp: sc split: if_splits list.splits option.splits prod.splits
          dest!: pbind_POk dest: v e m ms skip_ws_Cons_length)
  qed
  moreover have "length r < length s" if p: "parse_elems (Suc n) acc s = POk (x, r)" for acc s x r
  proof -
    obtain c cs where sc: "skip_ws s = c # cs"
      using p by (cases "skip_ws s") auto
    have lc: "length cs < length s" using skip_ws_Cons_length [OF sc] .
    show ?thesis
      using p sc lc
      by (fastforce split: if_splits prod.splits dest!: pbind_POk dest: v e)
  qed
  moreover have "length r < length s" if p: "parse_member (Suc n) s = POk (x, r)" for s x r
  proof -
    obtain c cs where sc: "skip_ws s = c # cs"
      using p by (cases "skip_ws s") auto
    have lc: "length cs < length s" using skip_ws_Cons_length [OF sc] .
    show ?thesis
      using p sc lc parse_chars_length
      by (fastforce split: if_splits list.splits option.splits prod.splits
          dest!: pbind_POk dest: v skip_ws_Cons_length)
  qed
  moreover have "length r < length s" if p: "parse_members (Suc n) acc s = POk (x, r)" for acc s x r
  proof -
    obtain c cs where sc: "skip_ws s = c # cs"
      using p by (cases "skip_ws s") auto
    have lc: "length cs < length s" using skip_ws_Cons_length [OF sc] .
    show ?thesis
      using p sc lc
      by (fastforce split: if_splits prod.splits dest!: pbind_POk dest: m ms)
  qed
  ultimately show ?case by blast
qed

lemma pbind_ne:
  "r \<noteq> PNoFuel \<Longrightarrow> (\<And>x. r = POk x \<Longrightarrow> f x \<noteq> PNoFuel) \<Longrightarrow> pbind r f \<noteq> PNoFuel"
  by (cases r) (simp_all add: pbind_def)

lemma pbind_wrap_ne: "r \<noteq> PNoFuel \<Longrightarrow> pbind r (\<lambda>(x, y). POk (f x, y)) \<noteq> PNoFuel"
  by (rule pbind_ne) (auto split: prod.split)

lemma parse_enough_fuel:
  "(\<forall>s. length s < n \<longrightarrow> parse_value n s \<noteq> PNoFuel) \<and>
   (\<forall>acc s. length s < n \<longrightarrow> parse_elems n acc s \<noteq> PNoFuel) \<and>
   (\<forall>s. length s < n \<longrightarrow> parse_member n s \<noteq> PNoFuel) \<and>
   (\<forall>acc s. length s < n \<longrightarrow> parse_members n acc s \<noteq> PNoFuel)"
proof (induction n)
  case 0
  then show ?case by simp
next
  case (Suc n)
  then have v: "\<And>s. length s < n \<Longrightarrow> parse_value n s \<noteq> PNoFuel"
    and e: "\<And>acc s. length s < n \<Longrightarrow> parse_elems n acc s \<noteq> PNoFuel"
    and m: "\<And>s. length s < n \<Longrightarrow> parse_member n s \<noteq> PNoFuel"
    and ms: "\<And>acc s. length s < n \<Longrightarrow> parse_members n acc s \<noteq> PNoFuel"
    by blast+
  have cv: "\<And>s v r. parse_value n s = POk (v, r) \<Longrightarrow> length r < length s"
    and cm: "\<And>s kv r. parse_member n s = POk (kv, r) \<Longrightarrow> length r < length s"
    and ce: "\<And>acc s vs r. parse_elems n acc s = POk (vs, r) \<Longrightarrow> length r < length s"
    using parse_consumes [of n] by blast+
  have "parse_value (Suc n) s \<noteq> PNoFuel" if p: "length s < Suc n" for s
  proof (cases "skip_ws s")
    case Nil
    then show ?thesis by simp
  next
    case (Cons c cs)
    have lc: "length cs < n" using skip_ws_Cons_length [OF Cons] p by simp
    have "pbind (parse_value n cs) (\<lambda>(v, r). pbind (parse_elems n [v] r) (\<lambda>(vs, r'). POk (JArr vs, r')))
            \<noteq> PNoFuel"
      by (rule pbind_ne [OF v [OF lc]])
         (auto intro!: pbind_wrap_ne e dest!: cv simp: less_trans [OF _ lc])
    moreover have "pbind (parse_member n cs) (\<lambda>(kv, r). pbind (parse_members n [kv] r) (\<lambda>(kvs, r'). POk (JObj kvs, r')))
            \<noteq> PNoFuel"
      by (rule pbind_ne [OF m [OF lc]])
         (auto intro!: pbind_wrap_ne ms dest!: cm simp: less_trans [OF _ lc])
    ultimately show ?thesis
      using Cons by (auto split: list.split option.split prod.split)
  qed
  moreover have "parse_elems (Suc n) acc s \<noteq> PNoFuel" if p: "length s < Suc n" for acc s
  proof (cases "skip_ws s")
    case Nil
    then show ?thesis by simp
  next
    case (Cons c cs)
    have lc: "length cs < n" using skip_ws_Cons_length [OF Cons] p by simp
    have "pbind (parse_value n cs) (\<lambda>(v, r'). parse_elems n (v # acc) r') \<noteq> PNoFuel"
      by (rule pbind_ne [OF v [OF lc]]) (auto intro!: e dest!: cv simp: less_trans [OF _ lc])
    then show ?thesis using Cons by auto
  qed
  moreover have "parse_member (Suc n) s \<noteq> PNoFuel" if p: "length s < Suc n" for s
  proof (cases "skip_ws s")
    case Nil
    then show ?thesis by simp
  next
    case sc: (Cons c cs)
    have lc: "length cs < n" using skip_ws_Cons_length [OF sc] p by simp
    show ?thesis
    proof (cases "c = CHR 0x22 \<and> parse_chars [] cs \<noteq> None")
      case True
      then obtain k r' where pc: "parse_chars [] cs = Some (k, r')" by auto
      show ?thesis
      proof (cases "skip_ws r'")
        case Nil
        with sc True pc show ?thesis by simp
      next
        case (Cons e r'')
        have "length r'' < n"
          using parse_chars_length [OF pc] skip_ws_Cons_length [OF Cons] lc by simp
        then have "parse_value n r'' \<noteq> PNoFuel" by (rule v)
        with sc True pc Cons show ?thesis by (simp add: pbind_wrap_ne)
      qed
    next
      case False
      with sc show ?thesis by (auto split: option.split)
    qed
  qed
  moreover have "parse_members (Suc n) acc s \<noteq> PNoFuel" if p: "length s < Suc n" for acc s
  proof (cases "skip_ws s")
    case Nil
    then show ?thesis by simp
  next
    case (Cons c cs)
    have lc: "length cs < n" using skip_ws_Cons_length [OF Cons] p by simp
    have "pbind (parse_member n cs) (\<lambda>(kv, r'). parse_members n (kv # acc) r') \<noteq> PNoFuel"
      by (rule pbind_ne [OF m [OF lc]]) (auto intro!: ms dest!: cm simp: less_trans [OF _ lc])
    then show ?thesis using Cons by auto
  qed
  ultimately show ?case by blast
qed

lemma parse_value_fuel_agree:
  "parse_value n s \<noteq> PNoFuel \<Longrightarrow> parse_value m s \<noteq> PNoFuel \<Longrightarrow> parse_value n s = parse_value m s"
  using parse_more_fuel [of n m s] parse_more_fuel [of m n s] by (cases "n \<le> m") auto

lemma parse_value_total: "parse_value (Suc (length s) + k) s \<noteq> PNoFuel"
  using parse_enough_fuel [of "Suc (length s) + k"] by simp

lemma py_json_loads_iff:
  "py_json_loads s = Some v \<longleftrightarrow> (\<exists>n r. parse_value n s = POk (v, r) \<and> skip_ws r = [])"
proof
  assume "py_json_loads s = Some v"
  then obtain r where "parse_value (Suc (length s)) s = POk (v, r)" "skip_ws r = []"
    by (auto simp: py_json_loads_def simp del: parse_value.simps split: parse_result.splits if_splits)
  then show "\<exists>n r. parse_value n s = POk (v, r) \<and> skip_ws r = []" by blast
next
  assume "\<exists>n r. parse_value n s = POk (v, r) \<and> skip_ws r = []"
  then obtain n r where p: "parse_value n s = POk (v, r)" "skip_ws r = []" by blast
  have "parse_value (Suc (length s)) s = POk (v, r)"
    using parse_value_fuel_agree [of n s "Suc (length s)"] parse_value_total [of s 0] p
    by (simp del: parse_value.simps)
  with p(2) show "py_json_loads s = Some v" by (simp add: py_json_loads_def)
qed

lemma dict_insert_keys: "map fst (dict_insert d kv) = (if fst kv \<in> set (map fst d) then map fst d else map fst d @ [fst kv])"
  by (simp add: dict_insert_def comp_def cong: map_cong)

lemma py_dict_fold:
  "distinct (map fst d) \<Longrightarrow> distinct (map fst (foldl dict_insert d kvs)) \<and>
     snd ` set (foldl dict_insert d kvs) \<subseteq> snd ` set d \<union> snd ` set kvs"
proof (induction kvs arbitrary: d)
  case Nil
  then show ?case by simp
next
  case (Cons kv kvs)
  have "distinct (map fst (dict_insert d kv))"
    using Cons.prems by (simp add: dict_insert_keys)
  moreover have "snd ` set (dict_insert d kv) \<subseteq> snd ` set d \<union> {snd kv}"
    by (auto simp: dict_insert_def)
  ultimately have "distinct (map fst (foldl dict_insert (dict_insert d kv) kvs))"
    "snd ` set (foldl dict_insert (dict_insert d kv) kvs) \<subseteq> snd ` set d \<union> {snd kv} \<union> snd ` set kvs"
    using Cons.IH [of "dict_insert d kv"] by blast+
  then show ?case by auto
qed

lemma py_dict_wf:
  "list_all (\<lambda>kv. wf_json (snd kv)) kvs \<Longrightarrow> wf_json (JObj (py_dict kvs))"
proof -
  assume a: "list_all (\<lambda>kv. wf_json (snd kv)) kvs"
  have d: "distinct (map fst (py_dict kvs))" and sub: "snd ` set (py_dict kvs) \<subseteq> snd ` set kvs"
    using py_dict_fold [of "[]" kvs] by (simp_all add: py_dict_def)
  have "wf_json (snd kv)" if k: "kv \<in> set (py_dict kvs)" for kv
  proof -
    from k sub have "snd kv \<in> snd ` set kvs" by blast
    then obtain kv' where "kv' \<in> set kvs" "snd kv = snd kv'" by (rule imageE)
    with a show ?thesis by (auto simp: list_all_iff)
  qed
  with d show ?thesis by (simp add: list_all_iff)
qed

lemma pbind_pair_POk:
  "pbind a (\<lambda>(v, r). g v r) = POk y \<Longrightarrow> \<exists>v r1. a = POk (v, r1) \<and> g v r1 = POk y"
  by (auto simp: pbind_def split: parse_result.splits)

lemma pbind_chain_POk:
  "pbind a (\<lambda>(v, r). pbind (b v r) (\<lambda>(vs, r'). POk (f vs, r'))) = POk (x, r) \<Longrightarrow>
   \<exists>v r1 vs. a = POk (v, r1) \<and> b v r1 = POk (vs, r) \<and> x = f vs"
  by (auto simp: pbind_def split: parse_result.splits)

lemma parse_wf:
  "(\<forall>s v r. parse_value n s = POk (v, r) \<longrightarrow> wf_json v) \<and>
   (\<forall>acc s vs r. list_all wf_json acc \<longrightarrow> parse_elems n acc s = POk (vs, r) \<longrightarrow> list_all wf_json vs) \<and>
   (\<forall>s kv r. parse_member n s = POk (kv, r) \<longrightarrow> wf_json (snd kv)) \<and>
   (\<forall>acc s kvs r. list_all (\<lambda>kv. wf_json (snd kv)) acc \<longrightarrow> parse_members n acc s = POk (kvs, r) \<longrightarrow>
      wf_json (JObj kvs))"
proof (induction n)
  case 0
  then show ?case by simp
next
  case (Suc n)
  then have v: "\<And>s v r. parse_value n s = POk (v, r) \<Longrightarrow> wf_json v"
    and e: "\<And>acc s vs r. list_all wf_json acc \<Longrightarrow> parse_elems n acc s = POk (vs, r) \<Longrightarrow> list_all wf_json vs"
    and m: "\<And>s kv r. parse_member n s = POk (kv, r) \<Longrightarrow> wf_json (snd kv)"
    and ms: "\<And>acc s kvs r. list_all (\<lambda>kv. wf_json (snd kv)) acc \<Longrightarrow> parse_members n acc s = POk (kvs, r) \<Longrightarrow>
      wf_json (JObj kvs)"
    by blast+
  have arr: "wf_json x"
    if h: "pbind (parse_value n cs) (\<lambda>(v, r). pbind (parse_elems n [v] r) (\<lambda>(vs, r'). POk (JArr vs, r'))) =
        POk (x, r)" for cs x r
  proof -
    obtain v1 r1 vs where "parse_value n cs = POk (v1, r1)" "parse_elems n [v1] r1 = POk (vs, r)" "x = JArr vs"
      using pbind_chain_POk [OF h] by blast
    with v e [of "[v1]"] show ?thesis by simp
  qed
  have obj: "wf_json x"
    if h: "pbind (parse_member n cs) (\<lambda>(kv, r). pbind (parse_members n [kv] r) (\<lambda>(kvs, r'). POk (JObj kvs, r'))) =
        POk (x, r)" for cs x r
  proof -
    obtain kv r1 kvs where "parse_member n cs = POk (kv, r1)" "parse_members n [kv] r1 = POk (kvs, r)" "x = JObj kvs"
      using pbind_chain_POk [OF h] by blast
    with m ms [of "[kv]"] show ?thesis by simp
  qed
  have "wf_json x" if p: "parse_value (Suc n) s = POk (x, r)" for s x r
    using p arr obj by (auto split: list.splits if_splits option.splits prod.splits)
  moreover have "list_all wf_json vs" if a: "list_all wf_json acc" and p: "parse_elems (Suc n) acc s = POk (vs, r)"
    for acc s vs r
  proof -
    have "list_all wf_json vs"
      if h: "pbind (parse_value n r0) (\<lambda>(v, r'). parse_elems n (v # acc) r') = POk (vs, r)" for r0
    proof -
      obtain v1 r1 where "parse_value n r0 = POk (v1, r1)" "parse_elems n (v1 # acc) r1 = POk (vs, r)"
        using pbind_pair_POk [OF h] by blast
      with a v e [of "v1 # acc"] show ?thesis by simp
    qed
    with p a show ?thesis by (auto split: list.splits if_splits)
  qed
  moreover have "wf_json (snd kv)" if p: "parse_member (Suc n) s = POk (kv, r)" for s kv r
  proof -
    have "wf_json (snd kv)"
      if h: "pbind (parse_value n r0) (\<lambda>(v, t). POk ((k, v), t)) = POk (kv, r)" for r0 k
    proof -
      obtain v1 r1 where "parse_value n r0 = POk (v1, r1)" "POk ((k, v1), r1) = POk (kv, r)"
        using pbind_pair_POk [OF h] by blast
      with v show ?thesis by auto
    qed
    with p show ?thesis by (auto split: list.splits if_splits option.splits prod.splits)
  qed
  moreover have "wf_json (JObj kvs)"
    if a: "list_all (\<lambda>kv. wf_json (snd kv)) acc" and p: "parse_members (Suc n) acc s = POk (kvs, r)"
    for acc s kvs r
  proof -
    have "wf_json (JObj kvs)"
      if h: "pbind (parse_member n r0) (\<lambda>(kv, r'). parse_members n (kv # acc) r') = POk (kvs, r)" for r0
    proof -
      obtain kv1 r1 where "parse_member n r0 = POk (kv1, r1)" "parse_members n (kv1 # acc) r1 = POk (kvs, r)"
        using pbind_pair_POk [OF h] by blast
      with a m ms [of "kv1 # acc"] show ?thesis by simp
    qed
    moreover have "wf_json (JObj (py_dict (rev acc)))"
      using a by (intro py_dict_wf) (simp add: list_all_iff)
    ultimately show ?thesis using p by (auto split: list.splits if_splits)
  qed
  ultimately show ?case by blast
qed

lemma remdups_first_snoc:
  "rev (remdups (rev (xs @ [x]))) = (if x \<in> set xs then rev (remdups (rev xs)) else rev (remdups (rev xs)) @ [x])"
  by simp

lemma dict_ref_snoc: "dict_ref (kvs @ [kv]) = dict_insert (dict_ref kvs) kv"
proof -
  obtain k v where kv: "kv = (k, v)" by (cases kv)
  have keys: "set (map fst (dict_ref kvs)) = set (map fst kvs)"
    by (simp add: dict_ref_def image_image)
  show ?thesis
  proof (cases "k \<in> set (map fst kvs)")
    case True
    then show ?thesis using keys
      by (auto simp: dict_ref_def dict_insert_def kv remdups_first_snoc comp_def)
  next
    case False
    have "map (\<lambda>k'. (k', the (if k' = k then Some v else map_of (rev kvs) k'))) (rev (remdups (rev (map fst kvs)))) =
        map (\<lambda>k'. (k', the (map_of (rev kvs) k'))) (rev (remdups (rev (map fst kvs))))"
      using False by (intro map_cong) auto
    with False show ?thesis using keys
      by (auto simp: dict_ref_def dict_insert_def kv remdups_first_snoc)
  qed
qed

lemma py_dict_eq_ref: "py_dict kvs = dict_ref kvs"
proof (induction kvs rule: rev_induct)
  case Nil
  then show ?case by (simp add: py_dict_def dict_ref_def)
next
  case (snoc kv kvs)
  then show ?case by (simp add: py_dict_def dict_ref_snoc)
qed

subsection \<open>Properties of json.loads\<close>

text \<open>C30. \<open>json.loads\<close> terminates on every input: the fuel it is given,
  one unit more than the length of its input, never runs out, and any more fuel
  gives the same result.\<close>

theorem json_loads_terminates:
  "parse_value (Suc (length s)) s \<noteq> PNoFuel \<and>
   parse_value (Suc (length s) + k) s = parse_value (Suc (length s)) s"
proof -
  have a: "parse_value (Suc (length s)) s \<noteq> PNoFuel"
    using parse_value_total [of s 0] by (simp del: parse_value.simps)
  have "parse_value (Suc (length s) + k) s \<noteq> PNoFuel" by (rule parse_value_total)
  with a show ?thesis using parse_value_fuel_agree by blast
qed

text \<open>C31. What \<open>json.loads\<close> returns is a Python value: every dict in it,
  at any depth, has distinct keys (a repeated key keeps its last value).\<close>

theorem json_loads_wf: "py_json_loads s = Some v \<Longrightarrow> wf_json v"
proof -
  assume "py_json_loads s = Some v"
  then obtain n r where "parse_value n s = POk (v, r)"
    using py_json_loads_iff by blast
  then show ?thesis using parse_wf [of n] by blast
qed

theorem json_loads_wf_witness:
  \<open>py_json_loads ''{"a": 1, "b": [true, null], "a": -2}'' = Some (JObj [(''a'', JInt (-2)), (''b'', JArr [JBool True, JNull])])
   \<and> wf_json (JObj [(''a'', JInt (-2)), (''b'', JArr [JBool True, JNull])])\<close>
proof -
  have h: \<open>py_json_loads ''{"a": 1, "b": [true, null], "a": -2}'' =
      Some (JObj [(''a'', JInt (-2)), (''b'', JArr [JBool True, JNull])])\<close>
    by code_simp
  from h json_loads_wf [OF h] show ?thesis by blast
qed

end
