(* ===== verification/Tests.thy ===== *)
theory Tests
  imports Flow JsonParse
begin








definition test_analyze_github_repo_success :: "world \<Rightarrow> bool" where
  "test_analyze_github_repo_success w =
     (case py_json_loads (fst (analyze_github_repo w ''https://github.com/owner/repo'' [])) of
        Some (JObj d) \<Rightarrow>
          map_of d ''name'' = Some (JStr ''Test Extension'') \<and>
          map_of d ''version'' = Some (JStr ''1.0.0'') \<and>
          map_of d ''description'' = Some (JStr ''A test extension'') \<and>
          map_of d ''manifest_version'' = Some (JInt 3) \<and>
          map_of d ''permissions'' = Some (JArr [JStr ''tabs'']) \<and>
          map_of d ''stars'' = Some (JInt 100) \<and>
          map_of d ''open_issues'' = Some (JInt 5)
      | _ \<Rightarrow> False)"

text \<open>Line 100 makes every \<open>get_contents\<close> of the repository the fixture
  returns raise.\<close>

definition files_raise :: "world \<Rightarrow> world" where
  "files_raise w =
     w\<lparr>get_repo := (\<lambda>n. case get_repo w n of Inr r \<Rightarrow> Inr (r\<lparr>contents := (\<lambda>_. None)\<rparr>) | Inl e \<Rightarrow> Inl e)\<rparr>"

definition test_analyze_github_repo_no_manifest :: "world \<Rightarrow> bool" where
  "test_analyze_github_repo_no_manifest w =
     py_startswith (fst (analyze_github_repo (files_raise w) ''https://github.com/owner/repo'' [])) ''Error''"


subsection \<open>Lemmas\<close>

lemma py_json_loads_E: "py_json_loads (CHR ''E'' # s) = None"
proof -
  have "parse_int (CHR ''E'' # s) = None"
    by (simp add: parse_int_def Let_def is_digit_def)
  then have "parse_value (Suc (Suc (length s))) (CHR ''E'' # s) = PError"
    by (simp add: skip_ws_def json_ws_def)
  then show ?thesis by (simp add: py_json_loads_def)
qed

lemma analyze_repo_error_out:
  assumes "get_repo w ''owner/repo'' = Inl e"
  shows "fst (analyze_github_repo w ''https://github.com/owner/repo'' []) =
    ''Error analyzing repository: '' @ exc_str e"
proof -
  have "parse_github_url ''https://github.com/owner/repo'' = Inr (''owner'', ''repo'')" by code_simp
  with assms show ?thesis
    by (simp add: analyze_github_repo_def analyze_body_repo_error)
qed

subsection \<open>Properties of the test suite\<close>



text \<open>C35. The analysis tests depend on the real GitHub when the repository
  object is not mocked (the fixture's \<open>patch('github.Github')\<close> does not
  reach the name the program imported): if fetching \<open>owner/repo\<close> raises,
  \<open>test_analyze_github_repo_success\<close> fails, and
  \<open>test_analyze_github_repo_no_manifest\<close> passes all the same, so it does
  not tell the missing-manifest branch from a missing repository.\<close>

theorem analysis_tests_offline:
  assumes "get_repo w ''owner/repo'' = Inl e"
  shows "\<not> test_analyze_github_repo_success w \<and> test_analyze_github_repo_no_manifest w"
proof -
  have f: "get_repo (files_raise w) ''owner/repo'' = Inl e" using assms by (simp add: files_raise_def)
  show ?thesis
    using analyze_repo_error_out [OF assms] analyze_repo_error_out [OF f]
    by (simp add: test_analyze_github_repo_success_def test_analyze_github_repo_no_manifest_def
        py_json_loads_E)
qed

theorem analysis_tests_offline_witness:
  "\<not> test_analyze_github_repo_success (mock_github\<lparr>get_repo := (\<lambda>_. Inl (GithubException ''Not Found''))\<rparr>) \<and>
   test_analyze_github_repo_no_manifest (mock_github\<lparr>get_repo := (\<lambda>_. Inl (GithubException ''Not Found''))\<rparr>)"
  by (rule analysis_tests_offline) simp

end
