(* ===== verification/JsonRoundtrip.thy ===== *)
theory JsonRoundtrip
  imports JsonParse
begin

text \<open>
  \<open>json.loads\<close> inverts \<open>json.dumps(indent=2)\<close>: the string the analysis
  returns (line 203) parses back to the context it was dumped from. The proof
  goes through the pieces of the dump: an escaped string literal, the decimal
  digits of an integer, whitespace and separators, and then arrays and objects
  by induction over \<open>dumps_at\<close>, each item's fuel combined by the monotonicity
  of the parser in its fuel.
\<close>

text \<open>What may follow a complete value in a dump: nothing, a separator, a
  closing bracket or whitespace.\<close>

definition value_end :: "string \<Rightarrow> bool" where
  "value_end r \<longleftrightarrow>
     r = [] \<or> hd r = CHR '','' \<or> hd r = CHR '']'' \<or> hd r = CHR ''}'' \<or> json_ws (hd r)"

subsection \<open>Lemmas\<close>

lemma hex_val_hex_digit: "n < 16 \<Longrightarrow> hex_val (hex_digit n) = Some n"
  by (auto simp: hex_val_def hex_digit_def is_digit_def digit_val_def of_char_char_of_small)

lemma hex_val_zero: "hex_val (CHR ''0'') = Some 0"
  by (simp add: hex_val_def is_digit_def digit_val_def)

lemma hex4_escape: "n < 256 \<Longrightarrow> hex4 (CHR ''0'' # CHR ''0'' # hex2 n) = Some n"
proof -
  assume n: "n < 256"
  then have "n div 16 < 16" "n mod 16 < 16" by auto
  then show ?thesis
    by (simp add: hex4_def hex2_def hex_val_hex_digit hex_val_zero)
qed

lemma char_of_code: "(of_char c :: nat) = k \<Longrightarrow> c = char_of k"
  by auto

lemma char_of_ctrl:
  "char_of (8::nat) = CHR 0x08" "char_of (9::nat) = CHR 0x09" "char_of (10::nat) = CHR 0x0A"
  "char_of (12::nat) = CHR 0x0C" "char_of (13::nat) = CHR 0x0D"
  by code_simp+

lemma length_hex2 [simp]: "length (hex2 n) = 2"
  by (simp add: hex2_def)

lemma json_escape_char_parse:
  "parse_chars acc (json_escape_char c @ r) = parse_chars (c # acc) r"
proof -
  let ?n = "of_char c :: nat"
  have n256: "?n < 256" by (rule nat_of_char_less_256)
  show ?thesis
  proof (cases "c = CHR 0x22 \<or> c = CHR 0x5C")
    case True
    then show ?thesis by (auto simp: json_escape_char_def short_escape_def)
  next
    case q: False
    show ?thesis
    proof (cases "?n \<in> {8, 9, 10, 12, 13}")
      case True
      with q show ?thesis
        by (auto simp: json_escape_char_def short_escape_def char_of_ctrl dest!: char_of_code)
    next
      case nc: False
      show ?thesis
      proof (cases "?n < 32 \<or> 126 < ?n")
        case True
        have "char_of ?n = c" by simp
        with True q nc hex4_escape [OF n256] show ?thesis
          by (simp add: json_escape_char_def short_escape_def Let_def)
      next
        case False
        with q nc show ?thesis by (simp add: json_escape_char_def Let_def)
      qed
    qed
  qed
qed

lemma parse_chars_json:
  "parse_chars acc (concat (map json_escape_char s) @ CHR 0x22 # r) = Some (rev acc @ s, r)"
  by (induction s arbitrary: acc) (simp_all add: json_escape_char_parse)

lemma digit_char: "k < 10 \<Longrightarrow> is_digit (char_of (48 + k)) \<and> digit_val (char_of (48 + k)) = k"
  by (simp add: is_digit_def digit_val_def of_char_char_of_small)

lemma digits_val_snoc: "digits_val (xs @ [c]) = 10 * digits_val xs + digit_val c"
  by (simp add: digits_val_def)

lemma string_of_nat_props:
  "(\<forall>c\<in>set (string_of_nat n). is_digit c) \<and> digits_val (string_of_nat n) = n \<and>
   string_of_nat n \<noteq> [] \<and> (hd (string_of_nat n) = CHR ''0'' \<longrightarrow> n = 0)"
proof (induction n rule: string_of_nat.induct)
  case (1 n)
  show ?case
  proof (cases "n < 10")
    case True
    have "char_of (48 + n) = CHR ''0'' \<Longrightarrow> n = 0"
    proof -
      assume h: "char_of (48 + n) = CHR ''0''"
      have "(of_char (char_of (48 + n) :: char) :: nat) = 48 + n" using True by (simp add: of_char_char_of_small)
      with h show "n = 0" by simp
    qed
    with True digit_char [OF True] show ?thesis
      by (subst (1 2 3 4) string_of_nat.simps) (simp add: digits_val_def)
  next
    case False
    then have ih: "(\<forall>c\<in>set (string_of_nat (n div 10)). is_digit c) \<and>
        digits_val (string_of_nat (n div 10)) = n div 10 \<and> string_of_nat (n div 10) \<noteq> [] \<and>
        (hd (string_of_nat (n div 10)) = CHR ''0'' \<longrightarrow> n div 10 = 0)"
      using "1.IH" by blast
    have "n mod 10 < 10" by simp
    note d = digit_char [OF this]
    from False have "n div 10 \<noteq> 0" by simp
    with ih d False show ?thesis
      by (subst (1 2 3 4) string_of_nat.simps) (simp add: digits_val_snoc)
  qed
qed

lemma value_end_not_digit: "value_end r \<Longrightarrow> r = [] \<or> \<not> is_digit (hd r)"
  by (auto simp: value_end_def is_digit_def json_ws_def)

lemma value_end_not_float: "value_end r \<Longrightarrow> \<not> float_follows r"
  by (auto simp: value_end_def float_follows_def json_ws_def split: list.splits)

lemma parse_int_digits:
  assumes d: "\<forall>c\<in>set d. is_digit c" "d \<noteq> []" "hd d = CHR ''0'' \<longrightarrow> d = [CHR ''0'']"
    and r: "value_end r"
  shows "parse_int (d @ r) = Some (int (digits_val d), r)"
    and "parse_int (CHR ''-'' # d @ r) = Some (- int (digits_val d), r)"
proof -
  have tw: "takeWhile is_digit (d @ r) = d"
    using d(1) value_end_not_digit [OF r] by (cases r) (simp_all add: takeWhile_append_stop)
  have nm: "hd d \<noteq> CHR ''-''" using d(1,2) by (cases d) (auto simp: is_digit_def)
  have ds: "(if d @ r \<noteq> [] \<and> hd (d @ r) = CHR ''0'' then [CHR ''0''] else takeWhile is_digit (d @ r)) = d"
    using d(2,3) tw by (cases d) auto
  have neg: "\<not> (d @ r \<noteq> [] \<and> hd (d @ r) = CHR ''-'')" using nm d(2) by simp
  have pos: "CHR ''-'' # d @ r \<noteq> [] \<and> hd (CHR ''-'' # d @ r) = CHR ''-''" by simp
  show "parse_int (d @ r) = Some (int (digits_val d), r)"
    unfolding parse_int_def Let_def if_not_P [OF neg] ds
    using d(2) value_end_not_float [OF r] by simp
  show "parse_int (CHR ''-'' # d @ r) = Some (- int (digits_val d), r)"
    unfolding parse_int_def Let_def if_P [OF pos] list.sel(3) ds
    using d(2) value_end_not_float [OF r] by simp
qed

lemma parse_int_string_of_int:
  assumes "value_end r"
  shows "parse_int (string_of_int i @ r) = Some (i, r)"
proof -
  let ?d = "string_of_nat (nat \<bar>i\<bar>)"
  have p: "\<forall>c\<in>set ?d. is_digit c" "?d \<noteq> []" "digits_val ?d = nat \<bar>i\<bar>"
    and z: "hd ?d = CHR ''0'' \<longrightarrow> nat \<bar>i\<bar> = 0"
    using string_of_nat_props [of "nat \<bar>i\<bar>"] by blast+
  have "char_of (48::nat) = CHR ''0''" by code_simp
  then have "string_of_nat 0 = [CHR ''0'']" by (subst string_of_nat.simps) simp
  with z have h: "hd ?d = CHR ''0'' \<longrightarrow> ?d = [CHR ''0'']" by auto
  show ?thesis
  proof (cases "i < 0")
    case True
    then have "string_of_int i = CHR ''-'' # ?d" by (simp add: string_of_int_def)
    with parse_int_digits(2) [OF p(1,2) h assms] p(3) True show ?thesis by simp
  next
    case False
    then have "string_of_int i = ?d" by (simp add: string_of_int_def)
    with parse_int_digits(1) [OF p(1,2) h assms] p(3) False show ?thesis by simp
  qed
qed

lemma parse_ok_mono:
  assumes "n \<le> m"
  shows "parse_value n s = POk x \<Longrightarrow> parse_value m s = POk x"
    and "parse_elems n acc s = POk y \<Longrightarrow> parse_elems m acc s = POk y"
    and "parse_member n s = POk z \<Longrightarrow> parse_member m s = POk z"
    and "parse_members n acc2 s = POk u \<Longrightarrow> parse_members m acc2 s = POk u"
  using parse_more_fuel [OF assms, of s acc acc2] by auto

lemma skip_ws_prefix: "set w \<subseteq> Collect json_ws \<Longrightarrow> skip_ws (w @ s) = skip_ws s"
  by (induction w) (auto simp: skip_ws_def)

lemma skip_ws_nonws: "\<not> json_ws c \<Longrightarrow> skip_ws (c # s) = c # s"
  by (simp add: skip_ws_def)

lemma nl_indent_ws: "set (nl_indent l) \<subseteq> Collect json_ws"
  by (auto simp: nl_indent_def json_ws_def)

lemma space_ws: "set '' '' \<subseteq> Collect json_ws"
  by (simp add: json_ws_def)

lemma parse_ws:
  assumes "set w \<subseteq> Collect json_ws"
  shows "parse_value n (w @ s) = parse_value n s"
    and "parse_elems n acc (w @ s) = parse_elems n acc s"
    and "parse_member n (w @ s) = parse_member n s"
    and "parse_members n acc2 (w @ s) = parse_members n acc2 s"
  by (cases n; simp add: skip_ws_prefix [OF assms])+

lemma digit_not_punct: "is_digit c \<Longrightarrow> \<not> json_ws c \<and> c \<noteq> CHR '']'' \<and> c \<noteq> CHR ''}''"
  by (auto simp: is_digit_def json_ws_def)

lemma dumps_at_Cons:
  "\<exists>c cs. dumps_at l v = c # cs \<and> \<not> json_ws c \<and> c \<noteq> CHR '']'' \<and> c \<noteq> CHR ''}''"
proof (cases v)
  case (JInt i)
  let ?d = "string_of_nat (nat \<bar>i\<bar>)"
  have "?d \<noteq> []" "is_digit (hd ?d)"
    using string_of_nat_props [of "nat \<bar>i\<bar>"] by auto
  then show ?thesis
    using JInt digit_not_punct [of "hd ?d"]
    by (cases ?d) (auto simp: string_of_int_def json_ws_def)
qed (auto simp: json_str_def json_ws_def)

lemma value_end_simps [simp]:
  "value_end []" "value_end (CHR '','' # s)" "value_end (nl_indent l @ s)"
  by (simp_all add: value_end_def nl_indent_def json_ws_def)

lemma value_end_items:
  "value_end (concat (map (\<lambda>y. CHR '','' # f y) ys) @ nl_indent l @ s)"
  by (cases ys) simp_all

lemma py_join_Cons: "py_join sep (x # xs) = x @ concat (map (\<lambda>y. sep @ y) xs)"
  by (induction xs arbitrary: x) simp_all

lemma py_dict_distinct:
  "distinct (map fst (d @ kvs)) \<Longrightarrow> foldl dict_insert d kvs = d @ kvs"
  by (induction kvs arbitrary: d) (auto simp: dict_insert_def)

lemma parse_elems_items:
  assumes "\<And>y r. y \<in> set ys \<Longrightarrow> value_end r \<Longrightarrow> \<exists>n. parse_value n (dumps_at k y @ r) = POk (y, r)"
  shows "\<exists>n. parse_elems n acc
      (concat (map (\<lambda>y. CHR '','' # nl_indent k @ dumps_at k y) ys) @ nl_indent l @ CHR '']'' # r) =
      POk (rev acc @ ys, r)"
  using assms
proof (induction ys arbitrary: acc)
  case Nil
  have "parse_elems (Suc 0) acc (nl_indent l @ CHR '']'' # r) = POk (rev acc, r)"
    by (simp add: parse_ws(2) [OF nl_indent_ws] skip_ws_nonws json_ws_def)
  then show ?case by (intro exI [of _ "Suc 0"]) simp
next
  case (Cons y ys)
  let ?rest = "concat (map (\<lambda>y. CHR '','' # nl_indent k @ dumps_at k y) ys) @ nl_indent l @ CHR '']'' # r"
  obtain n1 where n1: "parse_elems n1 (y # acc) ?rest = POk (rev (y # acc) @ ys, r)"
    using Cons.IH [of "y # acc"] Cons.prems by auto
  have "value_end ?rest" by (rule value_end_items)
  then obtain n2 where n2: "parse_value n2 (dumps_at k y @ ?rest) = POk (y, ?rest)"
    using Cons.prems [of y ?rest] by auto
  have "parse_elems (Suc (max n1 n2)) acc (CHR '','' # nl_indent k @ dumps_at k y @ ?rest) =
      POk (rev acc @ y # ys, r)"
    using parse_ok_mono(1) [OF _ n2, of "max n1 n2"] parse_ok_mono(2) [OF _ n1, of "max n1 n2"]
    by (simp add: skip_ws_nonws json_ws_def parse_ws(1) [OF nl_indent_ws])
  then show ?case by (intro exI [of _ "Suc (max n1 n2)"]) simp
qed

lemma parse_member_item:
  assumes "\<And>r. value_end r \<Longrightarrow> \<exists>n. parse_value n (dumps_at k v @ r) = POk (v, r)"
    and "value_end r"
  shows "\<exists>n. parse_member n (json_str key @ '': '' @ dumps_at k v @ r) = POk ((key, v), r)"
proof -
  obtain n where n: "parse_value n (dumps_at k v @ r) = POk (v, r)" using assms by blast
  have "parse_chars [] (concat (map json_escape_char key) @ CHR 0x22 # '': '' @ dumps_at k v @ r) =
      Some (key, '': '' @ dumps_at k v @ r)"
    using parse_chars_json [of "[]" key] by simp
  then have "parse_member (Suc n) (json_str key @ '': '' @ dumps_at k v @ r) = POk ((key, v), r)"
    using n parse_ws(1) [OF space_ws, of n "dumps_at k v @ r"]
    by (simp add: json_str_def skip_ws_nonws json_ws_def)
  then show ?thesis by blast
qed

lemma parse_members_items:
  assumes "\<And>kv r. kv \<in> set kvs \<Longrightarrow> value_end r \<Longrightarrow>
             \<exists>n. parse_value n (dumps_at k (snd kv) @ r) = POk (snd kv, r)"
  shows "\<exists>n. parse_members n acc
      (concat (map (\<lambda>kv. CHR '','' # nl_indent k @ json_str (fst kv) @ '': '' @ dumps_at k (snd kv)) kvs) @
       nl_indent l @ CHR ''}'' # r) =
      POk (py_dict (rev acc @ kvs), r)"
  using assms
proof (induction kvs arbitrary: acc)
  case Nil
  have "parse_members (Suc 0) acc (nl_indent l @ CHR ''}'' # r) = POk (py_dict (rev acc), r)"
    by (simp add: parse_ws(4) [OF nl_indent_ws] skip_ws_nonws json_ws_def)
  then show ?case by (intro exI [of _ "Suc 0"]) simp
next
  case (Cons kv kvs)
  let ?rest = "concat (map (\<lambda>kv. CHR '','' # nl_indent k @ json_str (fst kv) @ '': '' @ dumps_at k (snd kv)) kvs) @
       nl_indent l @ CHR ''}'' # r"
  obtain n1 where n1: "parse_members n1 (kv # acc) ?rest = POk (py_dict (rev (kv # acc) @ kvs), r)"
    using Cons.IH [of "kv # acc"] Cons.prems by auto
  have "value_end ?rest" by (rule value_end_items)
  then obtain n2 where n2: "parse_member n2 (json_str (fst kv) @ '': '' @ dumps_at k (snd kv) @ ?rest) =
      POk ((fst kv, snd kv), ?rest)"
    using parse_member_item [of k "snd kv" ?rest "fst kv"] Cons.prems [of kv] by auto
  have "parse_members (Suc (max n1 n2)) acc
      (CHR '','' # nl_indent k @ json_str (fst kv) @ '': '' @ dumps_at k (snd kv) @ ?rest) =
      POk (py_dict (rev acc @ kv # kvs), r)"
    using parse_ok_mono(3) [OF _ n2, of "max n1 n2"] parse_ok_mono(4) [OF _ n1, of "max n1 n2"]
    by (simp add: skip_ws_nonws json_ws_def parse_ws(3) [OF nl_indent_ws])
  then show ?case by (intro exI [of _ "Suc (max n1 n2)"]) simp
qed

lemma py_dict_id: "distinct (map fst kvs) \<Longrightarrow> py_dict kvs = kvs"
  using py_dict_distinct [of "[]" kvs] by (simp add: py_dict_def)

lemma string_of_int_head: "\<exists>c cs. string_of_int i = c # cs \<and> (c = CHR ''-'' \<or> is_digit c)"
proof -
  let ?d = "string_of_nat (nat \<bar>i\<bar>)"
  have "?d \<noteq> []" "is_digit (hd ?d)"
    using string_of_nat_props [of "nat \<bar>i\<bar>"] by auto
  then show ?thesis
    by (cases ?d) (auto simp: string_of_int_def)
qed

lemma int_head_facts:
  "c = CHR ''-'' \<or> is_digit c \<Longrightarrow>
   \<not> json_ws c \<and> c \<noteq> CHR '']'' \<and> c \<noteq> CHR ''}'' \<and> c \<noteq> CHR ''['' \<and> c \<noteq> CHR ''{'' \<and>
   c \<noteq> CHR 0x22 \<and> c \<noteq> CHR ''n'' \<and> c \<noteq> CHR ''t'' \<and> c \<noteq> CHR ''f''"
  by (auto simp: is_digit_def json_ws_def)

lemma parse_value_int:
  assumes "value_end r"
  shows "parse_value (Suc 0) (string_of_int i @ r) = POk (JInt i, r)"
proof -
  obtain c cs where c: "string_of_int i = c # cs" "c = CHR ''-'' \<or> is_digit c"
    using string_of_int_head by blast
  note h = int_head_facts [OF c(2)]
  have p: "parse_int (c # cs @ r) = Some (i, r)"
    using parse_int_string_of_int [OF assms, of i] c(1) by simp
  show ?thesis
    unfolding c(1) parse_value.simps(2) append_Cons
    using h p by (simp add: skip_ws_nonws)
qed
lemma dumps_at_JArr_Cons:
  "dumps_at l (JArr (v # vs)) =
     CHR ''['' # nl_indent (Suc l) @ dumps_at (Suc l) v @
     concat (map (\<lambda>y. CHR '','' # nl_indent (Suc l) @ dumps_at (Suc l) y) vs) @ nl_indent l @ '']''"
  by (simp add: py_join_Cons comp_def)

lemma dumps_at_JObj_Cons:
  "dumps_at l (JObj (kv # kvs)) =
     CHR ''{'' # nl_indent (Suc l) @ json_str (fst kv) @ '': '' @ dumps_at (Suc l) (snd kv) @
     concat (map (\<lambda>kv. CHR '','' # nl_indent (Suc l) @ json_str (fst kv) @ '': '' @ dumps_at (Suc l) (snd kv)) kvs) @
     nl_indent l @ ''}''"
  by (simp add: py_join_Cons comp_def)

lemma dumps_at_parse:
  "wf_json v \<Longrightarrow> value_end r \<Longrightarrow> \<exists>n. parse_value n (dumps_at l v @ r) = POk (v, r)"
proof (induction l v arbitrary: r rule: dumps_at.induct)
  case (1 l)
  have "parse_value (Suc 0) (''null'' @ r) = POk (JNull, r)" by (simp add: skip_ws_nonws json_ws_def)
  then show ?case by (intro exI [of _ "Suc 0"]) simp
next
  case (2 l b)
  have "parse_value (Suc 0) ((if b then ''true'' else ''false'') @ r) = POk (JBool b, r)"
    by (cases b) (simp_all add: skip_ws_nonws json_ws_def)
  then show ?case by (intro exI [of _ "Suc 0"]) simp
next
  case (3 l i)
  then show ?case using parse_value_int [of r i] by (intro exI [of _ "Suc 0"]) simp
next
  case (4 l s)
  have "parse_value (Suc 0) (json_str s @ r) = POk (JStr s, r)"
    using parse_chars_json [of "[]" s r] by (simp add: json_str_def skip_ws_nonws json_ws_def)
  then show ?case by (intro exI [of _ "Suc 0"]) simp
next
  case (5 l vs)
  show ?case
  proof (cases vs)
    case Nil
    have "parse_value (Suc 0) (''[]'' @ r) = POk (JArr [], r)" by (simp add: skip_ws_nonws json_ws_def)
    with Nil show ?thesis by (intro exI [of _ "Suc 0"]) simp
  next
    case (Cons v vs')
    let ?rest = "concat (map (\<lambda>y. CHR '','' # nl_indent (Suc l) @ dumps_at (Suc l) y) vs') @
      nl_indent l @ CHR '']'' # r"
    have ih: "\<exists>n. parse_value n (dumps_at (Suc l) x @ r') = POk (x, r')"
      if "x \<in> set vs" "value_end r'" for x r'
      using 5(1) [OF _ that(1)] 5(2) that Cons by (auto simp: list_all_iff)
    have "value_end ?rest" by (rule value_end_items)
    then obtain n1 where n1: "parse_value n1 (dumps_at (Suc l) v @ ?rest) = POk (v, ?rest)"
      using ih [of v] Cons by auto
    obtain n2 where n2: "parse_elems n2 [v] ?rest = POk (v # vs', r)"
      using parse_elems_items [of vs' "Suc l" "[v]" l r] ih Cons by auto
    obtain c cs where c: "dumps_at (Suc l) v = c # cs" "\<not> json_ws c" "c \<noteq> CHR '']''"
      using dumps_at_Cons by blast
    have "parse_value (Suc (max n1 n2)) (dumps_at l (JArr vs) @ r) = POk (JArr vs, r)"
      unfolding Cons dumps_at_JArr_Cons
      using parse_ok_mono(1) [OF _ n1, of "max n1 n2"] parse_ok_mono(2) [OF _ n2, of "max n1 n2"] c
      by (simp add: skip_ws_nonws json_ws_def skip_ws_prefix [OF nl_indent_ws]
          parse_ws(1) [OF nl_indent_ws])
    then show ?thesis by blast
  qed
next
  case (6 l kvs)
  show ?case
  proof (cases kvs)
    case Nil
    have "parse_value (Suc 0) (''{}'' @ r) = POk (JObj [], r)" by (simp add: skip_ws_nonws json_ws_def)
    with Nil show ?thesis by (intro exI [of _ "Suc 0"]) simp
  next
    case (Cons kv kvs')
    let ?rest = "concat (map (\<lambda>kv. CHR '','' # nl_indent (Suc l) @ json_str (fst kv) @ '': '' @
      dumps_at (Suc l) (snd kv)) kvs') @ nl_indent l @ CHR ''}'' # r"
    have ih: "\<exists>n. parse_value n (dumps_at (Suc l) (snd x) @ r') = POk (snd x, r')"
      if "x \<in> set kvs" "value_end r'" for x r'
      using 6(1) [OF _ that(1)] 6(2) that Cons by (auto simp: list_all_iff)
    have "value_end ?rest" by (rule value_end_items)
    then obtain n1 where n1: "parse_member n1 (json_str (fst kv) @ '': '' @ dumps_at (Suc l) (snd kv) @ ?rest) =
        POk ((fst kv, snd kv), ?rest)"
      using parse_member_item [of "Suc l" "snd kv" ?rest "fst kv"] ih [of kv] Cons by auto
    obtain n2 where n2: "parse_members n2 [kv] ?rest = POk (py_dict (kv # kvs'), r)"
      using parse_members_items [of kvs' "Suc l" "[kv]" l r] ih Cons by auto
    have d: "py_dict (kv # kvs') = kv # kvs'"
      using 6(2) Cons by (simp add: py_dict_id)
    have "parse_value (Suc (max n1 n2)) (dumps_at l (JObj kvs) @ r) = POk (JObj kvs, r)"
      unfolding Cons dumps_at_JObj_Cons
      using parse_ok_mono(3) [OF _ n1, of "max n1 n2"] parse_ok_mono(4) [OF _ n2, of "max n1 n2"] d
      by (simp add: skip_ws_nonws json_ws_def skip_ws_prefix [OF nl_indent_ws]
          parse_ws(3) [OF nl_indent_ws] json_str_def)
    then show ?thesis by blast
  qed
qed

lemma json_dumps_parses:
  assumes "wf_json v"
  shows "\<exists>n r. parse_value n (json_dumps v) = POk (v, r) \<and> skip_ws r = []"
proof -
  obtain n where n: "parse_value n (dumps_at 0 v @ []) = POk (v, [])"
    using dumps_at_parse [OF assms, of "[]" 0] by auto
  then show ?thesis
    by (intro exI [of _ n] exI [of _ "[]"]) (simp add: json_dumps_def skip_ws_def)
qed

subsection \<open>The roundtrip\<close>

text \<open>C32. \<open>json.loads(json.dumps(v, indent=2)) == v\<close> for every Python
  value \<open>v\<close> (dicts with distinct keys) of the model: strings with any
  character (escaped as \<open>ensure_ascii\<close> does), integers of any sign and
  size, nested lists and dicts.\<close>

theorem json_loads_dumps: "wf_json v \<Longrightarrow> py_json_loads (json_dumps v) = Some v"
  unfolding py_json_loads_iff by (rule json_dumps_parses)

theorem json_loads_dumps_witness:
  "wf_json (JObj [(''a'', JArr [JInt (-12), JStr (''x'' @ [CHR 0x22, CHR 0x0A, CHR 0xE9])]), (''b'', JObj [])]) \<and>
   py_json_loads (json_dumps (JObj [(''a'', JArr [JInt (-12), JStr (''x'' @ [CHR 0x22, CHR 0x0A, CHR 0xE9])]),
     (''b'', JObj [])])) =
   Some (JObj [(''a'', JArr [JInt (-12), JStr (''x'' @ [CHR 0x22, CHR 0x0A, CHR 0xE9])]), (''b'', JObj [])])"
  using json_loads_dumps [of "JObj [(''a'', JArr [JInt (-12), JStr (''x'' @ [CHR 0x22, CHR 0x0A, CHR 0xE9])]),
     (''b'', JObj [])]"] by simp

end
