(* ===== verification/Spec2Isabelle.thy ===== *)
theory Spec2Isabelle
  imports Tests JsonRoundtrip
begin

text \<open>
  Verification development of the Chrome extension submission-form agent:
  \<open>src/langchain_flow.py\<close> (the program) and \<open>src/test_langchain_flow.py\<close>
  (its tests). The program reads a GitHub repository URL, fetches the
  extension's files through the GitHub API, assembles a JSON context, and asks
  a chat-completion service three times (store listing, privacy practices,
  distribution) with fixed prompt templates, printing each answer.

  \<^bold>\<open>Effects.\<close> The program is single-threaded and sequential. Every effect it
  has is an event appended to a trace (\<open>World.event\<close>): a GitHub call
  (\<open>GhGetRepo\<close>, \<open>GhGetContents\<close>), a completion request
  (\<open>Complete\<close> with the messages, \<open>max_tokens\<close> and the model), a printed
  line, the prompt of \<open>input\<close>, a log record. Each operation takes the trace
  so far and returns it extended, so the order of the effects is part of every
  result. What the code calls outside \<open>src/\<close> is a field of
  \<open>World.world\<close>: \<open>get_repo\<close> (a PyGithub repository, with the encoded
  content of each path), base64-then-UTF-8 decoding, \<open>json.loads\<close>, and the
  completion client, which sees the whole trace (and so the request just
  made). Exceptions are values of \<open>PyRuntime.exc\<close> in a sum type
  \<open>exc + 'a\<close>.

  \<^bold>\<open>Theories\<close>, in dependency order:
  \<^item> \<open>Prelude\<close>: named theorem collections, model type names, generic list
    lemmas (splitting at the first element outside a class, stripping a
    trailing run).
  \<^item> \<open>PyRuntime\<close>: the Python runtime the code relies on: exceptions with
    \<open>str(e)\<close>, truthiness of \<open>Optional[str]\<close>, \<open>str.join\<close>,
    \<open>rstrip\<close>, \<open>strip\<close>, \<open>repr\<close>, \<open>str(int)\<close>, on 8-bit strings.
  \<^item> \<open>UrlParser\<close>: \<open>parse_github_url\<close> (lines 124--130): the
    \<open>re.search\<close> of \<open>github\.com[/:]([^/]+)/([^/]+)\<close> as an executable
    scan (\<open>match_groups\<close>, \<open>match_at\<close>, \<open>search_github\<close>), refined
    against the declarative leftmost-greedy meaning \<open>regex_match\<close>; then
    \<open>rstrip('.git')\<close>. Claims C1--C6: the scan finds exactly the leftmost
    match, valid and invalid URLs, and \<open>rstrip('.git')\<close> stripping a
    character set rather than the suffix.
  \<^item> \<open>Json\<close>: JSON values, \<open>dict.get\<close> (raising \<open>AttributeError\<close> on a
    non-dict) and \<open>json.dumps(indent=2)\<close> with \<open>ensure_ascii\<close>.
  \<^item> \<open>World\<close>: events, traces and their observations (\<open>stdout\<close>,
    \<open>completions\<close>, \<open>github_calls\<close>), and the world record.
  \<^item> \<open>Fetcher\<close>: \<open>get_file_content_safe\<close> (lines 132--138) and the
    \<open>a or b or c\<close> chains of lines 171--179 as \<open>first_found\<close> over the
    candidate lists. C14: what a chain yields and which files it requests.
  \<^item> \<open>Fixtures\<close>: the pytest fixtures as concrete worlds.
  \<^item> \<open>Analyzer\<close>: \<open>analyze_github_repo\<close> (lines 140--207): the body of the
    \<open>try\<close> as \<open>analyze_body\<close> with its helpers \<open>assemble\<close>,
    \<open>package_dependencies\<close>, \<open>build_context\<close>; the \<open>except\<close> clause in
    \<open>analyze_github_repo\<close>. C7--C13: the \<open>Error\<close> prefix is exact, the
    result and the GitHub calls on every branch (missing manifest, success with
    the eighteen keys, all optional files absent, non-dict manifest, invalid
    URL, missing repository).
  \<^item> \<open>Prompts\<close>: the three templates (lines 32--116) through one
    \<open>render_prompt\<close>; the rendered texts equal Python's character for
    character. C20--C21: every field line is in its prompt, and each prompt
    names the specification's keys in order.
  \<^item> \<open>Agent\<close>: the configuration asserts and the construction of the
    client (lines 15--30) as \<open>load_config\<close> with \<open>client_construction\<close>, and \<open>agent_tool\<close> (lines 209--224). C15--C19: the
    configuration check in both modes (with \<open>python -O\<close> a missing key or
    endpoint surfaces as the client constructor's \<open>TypeError\<close> or
    \<open>ValueError\<close>), success, service failure, no choices (with and
    without assertions), one request per call.
  \<^item> \<open>Flow\<close>: \<open>run_agentic_flow\<close> (lines 226--240), the entry point
    \<open>main_flow\<close> (lines 242--253) and the whole run \<open>program\<close>. C22--C26:
    the three sections in order with prints between requests, the spec's
    scenario 5, no request after a failed analysis, three requests after a
    successful one, the blank-URL and missing-configuration assertions.
  \<^item> \<open>JsonParse\<close>: \<open>json.loads\<close> (called at lines 152 and 162, and by the
    test on the analysis result) as a recursive-descent parser
    \<open>parse_value\<close>/\<open>parse_elems\<close>/\<open>parse_member\<close>/\<open>parse_members\<close>
    with fuel, and \<open>py_json_loads\<close>. The fuel lemmas show the parser
    monotone in its fuel (\<open>parse_more_fuel\<close>), consuming input
    (\<open>parse_consumes\<close>) and never out of fuel with more fuel than input
    (\<open>parse_enough_fuel\<close>). C30--C31: termination, and every result is a
    Python value (\<open>wf_json\<close>: dicts with distinct keys). The dict it
    builds by successive insertion equals the reference \<open>dict_ref\<close> (keys
    in first-insertion order, last value), \<open>py_dict_eq_ref\<close>.
  \<^item> \<open>JsonRoundtrip\<close>: C32, \<open>json.loads\<close> inverts
    \<open>json.dumps(indent=2)\<close> on every Python value, by induction over
    \<open>dumps_at\<close> with lemmas for escaped strings, integers, whitespace and
    the items of arrays and objects.
  \<^item> \<open>Tests\<close>: the eight test functions of
    \<open>src/test_langchain_flow.py\<close> as truth values over the configuration and
    the world the fixtures set up, with each test's own monkeypatches, and
    \<open>test_results\<close>, the suite as pytest reports it. C34: the six tests that do not
    touch GitHub pass for every configuration and every world whose completion
    is mocked; C35: when the repository object is not mocked
    (the \<open>patch('github.Github')\<close> of line 83 misses the imported name) and
    the fetch raises, the success test fails and the no-manifest test passes
    vacuously.
  \<^item> This theory: C27--C28 on the whole run, C33 (an accepted analysis result
    is valid JSON with the eighteen context keys, whenever the world's
    \<open>json.loads\<close> returns Python values as the model does).

  \<^bold>\<open>Python's assertions.\<close> The code validates with \<open>assert\<close>, which
  \<open>python -O\<close> removes. The configuration record carries \<open>__debug__\<close> as
  \<open>debug\<close>, and every assertion is a branch on it; the claims say which
  behaviour holds in which mode.

  \<^bold>\<open>Bounds and termination.\<close> The program's own definitions are
  structurally recursive or non-recursive: it has no unbounded loop (the regex
  scan recurses on the URL, the chains on the candidate list). The one fuelled
  definition is the JSON parser, whose recursion follows the nesting of the
  input: \<open>py_json_loads s\<close> gives it \<open>length s + 1\<close> units, which is
  enough because every call consumes a character before recursing
  (\<open>parse_enough_fuel\<close>); C30 states that this fuel never runs out and that
  more fuel changes nothing.

  \<^bold>\<open>Liveness.\<close> The program is a single pass with no reactive or
  waiting behaviour; its progress properties are that every definition is
  total (the parser by C30), and that once the analysis succeeds all three
  agent sections run whatever the service answers (C22, C24).

  \<^bold>\<open>Not modelled.\<close> The internals of base64 decoding and UTF-8 decoding
  (oracles of the world, given by their values on the test inputs);
  \<open>json.loads\<close> stays an oracle of the world so that the analysis lemmas
  hold for any decoder, and is modelled by \<open>JsonParse\<close>, to which C33 ties
  it; JSON floats, \<open>NaN\<close>, \<open>Infinity\<close> and \<open>\u\<close> escapes above
  U+00FF; characters beyond Latin-1 in \<open>repr\<close>,
  \<open>isspace\<close> and \<open>isprintable\<close>; the format of log records (their level
  and message are modelled, not the logging configuration); \<open>load_dotenv\<close>
  (the environment is taken as given); the Azure client beyond the two
  argument checks of its constructor, the transport and its timeouts (the completion service is an oracle);
  pytest's machinery (fixture scoping, \<open>capsys\<close>), of which only the effect
  on the world and on the captured output is modelled.
\<close>

subsection \<open>Lemmas\<close>

text \<open>The context the analysis builds is a Python value whenever the values
  \<open>json.loads\<close> returned to it are.\<close>

lemma py_dict_get_wf:
  "list_all (\<lambda>kv. wf_json (snd kv)) m \<Longrightarrow> wf_json dflt \<Longrightarrow> wf_json (py_dict_get m k dflt)"
  by (auto simp: py_dict_get_def list_all_iff split: option.split dest!: map_of_SomeD)

lemma py_get_wf: "wf_json v \<Longrightarrow> wf_json dflt \<Longrightarrow> py_get v k dflt = Inr x \<Longrightarrow> wf_json x"
  by (cases v) (auto simp: py_get_def intro: py_dict_get_wf)

lemma package_dependencies_wf:
  assumes "\<forall>s v. json_loads w s = Inr v \<longrightarrow> wf_json v"
  shows "wf_json (package_dependencies w p)"
proof -
  have e: "wf_json (JObj [])" by simp
  show ?thesis
    using assms
    by (auto simp: package_dependencies_def split: option.split sum.split prod.split)
      (metis e py_get_wf)+
qed

lemma build_context_wf:
  assumes "build_context md r d p l u repo = Inr v" and "wf_json md" and "wf_json d"
  shows "\<exists>kvs. v = JObj kvs \<and> wf_json v \<and>
    map fst kvs = [''name'', ''version'', ''description'', ''manifest_version'', ''permissions'',
      ''host_permissions'', ''content_scripts'', ''background'', ''readme'', ''dependencies'',
      ''privacy_policy'', ''license'', ''repo_url'', ''stars'', ''last_updated'', ''open_issues'',
      ''default_locale'', ''icons'']"
proof (cases md)
  case (JObj m)
  have "list_all (\<lambda>kv. wf_json (snd kv)) m" using assms(2) JObj by simp
  then show ?thesis
    using assms(1,3) JObj
    by (auto simp: build_context_def json_opt_str_def py_dict_get_wf split: option.split)
qed (use assms(1) in \<open>simp_all add: build_context_def\<close>)

subsection \<open>Properties of the whole run\<close>

text \<open>C27. In every run, whatever the environment, the services and the URL
  typed in, the phases do not interleave: every GitHub call comes before the
  first completion request. The run makes either no completion request or
  exactly three.\<close>

theorem program_phases:
  "\<exists>a b. snd (program dbg env w url) = a @ b \<and> completions a = [] \<and> github_calls b = [] \<and>
     (completions b = [] \<or> length (completions b) = 3)"
proof (cases "load_config dbg env")
  case (Inl e)
  then show ?thesis by (simp add: program_def)
next
  case (Inr cfg)
  show ?thesis
  proof (cases "debug cfg \<and> py_strip url = []")
    case True
    with Inr show ?thesis
      by (intro exI [of _ "[Input INPUT_PROMPT]"] exI [of _ "[]"])
         (simp add: program_def main_flow_def completions_def)
  next
    case False
    with Inr show ?thesis using main_flow_phases [OF False, of w] by (simp add: program_def)
  qed
qed

text \<open>C28. The end-to-end test run: with the four variables set, the mocked
  GitHub repository of the tests and a service answering \<open>mocked output\<close>,
  the program prints the URL prompt, the analysis notice, the completion notice
  and the three labelled sections, each followed by \<open>mocked output\<close>; no
  exception escapes.\<close>

theorem program_test_run:
  "fst (program True test_env mock_github ''https://github.com/owner/repo'') = None
   \<and> stdout (snd (program True test_env mock_github ''https://github.com/owner/repo'')) =
     ''Enter the GitHub repository URL of your Chrome Extension: '' @
     NL @ ''Analyzing repository...'' @ NL @
     NL @ ''Repository analysis complete. Running agent flow...'' @ NL @
     NL @ ''=== Store Listing Agent Output ==='' @ NL @ NL @ ''mocked output'' @ NL @
     NL @ ''=== Privacy Practices Agent Output ==='' @ NL @ NL @ ''mocked output'' @ NL @
     NL @ ''=== Distribution Agent Output ==='' @ NL @ NL @ ''mocked output'' @ NL"
proof -
  have cfg: "load_config True test_env = Inr test_config"
    by (simp add: load_config_def client_construction_def test_env_def test_config_def CONFIG_VARS_def)
  have "program True test_env mock_github ''https://github.com/owner/repo'' =
     (None, run_agentic_flow test_config mock_github
        (fst (analyze_github_repo mock_github ''https://github.com/owner/repo'' []))
        ([Input INPUT_PROMPT, Print ANALYZING] @
         snd (analyze_github_repo mock_github ''https://github.com/owner/repo'' []) @
         [Print (NL @ ''Repository analysis complete. Running agent flow...'')]))"
    using main_flow_analysis [OF test_url_not_blank, of test_config mock_github] mock_analysis_not_error
    by (simp add: program_def cfg Let_def)
  then show ?thesis
    by (simp add: mock_flow_stdout [OF mock_github_complete] analysis_stdout_Nil INPUT_PROMPT_def ANALYZING_def)
qed

text \<open>C33. The analysis result the orchestrator accepts (one that does not
  start with \<open>Error\<close>) is valid JSON: \<open>json.loads\<close> of it succeeds and
  yields a dict with the eighteen context keys in the source's order, provided
  the \<open>json.loads\<close> the analysis called returned Python values (dicts with
  distinct keys), as the real one does (C31). This is what
  \<open>test_analyze_github_repo_success\<close> relies on when it calls
  \<open>json.loads(result)\<close>.\<close>

theorem analysis_result_is_json:
  assumes loads: "\<forall>s v. json_loads w s = Inr v \<longrightarrow> wf_json v"
    and ok: "\<not> py_startswith (fst (analyze_github_repo w url tr)) ''Error''"
  shows "\<exists>kvs. py_json_loads (fst (analyze_github_repo w url tr)) = Some (JObj kvs) \<and>
    map fst kvs = [''name'', ''version'', ''description'', ''manifest_version'', ''permissions'',
      ''host_permissions'', ''content_scripts'', ''background'', ''readme'', ''dependencies'',
      ''privacy_policy'', ''license'', ''repo_url'', ''stars'', ''last_updated'', ''open_issues'',
      ''default_locale'', ''icons'']"
proof -
  obtain m md r p pp lc repo c where md: "json_loads w m = Inr md"
    and c: "build_context md r (package_dependencies w p) pp lc url repo = Inr c"
    and out: "fst (analyze_github_repo w url tr) = json_dumps c"
    using analyze_github_repo_not_error [OF ok] by (elim exE conjE) (rule that)
  have w1: "wf_json md" using loads md by blast
  have w2: "wf_json (package_dependencies w p)" using package_dependencies_wf [OF loads] .
  obtain kvs where kvs: "c = JObj kvs" "wf_json c"
    "map fst kvs = [''name'', ''version'', ''description'', ''manifest_version'', ''permissions'',
      ''host_permissions'', ''content_scripts'', ''background'', ''readme'', ''dependencies'',
      ''privacy_policy'', ''license'', ''repo_url'', ''stars'', ''last_updated'', ''open_issues'',
      ''default_locale'', ''icons'']"
    using build_context_wf [OF c w1 w2] by (elim exE conjE) (rule that)
  have "py_json_loads (json_dumps c) = Some c"
    unfolding py_json_loads_iff using json_dumps_parses [OF kvs(2)] .
  with out kvs(1,3) show ?thesis by simp
qed

theorem analysis_result_is_json_witness:
  "\<exists>kvs. py_json_loads (fst (analyze_github_repo mock_github ''https://github.com/owner/repo'' [])) =
      Some (JObj kvs) \<and>
    map fst kvs = [''name'', ''version'', ''description'', ''manifest_version'', ''permissions'',
      ''host_permissions'', ''content_scripts'', ''background'', ''readme'', ''dependencies'',
      ''privacy_policy'', ''license'', ''repo_url'', ''stars'', ''last_updated'', ''open_issues'',
      ''default_locale'', ''icons'']"
proof -
  have l: "\<forall>s v. json_loads mock_github s = Inr v \<longrightarrow> wf_json v"
    by (simp add: mock_github_def mock_json_loads_def mock_manifest_value_def)
  show ?thesis by (rule analysis_result_is_json [OF l mock_analysis_not_error])
qed

end
